theory Spec2Isabelle
  imports Main
begin

section \<open>The README generator's request handler\<close>

text \<open>
  The repository holds two versions of the handler \<^verbatim>\<open>POST\<close> of
  \<^verbatim>\<open>api/generate-readme\<close>: the file \<^verbatim>\<open>src/app/api/generate-readme/route.ts\<close>, which
  fetches from the hosting API one call after the other and builds the context with a
  template literal, and the file \<^verbatim>\<open>unnamed/part_000\<close>, which fetches concurrently
  (\<^verbatim>\<open>Promise.all\<close>) and builds the context with \<^verbatim>\<open>filter(Boolean).join\<close>. Both share
  \<^verbatim>\<open>safeDecodeBase64\<close>, the credential check and the regular expression for the URL.
  Definitions that embed the first file end in \<open>_route\<close>, those of the second in
  \<open>_part000\<close>; shared code has one definition.
\<close>

subsection \<open>Strings and the regular expression\<close>

text \<open>
  JavaScript strings are modelled as \<open>string\<close>, a character standing for a code unit.
  \<open>canonicalize\<close> is the case folding that
  the flag \<^verbatim>\<open>i\<close> applies to a character (without the flag \<^verbatim>\<open>u\<close>): upper case on the
  letters a to z. A character outside ASCII never folds to an ASCII one, and every
  character of the pattern is ASCII, so only the ASCII part of the folding is observed.
\<close>

definition canonicalize :: "char \<Rightarrow> char" where
  "canonicalize c =
     (let n = (of_char c :: nat) in if 97 \<le> n \<and> n \<le> 122 then char_of (n - 32) else c)"

text \<open>
  A backtracking matcher maps the rest of the input to the list of its possible matches
  (the matched text and what remains), in the order in which backtracking tries them.
\<close>

type_synonym 'a matcher = "string \<Rightarrow> ('a \<times> string) list"

text \<open>A literal under the flag \<^verbatim>\<open>i\<close>, such as \<^verbatim>\<open>github\.com\/\<close>.\<close>

definition lit_ci :: "string \<Rightarrow> string matcher" where
  "lit_ci p s =
     (if length p \<le> length s \<and> map canonicalize (take (length p) s) = map canonicalize p
      then [(take (length p) s, drop (length p) s)] else [])"

text \<open>The class \<^verbatim>\<open>[^\/]\<close>: any character but the slash (a line break included).\<close>

definition not_slash :: "char \<Rightarrow> bool" where
  "not_slash c = (c \<noteq> CHR ''/'')"

text \<open>\<^verbatim>\<open>X+\<close> for a character class: one character, then as many more as possible first.\<close>

fun plus_greedy :: "(char \<Rightarrow> bool) \<Rightarrow> string matcher" where
  "plus_greedy P [] = []"
| "plus_greedy P (c # cs) =
     (if P c then map (\<lambda>(t, r). (c # t, r)) (plus_greedy P cs) @ [([c], cs)] else [])"

text \<open>\<^verbatim>\<open>X+?\<close> for a character class: one character, then as few more as possible first.\<close>

fun plus_lazy :: "(char \<Rightarrow> bool) \<Rightarrow> string matcher" where
  "plus_lazy P [] = []"
| "plus_lazy P (c # cs) =
     (if P c then ([c], cs) # map (\<lambda>(t, r). (c # t, r)) (plus_lazy P cs) else [])"

text \<open>\<^verbatim>\<open>(X)?\<close>: the group first, then the empty match with the group undefined.\<close>

definition opt_group :: "string matcher \<Rightarrow> string option matcher" where
  "opt_group m s = map (\<lambda>(t, r). (Some t, r)) (m s) @ [(None, s)]"

text \<open>
  The pattern \<^verbatim>\<open>/github\.com\/([^\/]+)\/([^\/]+?)(\.git)?$/i\<close> (\<^verbatim>\<open>route.ts\<close>, line 45;
  \<^verbatim>\<open>part_000\<close>, line 38) tried at one position: the literal, the greedy group 1, the
  slash, the lazy group 2, the optional group 3 and the end of the input; the result is
  the groups 1 and 2 of every way to match, in backtracking order. \<^verbatim>\<open>$\<close> (without the
  flag \<^verbatim>\<open>m\<close>) holds at the end of the input only.
\<close>

definition github_re :: "string \<Rightarrow> (string \<times> string) list" where
  "github_re s =
     concat (map (\<lambda>(d, r0).
       concat (map (\<lambda>(g1, r1).
         concat (map (\<lambda>(sl, r2).
           concat (map (\<lambda>(g2, r3).
             concat (map (\<lambda>(g3, r4). if r4 = [] then [(g1, g2)] else [])
               (opt_group (lit_ci ''.git'') r3)))
             (plus_lazy not_slash r2)))
           (lit_ci ''/'' r1)))
         (plus_greedy not_slash r0)))
       (lit_ci ''github.com/'' s))"

text \<open>
  \<^verbatim>\<open>String.prototype.match\<close> with a pattern without the flag \<^verbatim>\<open>g\<close>: the pattern is
  tried at every position from the left, the end of the string included, and the first
  position with a match gives its first match.
\<close>

fun first_match :: "(string \<Rightarrow> 'a list) \<Rightarrow> string \<Rightarrow> 'a option" where
  "first_match m [] = (case m [] of [] \<Rightarrow> None | x # _ \<Rightarrow> Some x)"
| "first_match m (c # cs) = (case m (c # cs) of [] \<Rightarrow> first_match m cs | x # _ \<Rightarrow> Some x)"

definition githubUrlMatch :: "string \<Rightarrow> (string \<times> string) option" where
  "githubUrlMatch repoUrl = first_match github_re repoUrl"

subsection \<open>JavaScript values\<close>

text \<open>
  A value parsed from JSON. A number is kept as its string form (what \<^verbatim>\<open>String(n)\<close>
  returns): the handler only prints numbers and tests them for truth, and a number from
  JSON is false exactly when it prints as \<^verbatim>\<open>0\<close>. An object is the list of its own
  properties in the order in which \<^verbatim>\<open>Object.keys\<close> enumerates them.
\<close>

datatype json =
  JNull | JBool bool | JNum string | JStr string | JArr "json list" | JObj "(string \<times> json) list"

text \<open>\<^verbatim>\<open>ToBoolean\<close>.\<close>

fun truthy :: "json \<Rightarrow> bool" where
  "truthy JNull = False"
| "truthy (JBool b) = b"
| "truthy (JNum n) = (n \<noteq> ''0'')"
| "truthy (JStr s) = (s \<noteq> [])"
| "truthy (JArr xs) = True"
| "truthy (JObj kvs) = True"

text \<open>
  An exception as the handler reads it: \<^verbatim>\<open>error.status\<close> and \<^verbatim>\<open>error.message\<close>, each
  possibly undefined.
\<close>

record js_error =
  error_status :: "nat option"
  error_message :: "string option"

definition Error :: "string \<Rightarrow> js_error" where
  "Error msg = \<lparr>error_status = None, error_message = Some msg\<rparr>"

text \<open>The messages of the \<^verbatim>\<open>TypeError\<close>s are those of V8.\<close>

definition TypeError :: "string \<Rightarrow> js_error" where
  "TypeError msg = \<lparr>error_status = None, error_message = Some msg\<rparr>"

text \<open>
  \<^verbatim>\<open>v.k\<close> for a value other than \<^verbatim>\<open>null\<close> and a property \<^verbatim>\<open>k\<close> that no prototype
  defines (\<^verbatim>\<open>repoUrl\<close>, \<^verbatim>\<open>name\<close>, \<^verbatim>\<open>dependencies\<close>, \<^verbatim>\<open>scripts\<close>): the own property
  of an object, undefined (\<open>None\<close>) otherwise. On \<^verbatim>\<open>null\<close> the access throws; the callers
  below model that case themselves.
\<close>

fun get_prop :: "json \<Rightarrow> string \<Rightarrow> json option" where
  "get_prop (JObj kvs) k = map_of kvs k"
| "get_prop v k = None"

text \<open>\<^verbatim>\<open>v?.k\<close>: undefined on \<^verbatim>\<open>null\<close>.\<close>

definition opt_prop :: "json \<Rightarrow> string \<Rightarrow> json option" where
  "opt_prop v k = (case v of JNull \<Rightarrow> None | _ \<Rightarrow> get_prop v k)"

text \<open>The decimal form of a natural number, as a template literal prints it.\<close>

fun dec :: "nat \<Rightarrow> string" where
  "dec n = (if n < 10 then [char_of (48 + n)] else dec (n div 10) @ [char_of (48 + n mod 10)])"

declare dec.simps [simp del]

text \<open>\<^verbatim>\<open>Array.prototype.join\<close> on strings.\<close>

fun join :: "string \<Rightarrow> string list \<Rightarrow> string" where
  "join sep [] = []"
| "join sep [x] = x"
| "join sep (x # y # ys) = x @ sep @ join sep (y # ys)"

text \<open>
  \<^verbatim>\<open>Object.keys\<close>: the own enumerable property names; the indices of an array or of a
  string; nothing for a number or a boolean; a \<^verbatim>\<open>TypeError\<close> for \<^verbatim>\<open>null\<close>.
\<close>

fun Object_keys :: "json \<Rightarrow> js_error + string list" where
  "Object_keys JNull = Inl (TypeError ''Cannot convert undefined or null to object'')"
| "Object_keys (JBool b) = Inr []"
| "Object_keys (JNum n) = Inr []"
| "Object_keys (JStr s) = Inr (map dec [0..<length s])"
| "Object_keys (JArr xs) = Inr (map dec [0..<length xs])"
| "Object_keys (JObj kvs) = Inr (map fst kvs)"

text \<open>
  \<^verbatim>\<open>ToString\<close>, which a template literal applies to a value. An object prints as
  \<^verbatim>\<open>[object Object]\<close> through \<^verbatim>\<open>Object.prototype.toString\<close>, unless it has an own
  property \<^verbatim>\<open>toString\<close>: that one, parsed from JSON, is not callable, \<^verbatim>\<open>valueOf\<close>
  gives no primitive either, and the conversion throws. An array joins its elements
  with commas, \<^verbatim>\<open>null\<close> printing as nothing.
\<close>

fun ToString :: "json \<Rightarrow> js_error + string"
  and ToString_elems :: "json list \<Rightarrow> js_error + string list" where
  "ToString JNull = Inr ''null''"
| "ToString (JBool b) = Inr (if b then ''true'' else ''false'')"
| "ToString (JNum n) = Inr n"
| "ToString (JStr s) = Inr s"
| "ToString (JArr xs) =
     (case ToString_elems xs of Inl e \<Rightarrow> Inl e | Inr ss \<Rightarrow> Inr (join '','' ss))"
| "ToString (JObj kvs) =
     (if ''toString'' \<in> set (map fst kvs)
      then Inl (TypeError ''Cannot convert object to primitive value'')
      else Inr ''[object Object]'')"
| "ToString_elems [] = Inr []"
| "ToString_elems (x # xs) =
     (case (case x of JNull \<Rightarrow> Inr [] | _ \<Rightarrow> ToString x) of
        Inl e \<Rightarrow> Inl e
      | Inr s \<Rightarrow> (case ToString_elems xs of Inl e \<Rightarrow> Inl e | Inr ss \<Rightarrow> Inr (s # ss)))"

text \<open>\<^verbatim>\<open>s || d\<close> for a string \<^verbatim>\<open>s\<close> that may be undefined, null or empty.\<close>

definition or_else :: "string option \<Rightarrow> string \<Rightarrow> string" where
  "or_else s d = (case s of None \<Rightarrow> d | Some t \<Rightarrow> if t = [] then d else t)"

text \<open>\<^verbatim>\<open>${s}\<close> for a string that may be undefined.\<close>

definition template_str :: "string option \<Rightarrow> string" where
  "template_str s = (case s of None \<Rightarrow> ''undefined'' | Some t \<Rightarrow> t)"

text \<open>The truth value of a string that may be undefined or null.\<close>

definition truthy_str :: "string option \<Rightarrow> bool" where
  "truthy_str s = (case s of None \<Rightarrow> False | Some t \<Rightarrow> t \<noteq> [])"

definition nl :: string where
  "nl = [CHR 0x0A]"

subsection \<open>The outside world\<close>

text \<open>
  The data of the hosting API, typed as its client library types them:
  \<^verbatim>\<open>repos.get\<close> gives the description and the main language (each a string or
  \<^verbatim>\<open>null\<close>), \<^verbatim>\<open>repos.listLanguages\<close> a map from language to bytes (in the order of
  \<^verbatim>\<open>Object.keys\<close>), \<^verbatim>\<open>repos.getContent\<close> either the listing of a directory (an
  array, \<open>Listing\<close>) or one object (\<open>Single\<close>), which has a property \<^verbatim>\<open>content\<close> when
  it is a file (\<open>Single (Some content)\<close>) and none when it is a link or a submodule.
\<close>

record repo_data =
  repo_description :: "string option"
  repo_language :: "string option"

record entry =
  entry_name :: string
  entry_type :: string

datatype content_data = Listing "entry list" | Single "string option"

text \<open>
  The result of \<^verbatim>\<open>generateContent\<close>: \<^verbatim>\<open>result.response\<close> may be missing;
  \<^verbatim>\<open>response.text()\<close> returns the text or throws; \<^verbatim>\<open>promptFeedback?.blockReason\<close> and
  \<^verbatim>\<open>candidates?.[0]?.finishReason\<close> may be undefined.
\<close>

record gen_response =
  response_text :: "js_error + string"
  blockReason :: "string option"
  finishReason :: "string option"

record gen_result =
  response :: "gen_response option"

text \<open>The four requests that \<^verbatim>\<open>part_000\<close> sends to the hosting API at once.\<close>

datatype fetch = FRepo | FLanguages | FRoot | FPackageJson

text \<open>
  Everything the handler reads from outside: the two environment variables, the outcome
  of \<^verbatim>\<open>request.json()\<close>, the answers of the hosting API and of the inference API (an
  exception is \<open>Inl\<close>), the library functions behind \<^verbatim>\<open>safeDecodeBase64\<close>, and, for
  concurrent requests, the time at which each one settles.
\<close>

record world =
  GOOGLE_API_KEY :: "string option"
  GITHUB_PAT :: "string option"
  request_json :: "js_error + json"
  repos_get :: "string \<Rightarrow> string \<Rightarrow> js_error + repo_data"
  repos_listLanguages :: "string \<Rightarrow> string \<Rightarrow> js_error + (string \<times> nat) list"
  repos_getContent :: "string \<Rightarrow> string \<Rightarrow> string \<Rightarrow> js_error + content_data"
  settle_time :: "fetch \<Rightarrow> nat"
  Buffer_from_base64 :: "string \<Rightarrow> js_error + string"
  JSON_parse :: "string \<Rightarrow> js_error + json"
  generateContent :: "string \<Rightarrow> js_error + gen_result"

text \<open>The outbound network calls, as the handler issues them.\<close>

datatype call =
  ReposGet string string
| ListLanguages string string
| GetContent string string string
| GenerateContent string

text \<open>What the handler answers: \<^verbatim>\<open>{ readme }\<close> or \<^verbatim>\<open>{ error }\<close>, with a status.\<close>

datatype resp_body = Readme string | ErrorBody string

record http_response =
  status :: nat
  body :: resp_body

definition json_response :: "resp_body \<Rightarrow> nat \<Rightarrow> http_response" where
  "json_response b st = \<lparr>status = st, body = b\<rparr>"

subsection \<open>\<^verbatim>\<open>safeDecodeBase64\<close>\<close>

text \<open>
  Lines 10 to 19 of \<^verbatim>\<open>route.ts\<close>, 9 to 18 of \<^verbatim>\<open>part_000\<close>:
  \<^verbatim>\<open>if (!encoded) return null\<close>, then \<^verbatim>\<open>Buffer.from(encoded, 'base64').toString('utf-8')\<close>
  and \<^verbatim>\<open>JSON.parse\<close> inside a \<^verbatim>\<open>try\<close> whose \<^verbatim>\<open>catch\<close> returns \<^verbatim>\<open>null\<close>. The two
  library functions come from the world, and either may throw.
\<close>

definition safeDecodeBase64 :: "world \<Rightarrow> string option \<Rightarrow> json" where
  "safeDecodeBase64 w encoded =
     (case encoded of
        None \<Rightarrow> JNull
      | Some e \<Rightarrow>
          if e = [] then JNull
          else (case Buffer_from_base64 w e of
                  Inl error \<Rightarrow> JNull
                | Inr decoded \<Rightarrow>
                    (case JSON_parse w decoded of Inl error \<Rightarrow> JNull | Inr v \<Rightarrow> v)))"

subsection \<open>Credentials and the request body\<close>

text \<open>
  \<^verbatim>\<open>if (!apiKey || !githubPat)\<close> (\<^verbatim>\<open>route.ts\<close>, line 28; \<^verbatim>\<open>part_000\<close>, line 26): each
  variable may be unset or empty.
\<close>

definition missing_credentials :: "world \<Rightarrow> bool" where
  "missing_credentials w = (\<not> truthy_str (GOOGLE_API_KEY w) \<or> \<not> truthy_str (GITHUB_PAT w))"

definition could_not_parse :: js_error where
  "could_not_parse = Error ''Could not parse GitHub owner/repo from URL.''"

text \<open>\<^verbatim>\<open>body.repoUrl\<close>, which throws when the body is \<^verbatim>\<open>null\<close>.\<close>

definition body_repoUrl :: "json \<Rightarrow> js_error + json option" where
  "body_repoUrl b =
     (case b of
        JNull \<Rightarrow> Inl (TypeError ''Cannot read properties of null (reading 'repoUrl')'')
      | _ \<Rightarrow> Inr (get_prop b ''repoUrl''))"

text \<open>
  The first \<^verbatim>\<open>try\<close> of \<^verbatim>\<open>route.ts\<close> (lines 38 to 55): the URL must be a non-empty string that the
  pattern matches with two non-empty groups. The result is \<^verbatim>\<open>repoUrl\<close>, \<^verbatim>\<open>owner\<close> and
  \<^verbatim>\<open>repo\<close>, or the exception that the \<^verbatim>\<open>catch\<close> receives.
\<close>

definition parse_request_route :: "js_error + json \<Rightarrow> js_error + string \<times> string \<times> string" where
  "parse_request_route req =
     (case req of
        Inl e \<Rightarrow> Inl e
      | Inr b \<Rightarrow>
          (case body_repoUrl b of
             Inl e \<Rightarrow> Inl e
           | Inr (Some (JStr repoUrl)) \<Rightarrow>
               if repoUrl = [] then Inl (Error ''Invalid or missing repository URL.'')
               else (case githubUrlMatch repoUrl of
                       None \<Rightarrow> Inl could_not_parse
                     | Some (g1, g2) \<Rightarrow>
                         if g1 \<noteq> [] \<and> g2 \<noteq> [] then Inr (repoUrl, g1, g2)
                         else Inl could_not_parse)
           | Inr _ \<Rightarrow> Inl (Error ''Invalid or missing repository URL.'')))"

text \<open>
  The first \<^verbatim>\<open>try\<close> of \<^verbatim>\<open>part_000\<close> (lines 35 to 44): \<^verbatim>\<open>repoUrl?.match(...)\<close> is
  undefined for an
  undefined or \<^verbatim>\<open>null\<close> URL, and a \<^verbatim>\<open>TypeError\<close> for a value that is no string (it has
  no callable \<^verbatim>\<open>match\<close>).
\<close>

definition parse_request_part000 :: "js_error + json \<Rightarrow> js_error + string \<times> string \<times> string" where
  "parse_request_part000 req =
     (case req of
        Inl e \<Rightarrow> Inl e
      | Inr b \<Rightarrow>
          (case body_repoUrl b of
             Inl e \<Rightarrow> Inl e
           | Inr None \<Rightarrow> Inl could_not_parse
           | Inr (Some JNull) \<Rightarrow> Inl could_not_parse
           | Inr (Some (JStr repoUrl)) \<Rightarrow>
               (case githubUrlMatch repoUrl of
                  None \<Rightarrow> Inl could_not_parse
                | Some (g1, g2) \<Rightarrow>
                    if g1 = [] \<or> g2 = [] then Inl could_not_parse
                    else Inr (repoUrl, g1, g2))
           | Inr (Some _) \<Rightarrow> Inl (TypeError ''repoUrl?.match is not a function'')))"

text \<open>
  The answer of the \<^verbatim>\<open>catch\<close> of that \<^verbatim>\<open>try\<close>, the same in both files
  (\<^verbatim>\<open>route.ts\<close>, line 58; \<^verbatim>\<open>part_000\<close>, line 47), and the answer to missing
  credentials.
\<close>

definition bad_request :: "js_error \<Rightarrow> http_response" where
  "bad_request error =
     json_response (ErrorBody (or_else (error_message error) ''Invalid request format or URL.'')) 400"

definition server_configuration_error :: http_response where
  "server_configuration_error = json_response (ErrorBody ''Server configuration error.'') 500"

subsection \<open>Fetching from the hosting API\<close>

text \<open>The variables that the fetching fills, with their initial values.\<close>

record fetched =
  repoInfo :: "repo_data option"
  languages :: "(string \<times> nat) list option"
  rootContent :: "entry list"
  packageJsonContent :: json
  fetchError :: "string option"

definition nothing_fetched :: fetched where
  "nothing_fetched =
     \<lparr>repoInfo = None, languages = None, rootContent = [], packageJsonContent = JNull,
      fetchError = None\<rparr>"

text \<open>\<^verbatim>\<open>${error.status || 'Unknown'}\<close>.\<close>

definition status_or_unknown :: "js_error \<Rightarrow> string" where
  "status_or_unknown e =
     (case error_status e of None \<Rightarrow> ''Unknown'' | Some n \<Rightarrow> if n = 0 then ''Unknown'' else dec n)"

definition fetchError_part000 :: "js_error \<Rightarrow> string" where
  "fetchError_part000 error =
     ''Failed to fetch data from GitHub (Status: '' @ status_or_unknown error @ ''). '' @
     template_str (error_message error)"

definition fetchError_route :: "js_error \<Rightarrow> string" where
  "fetchError_route error =
     ''Failed to fetch data from GitHub (Status: '' @ status_or_unknown error @ ''). '' @
     template_str (error_message error) @ ''. Is the repository public and spelled correctly?''"

text \<open>
  What both files do with the answer for \<^verbatim>\<open>package.json\<close>: decode the property
  \<^verbatim>\<open>content\<close> when the data has one.
\<close>

definition decode_package_json :: "world \<Rightarrow> content_data \<Rightarrow> json" where
  "decode_package_json w d =
     (case d of Single (Some content) \<Rightarrow> safeDecodeBase64 w (Some content) | _ \<Rightarrow> JNull)"

text \<open>\<^verbatim>\<open>Array.isArray(data) ? data.map(...) : []\<close> for the root listing.\<close>

definition root_entries :: "content_data \<Rightarrow> entry list" where
  "root_entries d = (case d of Listing items \<Rightarrow> items | Single _ \<Rightarrow> [])"

text \<open>
  \<^verbatim>\<open>route.ts\<close> (lines 71 to 110) awaits one request after the other inside one
  \<^verbatim>\<open>try\<close>; the first
  failure ends the fetching and is recorded. The request for \<^verbatim>\<open>package.json\<close> has a
  \<^verbatim>\<open>try\<close> of its own, whose \<^verbatim>\<open>catch\<close> only logs, whatever the status.
\<close>

definition fetch_route :: "world \<Rightarrow> string \<Rightarrow> string \<Rightarrow> fetched \<times> call list" where
  "fetch_route w owner repo =
     (case repos_get w owner repo of
        Inl error \<Rightarrow>
          (nothing_fetched\<lparr>fetchError := Some (fetchError_route error)\<rparr>,
           [ReposGet owner repo])
      | Inr info \<Rightarrow>
          (case repos_listLanguages w owner repo of
             Inl error \<Rightarrow>
               (nothing_fetched\<lparr>repoInfo := Some info, fetchError := Some (fetchError_route error)\<rparr>,
                [ReposGet owner repo, ListLanguages owner repo])
           | Inr langs \<Rightarrow>
               (case repos_getContent w owner repo [] of
                  Inl error \<Rightarrow>
                    (nothing_fetched\<lparr>repoInfo := Some info, languages := Some langs,
                       fetchError := Some (fetchError_route error)\<rparr>,
                     [ReposGet owner repo, ListLanguages owner repo, GetContent owner repo []])
                | Inr root \<Rightarrow>
                    (nothing_fetched\<lparr>repoInfo := Some info, languages := Some langs,
                       rootContent := root_entries root,
                       packageJsonContent :=
                         (case repos_getContent w owner repo ''package.json'' of
                            Inl pkgError \<Rightarrow> JNull
                          | Inr d \<Rightarrow> decode_package_json w d)\<rparr>,
                     [ReposGet owner repo, ListLanguages owner repo, GetContent owner repo [],
                      GetContent owner repo ''package.json'']))))"

text \<open>
  \<^verbatim>\<open>Promise.all\<close> rejects with the reason of the request that is rejected first: the
  failed request that settles earliest, the earlier one in the array on a tie.
\<close>

fun first_rejection :: "(fetch \<Rightarrow> nat) \<Rightarrow> (fetch \<times> js_error) list \<Rightarrow> (fetch \<times> js_error) option" where
  "first_rejection t [] = None"
| "first_rejection t ((f, e) # rs) =
     (case first_rejection t rs of
        None \<Rightarrow> Some (f, e)
      | Some (g, e') \<Rightarrow> if t g < t f then Some (g, e') else Some (f, e))"

definition rejection :: "fetch \<Rightarrow> js_error + 'a \<Rightarrow> (fetch \<times> js_error) list" where
  "rejection f r = (case r of Inl e \<Rightarrow> [(f, e)] | Inr _ \<Rightarrow> [])"

text \<open>
  The \<^verbatim>\<open>catch\<close> on the promise for \<^verbatim>\<open>package.json\<close>: status 404 becomes \<^verbatim>\<open>null\<close>,
  any other error is thrown again.
\<close>

definition packageJsonPromise :: "world \<Rightarrow> string \<Rightarrow> string \<Rightarrow> js_error + content_data option" where
  "packageJsonPromise w owner repo =
     (case repos_getContent w owner repo ''package.json'' of
        Inl err \<Rightarrow> if error_status err = Some 404 then Inr None else Inl err
      | Inr d \<Rightarrow> Inr (Some d))"

text \<open>
  \<^verbatim>\<open>part_000\<close> (lines 58 to 89) starts the four requests, then awaits them together;
  the variables are
  assigned only when all four succeeded. (The last case below is never reached: without
  a rejection all four promises are fulfilled.)
\<close>

definition fetch_part000 :: "world \<Rightarrow> string \<Rightarrow> string \<Rightarrow> fetched \<times> call list" where
  "fetch_part000 w owner repo =
     (let repoPromise = repos_get w owner repo;
          langPromise = repos_listLanguages w owner repo;
          rootContentPromise = repos_getContent w owner repo [];
          pkgPromise = packageJsonPromise w owner repo;
          calls = [ReposGet owner repo, ListLanguages owner repo, GetContent owner repo [],
                   GetContent owner repo ''package.json'']
      in case first_rejection (settle_time w)
                (rejection FRepo repoPromise @ rejection FLanguages langPromise @
                 rejection FRoot rootContentPromise @ rejection FPackageJson pkgPromise) of
           Some (f, error) \<Rightarrow>
             (nothing_fetched\<lparr>fetchError := Some (fetchError_part000 error)\<rparr>, calls)
         | None \<Rightarrow>
             (case (repoPromise, langPromise, rootContentPromise, pkgPromise) of
                (Inr info, Inr langs, Inr root, Inr pkg) \<Rightarrow>
                  (nothing_fetched\<lparr>repoInfo := Some info, languages := Some langs,
                     rootContent := root_entries root,
                     packageJsonContent :=
                       (case pkg of None \<Rightarrow> JNull | Some d \<Rightarrow> decode_package_json w d)\<rparr>,
                   calls)
              | _ \<Rightarrow> (nothing_fetched, calls)))"

subsection \<open>The context\<close>

text \<open>
  The nine fragments, each an expression of the source (\<^verbatim>\<open>route.ts\<close>, lines 122 to
  130; \<^verbatim>\<open>part_000\<close>, lines 99 to 107), the same in both files but for the wording of the
  note.

  \<^verbatim>\<open>repoInfo ? `Description: ${repoInfo.description || 'N/A'}` : ''\<close>
\<close>

definition description_fragment :: "fetched \<Rightarrow> string" where
  "description_fragment f =
     (case repoInfo f of
        None \<Rightarrow> []
      | Some info \<Rightarrow> ''Description: '' @ or_else (repo_description info) ''N/A'')"

text \<open>\<^verbatim>\<open>repoInfo ? `Main Language: ${repoInfo.language || 'N/A'}` : ''\<close>\<close>

definition language_fragment :: "fetched \<Rightarrow> string" where
  "language_fragment f =
     (case repoInfo f of
        None \<Rightarrow> []
      | Some info \<Rightarrow> ''Main Language: '' @ or_else (repo_language info) ''N/A'')"

text \<open>\<^verbatim>\<open>languages ? `Language Breakdown: ${Object.keys(languages).join(', ')}` : ''\<close>\<close>

definition breakdown_fragment :: "fetched \<Rightarrow> string" where
  "breakdown_fragment f =
     (case languages f of
        None \<Rightarrow> []
      | Some langs \<Rightarrow> ''Language Breakdown: '' @ join '', '' (map fst langs))"

text \<open>
  \<^verbatim>\<open>rootContent.length > 0 ? `Root Directory Contents: ${rootContent.map(item =>
  item.name + (item.type === 'dir' ? '/' : '')).join(', ')}` : ''\<close>
\<close>

definition root_fragment :: "fetched \<Rightarrow> string" where
  "root_fragment f =
     (if length (rootContent f) > 0
      then ''Root Directory Contents: '' @
           join '', '' (map (\<lambda>item. entry_name item @ (if entry_type item = ''dir'' then ''/'' else []))
                          (rootContent f))
      else [])"

text \<open>
  \<^verbatim>\<open>packageJsonContent ? `Package Name: ${packageJsonContent.name || 'N/A'}` : ''\<close>;
  the name may be any value of JSON, and printing it may throw.
\<close>

definition name_fragment :: "json \<Rightarrow> js_error + string" where
  "name_fragment pkg =
     (if truthy pkg
      then (case (case get_prop pkg ''name'' of
                    None \<Rightarrow> Inr ''N/A''
                  | Some v \<Rightarrow> if truthy v then ToString v else Inr ''N/A'') of
              Inl e \<Rightarrow> Inl e
            | Inr n \<Rightarrow> Inr (''Package Name: '' @ n))
      else Inr [])"

text \<open>
  \<^verbatim>\<open>packageJsonContent?.dependencies ? `Dependencies:
  ${Object.keys(packageJsonContent.dependencies).slice(0, 10).join(', ')}
  ${Object.keys(packageJsonContent.dependencies).length > 10 ? '...' : ''}` : ''\<close>
  (one line in the source, with one space between the two substitutions).
\<close>

definition dependencies_fragment :: "json \<Rightarrow> js_error + string" where
  "dependencies_fragment pkg =
     (case opt_prop pkg ''dependencies'' of
        None \<Rightarrow> Inr []
      | Some d \<Rightarrow>
          if truthy d
          then (case Object_keys d of
                  Inl e \<Rightarrow> Inl e
                | Inr keys \<Rightarrow>
                    Inr (''Dependencies: '' @ join '', '' (take 10 keys) @ '' '' @
                         (if length keys > 10 then ''...'' else [])))
          else Inr [])"

text \<open>
  \<^verbatim>\<open>packageJsonContent?.scripts ? `Available Scripts:
  ${Object.keys(packageJsonContent.scripts).join(', ')}` : ''\<close>
\<close>

definition scripts_fragment :: "json \<Rightarrow> js_error + string" where
  "scripts_fragment pkg =
     (case opt_prop pkg ''scripts'' of
        None \<Rightarrow> Inr []
      | Some sc \<Rightarrow>
          if truthy sc
          then (case Object_keys sc of
                  Inl e \<Rightarrow> Inl e
                | Inr keys \<Rightarrow> Inr (''Available Scripts: '' @ join '', '' keys))
          else Inr [])"

text \<open>
  \<^verbatim>\<open>fetchError ? `\nNote: ...: ${fetchError}` : ''\<close>, with the wording of the file as
  \<open>note\<close>.
\<close>

definition note_fragment :: "string \<Rightarrow> fetched \<Rightarrow> string" where
  "note_fragment note f =
     (case fetchError f of
        None \<Rightarrow> []
      | Some fe \<Rightarrow> if fe = [] then [] else nl @ note @ fe)"

definition note_route :: string where
  "note_route = ''Note: There was an error fetching full details from GitHub: ''"

definition note_part000 :: string where
  "note_part000 = ''Note: GitHub fetch error occurred: ''"

text \<open>
  The nine fragments in the order of the source, evaluated from the first to the last;
  the first exception ends the evaluation.
\<close>

definition fragments :: "string \<Rightarrow> string \<Rightarrow> fetched \<Rightarrow> js_error + string list" where
  "fragments note repoUrl f =
     (case name_fragment (packageJsonContent f) of
        Inl e \<Rightarrow> Inl e
      | Inr pn \<Rightarrow>
          (case dependencies_fragment (packageJsonContent f) of
             Inl e \<Rightarrow> Inl e
           | Inr dp \<Rightarrow>
               (case scripts_fragment (packageJsonContent f) of
                  Inl e \<Rightarrow> Inl e
                | Inr sc \<Rightarrow>
                    Inr [''Repository URL: '' @ repoUrl, description_fragment f,
                         language_fragment f, breakdown_fragment f, root_fragment f,
                         pn, dp, sc, note_fragment note f])))"

text \<open>
  \<^verbatim>\<open>route.ts\<close>, lines 121 to 131: a template literal with one line for each fragment, each indented by
  ten spaces, after a first line break and before a last line of eight spaces.
\<close>

definition context_route :: "string \<Rightarrow> fetched \<Rightarrow> js_error + string" where
  "context_route repoUrl f =
     (case fragments note_route repoUrl f of
        Inl e \<Rightarrow> Inl e
      | Inr frs \<Rightarrow>
          Inr (concat (map (\<lambda>fr. nl @ replicate 10 CHR '' '' @ fr) frs) @
               nl @ replicate 8 CHR '' ''))"

text \<open>
  \<^verbatim>\<open>part_000\<close>, lines 98 to 108: \<^verbatim>\<open>[...].filter(Boolean).join('\n')\<close>; a string is
  false when it is empty.
\<close>

definition context_part000 :: "string \<Rightarrow> fetched \<Rightarrow> js_error + string" where
  "context_part000 repoUrl f =
     (case fragments note_part000 repoUrl f of
        Inl e \<Rightarrow> Inl e
      | Inr frs \<Rightarrow> Inr (join nl (filter (\<lambda>fr. fr \<noteq> []) frs)))"

subsection \<open>The prompt and the generation\<close>

text \<open>
  The prompt is a template literal around the context (\<^verbatim>\<open>route.ts\<close>, lines 133 to 155;
  \<^verbatim>\<open>part_000\<close>, lines 110 to 118): the text before \<^verbatim>\<open>${context}\<close> and the text after
  it.
\<close>

definition prompt_head_route :: string where
  "prompt_head_route =
     nl @ ''          Generate a comprehensive and well-structured README.md file in Markdown format based on the following context about the project:'' @
     nl @ ''          --- CONTEXT START ---'' @
     nl @ ''          ''"

definition prompt_tail_route :: string where
  "prompt_tail_route =
     nl @ ''          --- CONTEXT END ---'' @
     nl @
     nl @ ''          Use the provided context to fill out the sections accurately. If context is missing for a section, provide reasonable placeholders or omit the section.'' @
     nl @
     nl @ ''          Include sections for:'' @
     nl @ ''          - Project Title (Use Package Name if available, otherwise infer)'' @
     nl @ ''          - Badges (Suggest relevant badges like build status, license, npm version if applicable - use shields.io placeholders)'' @
     nl @ ''          - Description (Use provided description, expand if possible)'' @
     nl @ ''          - Key Features (Infer from context if possible)'' @
     nl @ ''          - Technologies Used (Based on Language Breakdown and Dependencies)'' @
     nl @ ''          - Getting Started (Prerequisites, Installation - reference dependencies/scripts if found)'' @
     nl @ ''          - Usage (Reference available scripts if found)'' @
     nl @ ''          - Contributing (Standard placeholder)'' @
     nl @ ''          - License (Suggest adding one)'' @
     nl @
     nl @ ''          Format the output strictly as Markdown content suitable for a README.md file.'' @
     nl @ ''          Do not include conversational text, preamble, or explanation before or after the Markdown content itself.'' @
     nl @ ''          Start directly with the Markdown (e.g., '# Project Title').'' @
     nl @ ''        ''"

definition prompt_head_part000 :: string where
  "prompt_head_part000 =
     nl @ ''          Generate a README.md file in Markdown format based on the following context:'' @
     nl @ ''          --- CONTEXT START ---'' @
     nl @ ''          ''"

definition prompt_tail_part000 :: string where
  "prompt_tail_part000 =
     nl @ ''          --- CONTEXT END ---'' @
     nl @
     nl @ ''          Focus on these sections, using the context: Project Title, Description, Technologies Used, Getting Started, Usage. Include placeholders if context is missing.'' @
     nl @ ''          Format strictly as Markdown, starting directly with the title (e.g., '# Project Title').'' @
     nl @ ''        ''"

text \<open>
  The \<^verbatim>\<open>catch\<close> of the second \<^verbatim>\<open>try\<close>, for an exception of the context or of
  \<^verbatim>\<open>generateContent\<close>. In \<^verbatim>\<open>route.ts\<close> (lines 192 to 199):
  \<^verbatim>\<open>errorMessage = error.message || 'An unknown error ...'\<close>, then
  \<^verbatim>\<open>fetchError ? `${fetchError}. ${errorMessage}` : errorMessage\<close>.
\<close>

definition processing_error_route :: "fetched \<Rightarrow> js_error \<Rightarrow> http_response" where
  "processing_error_route f error =
     (let errorMessage =
            or_else (error_message error) ''An unknown error occurred during README generation.'';
          fullErrorMessage =
            (case fetchError f of
               None \<Rightarrow> errorMessage
             | Some fe \<Rightarrow> if fe = [] then errorMessage else fe @ ''. '' @ errorMessage)
      in json_response (ErrorBody (''Failed to process request: '' @ fullErrorMessage)) 500)"

text \<open>
  In \<^verbatim>\<open>part_000\<close> (lines 143 to 148):
  \<^verbatim>\<open>fetchError ? `${fetchError}. ${error.message}` : error.message\<close>,
  then \<^verbatim>\<open>fullErrorMessage || 'Unknown AI processing error.'\<close>.
\<close>

definition processing_error_part000 :: "fetched \<Rightarrow> js_error \<Rightarrow> http_response" where
  "processing_error_part000 f error =
     (let fullErrorMessage =
            (case fetchError f of
               None \<Rightarrow> error_message error
             | Some fe \<Rightarrow>
                 if fe = [] then error_message error
                 else Some (fe @ ''. '' @ template_str (error_message error)))
      in json_response
           (ErrorBody (''Failed to process request: '' @
                       or_else fullErrorMessage ''Unknown AI processing error.'')) 500)"

text \<open>
  The handling of the result in \<^verbatim>\<open>route.ts\<close>, lines 167 to 189 (the empty \<^verbatim>\<open>if\<close>
  and \<^verbatim>\<open>try\<close> of lines 162 to 164 do nothing): no response object, the text, or the exception of
  \<^verbatim>\<open>text()\<close> with the blocking and finish reasons.
\<close>

definition handle_result_route :: "gen_result \<Rightarrow> http_response" where
  "handle_result_route result =
     (case response result of
        None \<Rightarrow>
          json_response
            (ErrorBody ''AI generation failed: No response received. Check API key, model name, or network status.'')
            500
      | Some r \<Rightarrow>
          (case response_text r of
             Inr generatedText \<Rightarrow> json_response (Readme generatedText) 200
           | Inl error \<Rightarrow>
               json_response
                 (ErrorBody
                    (''AI response error: Failed to generate content. Reason: '' @
                     or_else (error_message error) ''Extraction error'' @ ''.'' @
                     (if truthy_str (blockReason r)
                      then '' Blocking Reason: '' @ template_str (blockReason r) @ ''.'' else []) @
                     (if truthy_str (finishReason r) \<and> finishReason r \<noteq> Some ''STOP''
                      then '' Finish Reason: '' @ template_str (finishReason r) @ ''.'' else [])))
                 500))"

text \<open>The same in \<^verbatim>\<open>part_000\<close>, lines 129 to 141, with shorter messages.\<close>

definition handle_result_part000 :: "gen_result \<Rightarrow> http_response" where
  "handle_result_part000 result =
     (case response result of
        None \<Rightarrow> json_response (ErrorBody ''AI generation failed: No response received.'') 500
      | Some r \<Rightarrow>
          (case response_text r of
             Inr generatedText \<Rightarrow> json_response (Readme generatedText) 200
           | Inl error \<Rightarrow>
               json_response
                 (ErrorBody (''AI response error: '' @
                             or_else (error_message error) ''Failed to extract content.''))
                 500))"

text \<open>
  The second \<^verbatim>\<open>try\<close> (\<^verbatim>\<open>route.ts\<close>, lines 114 to 199; \<^verbatim>\<open>part_000\<close>, lines 92 to
  148): the context, the prompt, the call of the inference API and the handling of its
  result; the answer and the calls issued. (The constructor of the client and
  \<^verbatim>\<open>getGenerativeModel\<close> only build objects; the one call to the network is
  \<^verbatim>\<open>generateContent\<close>.)
\<close>

definition generate_route :: "world \<Rightarrow> string \<Rightarrow> fetched \<Rightarrow> http_response \<times> call list" where
  "generate_route w repoUrl f =
     (case context_route repoUrl f of
        Inl error \<Rightarrow> (processing_error_route f error, [])
      | Inr context \<Rightarrow>
          (let prompt = prompt_head_route @ context @ prompt_tail_route
           in (case generateContent w prompt of
                 Inl error \<Rightarrow> processing_error_route f error
               | Inr result \<Rightarrow> handle_result_route result,
               [GenerateContent prompt])))"

definition generate_part000 :: "world \<Rightarrow> string \<Rightarrow> fetched \<Rightarrow> http_response \<times> call list" where
  "generate_part000 w repoUrl f =
     (case context_part000 repoUrl f of
        Inl error \<Rightarrow> (processing_error_part000 f error, [])
      | Inr context \<Rightarrow>
          (let prompt = prompt_head_part000 @ context @ prompt_tail_part000
           in (case generateContent w prompt of
                 Inl error \<Rightarrow> processing_error_part000 f error
               | Inr result \<Rightarrow> handle_result_part000 result,
               [GenerateContent prompt])))"

subsection \<open>The handler\<close>

text \<open>
  \<^verbatim>\<open>POST\<close> of \<^verbatim>\<open>route.ts\<close> (lines 21 to 200): the answer, and the outbound calls in
  the order in which they were issued.
\<close>

definition POST_route :: "world \<Rightarrow> http_response \<times> call list" where
  "POST_route w =
     (if missing_credentials w then (server_configuration_error, [])
      else case parse_request_route (request_json w) of
             Inl error \<Rightarrow> (bad_request error, [])
           | Inr (repoUrl, owner, repo) \<Rightarrow>
               (let (f, fetches) = fetch_route w owner repo;
                    (answer, generation) = generate_route w repoUrl f
                in (answer, fetches @ generation)))"

text \<open>\<^verbatim>\<open>POST\<close> of \<^verbatim>\<open>part_000\<close> (lines 20 to 149).\<close>

definition POST_part000 :: "world \<Rightarrow> http_response \<times> call list" where
  "POST_part000 w =
     (if missing_credentials w then (server_configuration_error, [])
      else case parse_request_part000 (request_json w) of
             Inl error \<Rightarrow> (bad_request error, [])
           | Inr (repoUrl, owner, repo) \<Rightarrow>
               (let (f, fetches) = fetch_part000 w owner repo;
                    (answer, generation) = generate_part000 w repoUrl f
                in (answer, fetches @ generation)))"

subsection \<open>Predicates of the specification\<close>

text \<open>Two strings are equal up to the case of their ASCII letters.\<close>

definition ci_eq :: "string \<Rightarrow> string \<Rightarrow> bool" where
  "ci_eq s p = (map canonicalize s = map canonicalize p)"

text \<open>A path segment: a string without a slash.\<close>

definition slash_free :: "string \<Rightarrow> bool" where
  "slash_free s = (CHR ''/'' \<notin> set s)"

text \<open>The name ends in \<^verbatim>\<open>.git\<close> (in any case) after at least one character.\<close>

definition ends_with_git :: "string \<Rightarrow> bool" where
  "ends_with_git repo = (4 < length repo \<and> ci_eq (drop (length repo - 4) repo) ''.git'')"

text \<open>
  The request carries a URL that the handler recognizes: the body is parsed, its
  \<^verbatim>\<open>repoUrl\<close> is a string, and the pattern matches it.
\<close>

definition recognizable_repoUrl :: "js_error + json \<Rightarrow> bool" where
  "recognizable_repoUrl req =
     (case req of
        Inl e \<Rightarrow> False
      | Inr b \<Rightarrow>
          (case body_repoUrl b of
             Inr (Some (JStr s)) \<Rightarrow> githubUrlMatch s \<noteq> None
           | _ \<Rightarrow> False))"

subsection \<open>Failures of the generation\<close>

text \<open>
  The generation fails for the parsed URL and what was fetched: assembling the
  context throws, the call of the inference API throws, its result has no response, or
  \<^verbatim>\<open>response.text()\<close> throws.
\<close>

definition generation_fails_route :: "world \<Rightarrow> string \<Rightarrow> fetched \<Rightarrow> bool" where
  "generation_fails_route w repoUrl f =
     (case context_route repoUrl f of
        Inl e \<Rightarrow> True
      | Inr ctx \<Rightarrow>
          (case generateContent w (prompt_head_route @ ctx @ prompt_tail_route) of
             Inl e \<Rightarrow> True
           | Inr result \<Rightarrow>
               (case response result of
                  None \<Rightarrow> True
                | Some rsp \<Rightarrow> (case response_text rsp of Inl e \<Rightarrow> True | Inr t \<Rightarrow> False))))"

definition generation_fails_part000 :: "world \<Rightarrow> string \<Rightarrow> fetched \<Rightarrow> bool" where
  "generation_fails_part000 w repoUrl f =
     (case context_part000 repoUrl f of
        Inl e \<Rightarrow> True
      | Inr ctx \<Rightarrow>
          (case generateContent w (prompt_head_part000 @ ctx @ prompt_tail_part000) of
             Inl e \<Rightarrow> True
           | Inr result \<Rightarrow>
               (case response result of
                  None \<Rightarrow> True
                | Some rsp \<Rightarrow> (case response_text rsp of Inl e \<Rightarrow> True | Inr t \<Rightarrow> False))))"

subsection \<open>An auxiliary function\<close>

text \<open>
  The end of the pattern, \<^verbatim>\<open>(\.git)?$\<close>, after group 1 matched \<open>g1\<close>, group 2
  matched \<open>g2\<close> and \<open>r3\<close> remains: the suffix first, then the end of the input.
\<close>

definition git_tail :: "string \<Rightarrow> string \<times> string \<Rightarrow> (string \<times> string) list" where
  "git_tail g1 = (\<lambda>(g2, r3). (if ci_eq r3 ''.git'' then [(g1, g2)] else []) @ (if r3 = [] then [(g1, g2)] else []))"

subsection \<open>Example requests\<close>

text \<open>
  A configured server, the request for \<^verbatim>\<open>https://github.com/acme/widget\<close>, a hosting
  API that knows the repository (its manifest is \<^verbatim>\<open>{}\<close>) and an inference API that
  answers \<^verbatim>\<open># widget\<close>.
\<close>

definition acme_world :: world where
  "acme_world =
     \<lparr>GOOGLE_API_KEY = Some ''key'', GITHUB_PAT = Some ''pat'',
      request_json = Inr (JObj [(''repoUrl'', JStr ''https://github.com/acme/widget'')]),
      repos_get = (\<lambda>owner repo. Inr \<lparr>repo_description = Some ''A widget'', repo_language = None\<rparr>),
      repos_listLanguages = (\<lambda>owner repo. Inr [(''TypeScript'', 120), (''CSS'', 7)]),
      repos_getContent = (\<lambda>owner repo path.
         if path = [] then Inr (Listing [\<lparr>entry_name = ''src'', entry_type = ''dir''\<rparr>,
                                        \<lparr>entry_name = ''package.json'', entry_type = ''file''\<rparr>])
         else Inr (Single (Some ''e30=''))),
      settle_time = (\<lambda>f. 0),
      Buffer_from_base64 = (\<lambda>encoded. Inr ''{}''),
      JSON_parse = (\<lambda>decoded. Inr (JObj [])),
      generateContent = (\<lambda>prompt.
         Inr \<lparr>response = Some \<lparr>response_text = Inr ''# widget'', blockReason = None,
                                 finishReason = Some ''STOP''\<rparr>\<rparr>)\<rparr>"

text \<open>The same request with a trailing slash, which the pattern does not match.\<close>

definition trailing_slash_world :: world where
  "trailing_slash_world =
     acme_world\<lparr>request_json := Inr (JObj [(''repoUrl'', JStr ''https://github.com/acme/widget/'')])\<rparr>"

text \<open>A body without \<^verbatim>\<open>repoUrl\<close>, and a body whose \<^verbatim>\<open>repoUrl\<close> is a number.\<close>

definition missing_url_world :: world where
  "missing_url_world = acme_world\<lparr>request_json := Inr (JObj [])\<rparr>"

definition numeric_url_world :: world where
  "numeric_url_world = acme_world\<lparr>request_json := Inr (JObj [(''repoUrl'', JNum ''42'')])\<rparr>"

text \<open>The request with the trailing slash on a server without the token of the hosting API.\<close>

definition unconfigured_world :: world where
  "unconfigured_world = trailing_slash_world\<lparr>GITHUB_PAT := None\<rparr>"

text \<open>The first request on a server whose key of the inference API is empty.\<close>

definition no_google_key_world :: world where
  "no_google_key_world = acme_world\<lparr>GOOGLE_API_KEY := Some []\<rparr>"

text \<open>The first request when \<^verbatim>\<open>JSON.parse\<close> rejects the manifest.\<close>

definition unparsable_manifest_world :: world where
  "unparsable_manifest_world =
     acme_world\<lparr>JSON_parse := (\<lambda>decoded. Inl (Error ''Unexpected end of JSON input''))\<rparr>"

text \<open>A manifest with eleven dependencies.\<close>

definition eleven_dependencies :: json where
  "eleven_dependencies =
     JObj [(''name'', JStr ''widget''),
           (''dependencies'',
            JObj [(''a'', JStr ''1''), (''b'', JStr ''1''), (''c'', JStr ''1''), (''d'', JStr ''1''),
                  (''e'', JStr ''1''), (''f'', JStr ''1''), (''g'', JStr ''1''), (''h'', JStr ''1''),
                  (''i'', JStr ''1''), (''j'', JStr ''1''), (''k'', JStr ''1'')])]"

text \<open>A request with path segments after the repository.\<close>

definition tree_main_world :: world where
  "tree_main_world =
     acme_world\<lparr>request_json :=
       Inr (JObj [(''repoUrl'', JStr ''https://github.com/acme/widget/tree/main'')])\<rparr>"

text \<open>
  The same for a repository named \<^verbatim>\<open>github.com\<close>: the pattern matches at the name of the
  repository.
\<close>

definition repo_named_github_com_world :: world where
  "repo_named_github_com_world =
     acme_world\<lparr>request_json :=
       Inr (JObj [(''repoUrl'', JStr ''https://github.com/acme/github.com/tree/main'')])\<rparr>"

text \<open>
  The hosting API does not know the repository (status 404 for the metadata), and the
  inference API withholds its answer, so that \<^verbatim>\<open>response.text()\<close> throws.
\<close>

definition blocked_after_not_found_world :: world where
  "blocked_after_not_found_world =
     acme_world\<lparr>
       repos_get := (\<lambda>owner repo.
          Inl \<lparr>error_status = Some 404, error_message = Some ''Not Found''\<rparr>),
       generateContent := (\<lambda>prompt.
          Inr \<lparr>response = Some \<lparr>response_text = Inl (Error ''Text not available. Response was blocked due to SAFETY''),
                                 blockReason = Some ''SAFETY'', finishReason = None\<rparr>\<rparr>)\<rparr>"

text \<open>The repository has no manifest: the lookup of \<^verbatim>\<open>package.json\<close> fails with 404.\<close>

definition manifest_not_found_world :: world where
  "manifest_not_found_world =
     acme_world\<lparr>repos_getContent := (\<lambda>owner repo path.
        if path = [] then Inr (Listing [\<lparr>entry_name = ''src'', entry_type = ''dir''\<rparr>])
        else Inl \<lparr>error_status = Some 404, error_message = Some ''Not Found''\<rparr>)\<rparr>"

text \<open>The lookup of \<^verbatim>\<open>package.json\<close> fails with status 500.\<close>

definition manifest_server_error_world :: world where
  "manifest_server_error_world =
     acme_world\<lparr>repos_getContent := (\<lambda>owner repo path.
        if path = [] then Inr (Listing [\<lparr>entry_name = ''src'', entry_type = ''dir''\<rparr>])
        else Inl \<lparr>error_status = Some 500, error_message = Some ''Server Error''\<rparr>)\<rparr>"

text \<open>The metadata was fetched, but the repository has no description and no language.\<close>

definition bare_metadata :: fetched where
  "bare_metadata =
     nothing_fetched\<lparr>repoInfo := Some \<lparr>repo_description = None, repo_language = None\<rparr>\<rparr>"

text \<open>The first request when the inference API withholds its answer.\<close>

definition blocked_world :: world where
  "blocked_world =
     acme_world\<lparr>generateContent := (\<lambda>prompt.
        Inr \<lparr>response = Some \<lparr>response_text = Inl (Error ''Text not available. Response was blocked due to SAFETY''),
                               blockReason = Some ''SAFETY'', finishReason = None\<rparr>\<rparr>)\<rparr>"

section \<open>Properties\<close>

subsection \<open>The pieces of the pattern\<close>

text \<open>
  Case folding keeps the slash apart from every other character; a literal matches
  exactly the prefixes equal to it up to case; the quantified class matches exactly the
  non-empty prefixes made of its characters.
\<close>

lemma canonicalize_slash: "canonicalize c = CHR ''/'' \<longleftrightarrow> c = CHR ''/''"
proof
  assume h: "canonicalize c = CHR ''/''"
  show "c = CHR ''/''"
  proof (cases "97 \<le> (of_char c :: nat) \<and> (of_char c :: nat) \<le> 122")
    case True
    then have "canonicalize c = char_of ((of_char c :: nat) - 32)"
      by (simp add: canonicalize_def Let_def)
    then have "(of_char (canonicalize c) :: nat) = ((of_char c :: nat) - 32) mod 256"
      by simp
    with h True show ?thesis by auto
  next
    case False
    with h show ?thesis by (simp add: canonicalize_def Let_def)
  qed
next
  assume "c = CHR ''/''"
  then show "canonicalize c = CHR ''/''" by (simp add: canonicalize_def)
qed

lemma ci_eq_slash_free: "ci_eq d p \<Longrightarrow> slash_free p \<Longrightarrow> slash_free d"
proof -
  assume a: "ci_eq d p" and b: "slash_free p"
  { assume "CHR ''/'' \<in> set d"
    then have "canonicalize (CHR ''/'') \<in> set (map canonicalize d)" by (metis image_eqI set_map)
    moreover have "set (map canonicalize d) = set (map canonicalize p)" using a by (simp add: ci_eq_def)
    ultimately have "CHR ''/'' \<in> set (map canonicalize p)" using canonicalize_slash[of "CHR ''/''"] by simp
    then obtain q where "q \<in> set p" "canonicalize q = CHR ''/''" by auto
    then have False using b canonicalize_slash by (auto simp: slash_free_def) }
  then show ?thesis by (auto simp: slash_free_def)
qed

lemma ci_eq_length: "ci_eq d p \<Longrightarrow> length d = length p"
  unfolding ci_eq_def by (rule map_eq_imp_length_eq)

lemma lit_ci_append: "ci_eq d p \<Longrightarrow> lit_ci p (d @ t) = [(d, t)]"
  unfolding ci_eq_def lit_ci_def
  by (metis append_eq_conv_conj length_map le_add1 length_append)

lemma lit_ci_set: "(t, r) \<in> set (lit_ci p s) \<longleftrightarrow> s = t @ r \<and> ci_eq t p"
proof
  assume "(t, r) \<in> set (lit_ci p s)"
  then have "t = take (length p) s" "r = drop (length p) s"
    "map canonicalize (take (length p) s) = map canonicalize p"
    unfolding lit_ci_def by (simp_all split: if_splits)
  then show "s = t @ r \<and> ci_eq t p" by (simp add: ci_eq_def)
next
  assume "s = t @ r \<and> ci_eq t p"
  then show "(t, r) \<in> set (lit_ci p s)" by (simp add: lit_ci_append)
qed

lemma plus_greedy_set:
  "(t, r) \<in> set (plus_greedy P s) \<longleftrightarrow> t \<noteq> [] \<and> s = t @ r \<and> (\<forall>c\<in>set t. P c)"
proof (induction s arbitrary: t r)
  case Nil then show ?case by auto
next
  case (Cons c cs)
  show ?case
  proof (cases t)
    case Nil then show ?thesis by (auto simp: Cons)
  next
    case (Cons a u)
    have img: "\<And>S. ((a # u, r) \<in> (\<lambda>(t, x). (c # t, x)) ` S) = (a = c \<and> (u, r) \<in> S)"
      by force
    show ?thesis
      unfolding Cons using Cons.IH[of u r]
      by (cases "u = []") (auto simp: img)
  qed
qed

lemma plus_lazy_set:
  "(t, r) \<in> set (plus_lazy P s) \<longleftrightarrow> t \<noteq> [] \<and> s = t @ r \<and> (\<forall>c\<in>set t. P c)"
proof (induction s arbitrary: t r)
  case Nil then show ?case by auto
next
  case (Cons c cs)
  show ?case
  proof (cases t)
    case Nil then show ?thesis by (auto simp: Cons)
  next
    case (Cons a u)
    have img: "\<And>S. ((a # u, r) \<in> (\<lambda>(t, x). (c # t, x)) ` S) = (a = c \<and> (u, r) \<in> S)"
      by force
    show ?thesis
      unfolding Cons using Cons.IH[of u r]
      by (cases "u = []") (auto simp: img)
  qed
qed

text \<open>A string is split at its last slash in one way only.\<close>

lemma last_slash_unique:
  assumes "a @ CHR ''/'' # b = a' @ CHR ''/'' # b'" "slash_free b" "slash_free b'"
  shows "a = a' \<and> b = b'"
proof -
  from assms(1) obtain us where
    "a = a' @ us \<and> us @ CHR ''/'' # b = CHR ''/'' # b' \<or> a @ us = a' \<and> CHR ''/'' # b = us @ CHR ''/'' # b'"
    by (auto simp: append_eq_append_conv2)
  then show ?thesis
    using assms(2,3) unfolding slash_free_def
    by (cases us) auto
qed

subsection \<open>The matches of the pattern at one position\<close>

lemma opt_git_tail:
  "concat (map (\<lambda>(g3, r4). if r4 = [] then [(g1, g2)] else []) (opt_group (lit_ci ''.git'') r3))
   = git_tail g1 (g2, r3)"
proof -
  have "ci_eq r3 ''.git'' \<Longrightarrow> lit_ci ''.git'' r3 = [(r3, [])]"
    using lit_ci_append[of r3 "''.git''" "[]"] by simp
  moreover have "\<not> ci_eq r3 ''.git'' \<Longrightarrow> (t, []) \<notin> set (lit_ci ''.git'' r3)" for t
    by (auto simp: lit_ci_set)
  then have "\<not> ci_eq r3 ''.git'' \<Longrightarrow>
      concat (map (\<lambda>(g3, r4). if r4 = [] then [(g1, g2)] else []) (map (\<lambda>(t, r). (Some t, r)) (lit_ci ''.git'' r3))) = []"
    by (auto simp: lit_ci_def split: if_splits)
  ultimately show ?thesis
    by (cases "ci_eq r3 ''.git''") (auto simp: opt_group_def git_tail_def)
qed

lemma github_re_alt:
  "github_re s =
     concat (map (\<lambda>(d, r0).
       concat (map (\<lambda>(g1, r1).
         concat (map (\<lambda>(sl, r2).
           concat (map (git_tail g1) (plus_lazy not_slash r2)))
           (lit_ci ''/'' r1)))
         (plus_greedy not_slash r0)))
       (lit_ci ''github.com/'' s))"
proof -
  have "\<And>g1. (\<lambda>(g2, r3). concat (map (\<lambda>(g3, r4). if r4 = [] then [(g1, g2)] else [])
               (opt_group (lit_ci ''.git'') r3))) = git_tail g1"
    by (auto simp: opt_git_tail fun_eq_iff)
  then show ?thesis unfolding github_re_def by simp
qed

lemma not_slash_all: "(\<forall>c\<in>set t. not_slash c) = slash_free t"
  by (auto simp: not_slash_def slash_free_def)

lemma ci_eq_slash: "ci_eq sl ''/'' \<longleftrightarrow> sl = ''/''"
proof -
  have c: "canonicalize (CHR ''/'') = CHR ''/''" by (simp add: canonicalize_def)
  show ?thesis
    by (cases sl) (auto simp: ci_eq_def c canonicalize_slash)
qed

lemma in_concat_map: "y \<in> set xs \<Longrightarrow> x \<in> set (f y) \<Longrightarrow> x \<in> set (concat (map f xs))"
  by auto

lemma concat_map_E:
  assumes "x \<in> set (concat (map f xs))"
  obtains y where "y \<in> set xs" "x \<in> set (f y)"
  using assms by auto

lemma github_re_set:
  "(g1, g2) \<in> set (github_re s) \<longleftrightarrow>
     (\<exists>d sfx. s = d @ g1 @ CHR ''/'' # g2 @ sfx \<and> ci_eq d ''github.com/'' \<and>
        g1 \<noteq> [] \<and> slash_free g1 \<and> g2 \<noteq> [] \<and> slash_free g2 \<and> (sfx = [] \<or> ci_eq sfx ''.git''))"
  (is "?L = ?R")
proof
  assume ?L
  then obtain x0 where x0: "x0 \<in> set (lit_ci ''github.com/'' s)"
    "(g1, g2) \<in> set ((\<lambda>(d, r0).
       concat (map (\<lambda>(g1, r1).
         concat (map (\<lambda>(sl, r2).
           concat (map (git_tail g1) (plus_lazy not_slash r2)))
           (lit_ci ''/'' r1)))
         (plus_greedy not_slash r0))) x0)"
    unfolding github_re_alt by (rule concat_map_E)
  obtain d r0 where d: "x0 = (d, r0)" by (cases x0)
  from x0(2) obtain x1 where x1: "x1 \<in> set (plus_greedy not_slash r0)"
    "(g1, g2) \<in> set ((\<lambda>(g1, r1).
         concat (map (\<lambda>(sl, r2).
           concat (map (git_tail g1) (plus_lazy not_slash r2)))
           (lit_ci ''/'' r1))) x1)"
    unfolding d prod.case by (rule concat_map_E)
  obtain h1 r1 where h1: "x1 = (h1, r1)" by (cases x1)
  from x1(2) obtain x2 where x2: "x2 \<in> set (lit_ci ''/'' r1)"
    "(g1, g2) \<in> set ((\<lambda>(sl, r2).
           concat (map (git_tail h1) (plus_lazy not_slash r2))) x2)"
    unfolding h1 prod.case by (rule concat_map_E)
  obtain sl r2 where sl: "x2 = (sl, r2)" by (cases x2)
  from x2(2) obtain x3 where x3: "x3 \<in> set (plus_lazy not_slash r2)"
    "(g1, g2) \<in> set (git_tail h1 x3)"
    unfolding sl prod.case by (rule concat_map_E)
  obtain h2 r3 where h2: "x3 = (h2, r3)" by (cases x3)
  from x3(2) have e: "h1 = g1" "h2 = g2" "r3 = [] \<or> ci_eq r3 ''.git''"
    unfolding h2 by (auto simp: git_tail_def split: if_splits)
  from x0(1) have f0: "s = d @ r0" "ci_eq d ''github.com/''"
    unfolding d by (simp_all add: lit_ci_set)
  from x1(1) have f1: "g1 \<noteq> []" "r0 = g1 @ r1" "slash_free g1"
    unfolding h1 e by (simp_all add: plus_greedy_set not_slash_all)
  from x2(1) have f2: "r1 = CHR ''/'' # r2"
    unfolding sl by (simp add: lit_ci_set ci_eq_slash)
  from x3(1) have f3: "g2 \<noteq> []" "r2 = g2 @ r3" "slash_free g2"
    unfolding h2 e by (simp_all add: plus_lazy_set not_slash_all)
  have "s = d @ g1 @ CHR ''/'' # g2 @ r3" by (simp add: f0 f1 f2 f3)
  with f0 f1 f3 e(3) show ?R by blast
next
  assume ?R
  then obtain d sfx where b: "s = d @ g1 @ CHR ''/'' # g2 @ sfx" "ci_eq d ''github.com/''"
        "g1 \<noteq> []" "slash_free g1" "g2 \<noteq> []" "slash_free g2" "sfx = [] \<or> ci_eq sfx ''.git''"
    by blast
  have 1: "(d, g1 @ CHR ''/'' # g2 @ sfx) \<in> set (lit_ci ''github.com/'' s)"
    using b by (simp add: lit_ci_set)
  have 2: "(g1, CHR ''/'' # g2 @ sfx) \<in> set (plus_greedy not_slash (g1 @ CHR ''/'' # g2 @ sfx))"
    using b by (simp add: plus_greedy_set not_slash_all)
  have 3: "(''/'', g2 @ sfx) \<in> set (lit_ci ''/'' (CHR ''/'' # g2 @ sfx))"
    by (simp add: lit_ci_set ci_eq_slash)
  have 4: "(g2, sfx) \<in> set (plus_lazy not_slash (g2 @ sfx))"
    using b by (simp add: plus_lazy_set not_slash_all)
  have 5: "(g1, g2) \<in> set (git_tail g1 (g2, sfx))"
    using b(7) by (auto simp: git_tail_def)
  have 6: "(g1, g2) \<in> set ((\<lambda>(sl, r2). concat (map (git_tail g1) (plus_lazy not_slash r2))) (''/'', g2 @ sfx))"
    unfolding prod.case using 4 5 by (rule in_concat_map)
  have 7: "(g1, g2) \<in> set ((\<lambda>(g1, r1).
         concat (map (\<lambda>(sl, r2).
           concat (map (git_tail g1) (plus_lazy not_slash r2)))
           (lit_ci ''/'' r1))) (g1, CHR ''/'' # g2 @ sfx))"
    unfolding prod.case using 3 6 by (rule in_concat_map)
  have 8: "(g1, g2) \<in> set ((\<lambda>(d, r0).
       concat (map (\<lambda>(g1, r1).
         concat (map (\<lambda>(sl, r2).
           concat (map (git_tail g1) (plus_lazy not_slash r2)))
           (lit_ci ''/'' r1)))
         (plus_greedy not_slash r0))) (d, g1 @ CHR ''/'' # g2 @ sfx))"
    unfolding prod.case using 2 7 by (rule in_concat_map)
  show ?L unfolding github_re_alt using 1 8 by (rule in_concat_map)
qed

text \<open>
  The order of backtracking: the greedy class takes the whole segment first, the lazy one
  the shortest name that leaves \<^verbatim>\<open>.git\<close> or nothing.
\<close>

lemma plus_greedy_stop: "r = [] \<or> \<not> P (hd r) \<Longrightarrow> plus_greedy P r = []"
  by (cases r) auto

lemma plus_greedy_head:
  "t \<noteq> [] \<Longrightarrow> \<forall>c\<in>set t. P c \<Longrightarrow> r = [] \<or> \<not> P (hd r) \<Longrightarrow>
   \<exists>rest. plus_greedy P (t @ r) = (t, r) # rest"
proof (induction t)
  case Nil then show ?case by simp
next
  case (Cons c cs)
  show ?case
  proof (cases "cs = []")
    case True
    with Cons.prems show ?thesis by (simp add: plus_greedy_stop)
  next
    case False
    with Cons obtain rest where "plus_greedy P (cs @ r) = (cs, r) # rest" by auto
    with Cons.prems show ?thesis by simp
  qed
qed

lemma ci_eq_git_length: "ci_eq x ''.git'' \<Longrightarrow> length x = 4"
  by (drule ci_eq_length) simp

lemma plus_lazy_git_head:
  "repo \<noteq> [] \<Longrightarrow> slash_free repo \<Longrightarrow> ci_eq sfx ''.git'' \<Longrightarrow>
   \<exists>rest. concat (map (\<lambda>(g2, r3). git_tail g1 (acc @ g2, r3)) (plus_lazy not_slash (repo @ sfx)))
          = (g1, acc @ repo) # rest"
proof (induction repo arbitrary: acc)
  case Nil then show ?case by simp
next
  case (Cons c cs)
  have c: "not_slash c" using Cons.prems(2) by (auto simp: slash_free_def not_slash_def)
  have comp: "(\<lambda>(g2, r3). git_tail g1 (acc @ g2, r3)) \<circ> (\<lambda>(t, r). (c # t, r))
            = (\<lambda>(g2, r3). git_tail g1 ((acc @ [c]) @ g2, r3))"
    by (auto simp: fun_eq_iff)
  show ?case
  proof (cases "cs = []")
    case True
    with Cons.prems c show ?thesis by (simp add: git_tail_def)
  next
    case False
    then have "\<not> ci_eq (cs @ sfx) ''.git''"
      using Cons.prems(3) ci_eq_git_length[of "cs @ sfx"] ci_eq_git_length[of sfx] by auto
    then have first: "git_tail g1 (acc @ [c], cs @ sfx) = []"
      using False by (simp add: git_tail_def)
    from Cons.IH[of "acc @ [c]"] False Cons.prems obtain rest where
      "concat (map (\<lambda>(g2, r3). git_tail g1 ((acc @ [c]) @ g2, r3)) (plus_lazy not_slash (cs @ sfx)))
         = (g1, (acc @ [c]) @ cs) # rest"
      by (auto simp: slash_free_def)
    then show ?thesis using c first by (simp add: comp)
  qed
qed

lemma ends_with_git_Cons:
  "\<not> ends_with_git (c # cs) \<Longrightarrow> cs \<noteq> [] \<Longrightarrow> \<not> ci_eq cs ''.git'' \<and> \<not> ends_with_git cs"
proof -
  assume a: "\<not> ends_with_git (c # cs)" and b: "cs \<noteq> []"
  have "ci_eq cs ''.git'' \<Longrightarrow> ends_with_git (c # cs)"
    using ci_eq_git_length[of cs] by (simp add: ends_with_git_def)
  moreover have "ends_with_git cs \<Longrightarrow> ends_with_git (c # cs)"
  proof -
    assume e: "ends_with_git cs"
    then have l: "4 < length cs" by (simp add: ends_with_git_def)
    then have "length (c # cs) - 4 = Suc (length cs - 4)" by simp
    with e l show ?thesis by (simp add: ends_with_git_def del: length_Cons)
  qed
  ultimately show ?thesis using a by blast
qed

lemma plus_lazy_plain_head:
  "repo \<noteq> [] \<Longrightarrow> slash_free repo \<Longrightarrow> \<not> ends_with_git repo \<Longrightarrow>
   concat (map (\<lambda>(g2, r3). git_tail g1 (acc @ g2, r3)) (plus_lazy not_slash repo))
     = [(g1, acc @ repo)]"
proof (induction repo arbitrary: acc)
  case Nil then show ?case by simp
next
  case (Cons c cs)
  have c: "not_slash c" using Cons.prems(2) by (auto simp: slash_free_def not_slash_def)
  have comp: "(\<lambda>(g2, r3). git_tail g1 (acc @ g2, r3)) \<circ> (\<lambda>(t, r). (c # t, r))
            = (\<lambda>(g2, r3). git_tail g1 ((acc @ [c]) @ g2, r3))"
    by (auto simp: fun_eq_iff)
  show ?case
  proof (cases "cs = []")
    case True
    have "\<not> ci_eq [] ''.git''" by (simp add: ci_eq_def)
    with True c show ?thesis by (simp add: git_tail_def)
  next
    case False
    with Cons.prems(3) have n: "\<not> ci_eq cs ''.git''" "\<not> ends_with_git cs"
      using ends_with_git_Cons by blast+
    then have first: "git_tail g1 (acc @ [c], cs) = []"
      using False by (simp add: git_tail_def)
    from Cons.IH[of "acc @ [c]"] False Cons.prems(2) n have
      "concat (map (\<lambda>(g2, r3). git_tail g1 ((acc @ [c]) @ g2, r3)) (plus_lazy not_slash cs))
         = [(g1, (acc @ [c]) @ cs)]"
      by (auto simp: slash_free_def)
    then show ?thesis using c first by (simp add: comp)
  qed
qed

subsection \<open>The first match in the string\<close>

lemma first_match_hit: "m s = x # xs \<Longrightarrow> first_match m s = Some x"
  by (cases s) auto

lemma first_match_prefix:
  "(\<And>p1 p2. pre = p1 @ p2 \<Longrightarrow> p2 \<noteq> [] \<Longrightarrow> m (p2 @ t) = []) \<Longrightarrow>
   first_match m (pre @ t) = first_match m t"
proof (induction pre)
  case Nil then show ?case by simp
next
  case (Cons c cs)
  have "m ((c # cs) @ t) = []" using Cons.prems[of "[]" "c # cs"] by simp
  moreover have "first_match m (cs @ t) = first_match m t"
  proof (rule Cons.IH)
    fix p1 p2 assume "cs = p1 @ p2" "p2 \<noteq> []"
    then show "m (p2 @ t) = []" using Cons.prems[of "c # p1" p2] by simp
  qed
  ultimately show ?case by simp
qed

lemma first_match_None: "first_match m s = None \<longleftrightarrow> (\<forall>p t. s = p @ t \<longrightarrow> m t = [])"
proof (induction s)
  case Nil then show ?case by (auto split: list.splits)
next
  case (Cons c cs)
  show ?case
  proof
    assume a: "first_match m (c # cs) = None"
    then have h: "m (c # cs) = []" "first_match m cs = None" by (auto split: list.splits)
    show "\<forall>p t. c # cs = p @ t \<longrightarrow> m t = []"
    proof (intro allI impI)
      fix p t assume e: "c # cs = p @ t"
      show "m t = []"
      proof (cases p)
        case Nil with e h show ?thesis by simp
      next
        case (Cons a p') with e h Cons.IH show ?thesis by auto
      qed
    qed
  next
    assume a: "\<forall>p t. c # cs = p @ t \<longrightarrow> m t = []"
    then have "m (c # cs) = []" by (metis append_Nil)
    moreover have "\<forall>p t. cs = p @ t \<longrightarrow> m t = []" using a by (metis append_Cons)
    ultimately show "first_match m (c # cs) = None" using Cons.IH by simp
  qed
qed

lemma ci_eq_snoc_slash: "ci_eq host ''github.com'' \<Longrightarrow> ci_eq (host @ ''/'') ''github.com/''"
  by (simp add: ci_eq_def canonicalize_def)

lemma ci_eq_domain_slash:
  assumes "ci_eq d ''github.com/''"
  obtains d0 where "d = d0 @ ''/''" "ci_eq d0 ''github.com''"
proof -
  from assms have "d \<noteq> []" by (auto simp: ci_eq_def)
  then obtain d0 l where d: "d = d0 @ [l]" by (metis rev_exhaust)
  have "map canonicalize d0 @ [canonicalize l] = map canonicalize ''github.com'' @ [CHR ''/'']"
    using assms unfolding d ci_eq_def by (simp add: canonicalize_def)
  then have "map canonicalize d0 = map canonicalize ''github.com''" "canonicalize l = CHR ''/''"
    by (simp_all only: append1_eq_conv)
  then show ?thesis using that d by (simp add: ci_eq_def canonicalize_slash)
qed

lemma github_slash_free: "slash_free ''github.com''" "slash_free ''.git''"
  by (simp_all add: slash_free_def)

lemma github_re_head:
  assumes "ci_eq host ''github.com''" "owner \<noteq> []" "slash_free owner" "repo \<noteq> []" "slash_free repo"
    "sfx = [] \<and> \<not> ends_with_git repo \<or> ci_eq sfx ''.git''"
  shows "\<exists>rest. github_re (host @ CHR ''/'' # owner @ CHR ''/'' # repo @ sfx) = (owner, repo) # rest"
proof -
  have 1: "lit_ci ''github.com/'' (host @ CHR ''/'' # owner @ CHR ''/'' # repo @ sfx)
         = [(host @ ''/'', owner @ CHR ''/'' # repo @ sfx)]"
    using lit_ci_append[OF ci_eq_snoc_slash[OF assms(1)], of "owner @ CHR ''/'' # repo @ sfx"] by simp
  obtain rest1 where 2: "plus_greedy not_slash (owner @ CHR ''/'' # repo @ sfx)
         = (owner, CHR ''/'' # repo @ sfx) # rest1"
    using plus_greedy_head[of owner not_slash "CHR ''/'' # repo @ sfx"] assms(2,3)
    by (auto simp: not_slash_all) (auto simp: not_slash_def)
  have 3: "lit_ci ''/'' (CHR ''/'' # repo @ sfx) = [(''/'', repo @ sfx)]"
    using lit_ci_append[of "''/''" "''/''" "repo @ sfx"] by (simp add: ci_eq_def)
  have "(\<lambda>(g2, r3). git_tail owner ([] @ g2, r3)) = git_tail owner" by auto
  then obtain rest2 where 4: "concat (map (git_tail owner) (plus_lazy not_slash (repo @ sfx)))
         = (owner, repo) # rest2"
    using plus_lazy_git_head[of repo sfx owner "[]"] plus_lazy_plain_head[of repo owner "[]"] assms(4,5,6)
    by auto
  show ?thesis unfolding github_re_alt by (simp add: 1 2 3 4)
qed

lemma github_re_before:
  assumes "p2 \<noteq> []" "ci_eq host ''github.com''" "slash_free owner" "slash_free rest"
  shows "github_re (p2 @ host @ CHR ''/'' # owner @ CHR ''/'' # rest) = []"
proof (rule ccontr)
  assume "github_re (p2 @ host @ CHR ''/'' # owner @ CHR ''/'' # rest) \<noteq> []"
  then obtain g1 g2 where "(g1, g2) \<in> set (github_re (p2 @ host @ CHR ''/'' # owner @ CHR ''/'' # rest))"
    by (metis list.set_intros(1) neq_Nil_conv surj_pair)
  then obtain d sfx where b: "p2 @ host @ CHR ''/'' # owner @ CHR ''/'' # rest = d @ g1 @ CHR ''/'' # g2 @ sfx"
      "ci_eq d ''github.com/''" "slash_free g1" "slash_free g2" "sfx = [] \<or> ci_eq sfx ''.git''"
    unfolding github_re_set by blast
  from b(2) obtain d0 where d0: "d = d0 @ ''/''" "ci_eq d0 ''github.com''"
    by (rule ci_eq_domain_slash)
  have sf: "slash_free (g2 @ sfx)"
    using b(4,5) ci_eq_slash_free[OF _ github_slash_free(2), of sfx] by (auto simp: slash_free_def)
  have "(p2 @ host @ CHR ''/'' # owner) @ CHR ''/'' # rest = (d0 @ CHR ''/'' # g1) @ CHR ''/'' # (g2 @ sfx)"
    using b(1) d0(1) by simp
  then have "p2 @ host @ CHR ''/'' # owner = d0 @ CHR ''/'' # g1"
    using last_slash_unique[OF _ assms(4) sf] by blast
  then have "(p2 @ host) @ CHR ''/'' # owner = d0 @ CHR ''/'' # g1" by simp
  then have "p2 @ host = d0"
    using last_slash_unique[OF _ assms(3) b(3)] by blast
  then have "length p2 + length host = length d0" by (metis length_append)
  then show False using assms(1) ci_eq_length[OF assms(2)] ci_eq_length[OF d0(2)] by simp
qed

lemma githubUrlMatch_extracts:
  assumes "ci_eq host ''github.com''" "owner \<noteq> []" "slash_free owner" "repo \<noteq> []" "slash_free repo"
    "sfx = [] \<and> \<not> ends_with_git repo \<or> ci_eq sfx ''.git''"
  shows "githubUrlMatch (pre @ host @ CHR ''/'' # owner @ CHR ''/'' # repo @ sfx) = Some (owner, repo)"
proof -
  have sf: "slash_free (repo @ sfx)"
    using assms(5,6) ci_eq_slash_free[OF _ github_slash_free(2), of sfx] by (auto simp: slash_free_def)
  have "first_match github_re (pre @ host @ CHR ''/'' # owner @ CHR ''/'' # repo @ sfx)
      = first_match github_re (host @ CHR ''/'' # owner @ CHR ''/'' # repo @ sfx)"
  proof (rule first_match_prefix)
    fix p1 p2 :: string assume "p2 \<noteq> []"
    then show "github_re (p2 @ host @ CHR ''/'' # owner @ CHR ''/'' # repo @ sfx) = []"
      using assms(1,3) sf by (rule github_re_before)
  qed
  also have "\<dots> = Some (owner, repo)"
  proof -
    from github_re_head[OF assms] obtain rest where
      "github_re (host @ CHR ''/'' # owner @ CHR ''/'' # repo @ sfx) = (owner, repo) # rest" ..
    then show ?thesis by (rule first_match_hit)
  qed
  finally show ?thesis by (simp add: githubUrlMatch_def)
qed

lemma githubUrlMatch_accepts_iff:
  "githubUrlMatch s \<noteq> None \<longleftrightarrow>
     (\<exists>pre host owner repo. s = pre @ host @ CHR ''/'' # owner @ CHR ''/'' # repo \<and>
        ci_eq host ''github.com'' \<and> owner \<noteq> [] \<and> slash_free owner \<and> repo \<noteq> [] \<and> slash_free repo)"
  (is "?L = ?R")
proof
  assume ?L
  then obtain p t where pt: "s = p @ t" "github_re t \<noteq> []"
    unfolding githubUrlMatch_def first_match_None by blast
  then obtain g1 g2 where "(g1, g2) \<in> set (github_re t)"
    by (metis list.set_intros(1) neq_Nil_conv surj_pair)
  then obtain d sfx where b: "t = d @ g1 @ CHR ''/'' # g2 @ sfx" "ci_eq d ''github.com/''"
      "g1 \<noteq> []" "slash_free g1" "g2 \<noteq> []" "slash_free g2" "sfx = [] \<or> ci_eq sfx ''.git''"
    unfolding github_re_set by blast
  from b(2) obtain d0 where d0: "d = d0 @ ''/''" "ci_eq d0 ''github.com''"
    by (rule ci_eq_domain_slash)
  have sf: "slash_free (g2 @ sfx)"
    using b(6,7) ci_eq_slash_free[OF _ github_slash_free(2), of sfx] by (auto simp: slash_free_def)
  have "s = p @ d0 @ CHR ''/'' # g1 @ CHR ''/'' # (g2 @ sfx)" using pt(1) b(1) d0(1) by simp
  moreover have "g2 @ sfx \<noteq> []" using b(5) by simp
  ultimately show ?R using d0(2) b(3,4) sf by blast
next
  assume ?R
  then obtain pre host owner repo where r: "s = pre @ host @ CHR ''/'' # owner @ CHR ''/'' # repo"
        "ci_eq host ''github.com''" "owner \<noteq> []" "slash_free owner" "repo \<noteq> []" "slash_free repo"
    by blast
  have "(owner, repo) \<in> set (github_re (host @ CHR ''/'' # owner @ CHR ''/'' # repo))"
    unfolding github_re_set using r(2-6) ci_eq_snoc_slash[OF r(2)]
    by (intro exI[of _ "host @ ''/''"] exI[of _ "[]"]) simp
  then have "github_re (host @ CHR ''/'' # owner @ CHR ''/'' # repo) \<noteq> []" by auto
  then show ?L unfolding githubUrlMatch_def first_match_None using r(1) by blast
qed

subsection \<open>Parsing the request\<close>

lemma githubUrlMatch_groups:
  "githubUrlMatch s = Some (g1, g2) \<Longrightarrow> g1 \<noteq> [] \<and> g2 \<noteq> []"
proof -
  assume a: "githubUrlMatch s = Some (g1, g2)"
  have "\<And>x. first_match m s = Some x \<Longrightarrow> \<exists>p t. s = p @ t \<and> x \<in> set (m t)" for m :: "string \<Rightarrow> (string \<times> string) list"
  proof (induction s)
    case Nil then show ?case by (auto split: list.splits)
  next
    case (Cons c cs)
    show ?case
    proof (cases "m (c # cs)")
      case Nil
      with Cons.prems have "first_match m cs = Some x" by simp
      from Cons.IH[OF this] obtain p t where "cs = p @ t" "x \<in> set (m t)" by blast
      then have "c # cs = (c # p) @ t" by simp
      then show ?thesis using \<open>x \<in> set (m t)\<close> by blast
    next
      case (Cons y ys)
      with Cons.prems have "x \<in> set (m (c # cs))" by auto
      then show ?thesis by (metis append_Nil)
    qed
  qed
  from this[of github_re "(g1, g2)"] a obtain p t where "(g1, g2) \<in> set (github_re t)"
    unfolding githubUrlMatch_def by blast
  then show ?thesis unfolding github_re_set by blast
qed

lemma githubUrlMatch_Nil: "githubUrlMatch [] = None"
  by (simp add: githubUrlMatch_def github_re_def lit_ci_def)

lemma parse_request_route_ok:
  "body_repoUrl b = Inr (Some (JStr s)) \<Longrightarrow> githubUrlMatch s = Some (owner, repo) \<Longrightarrow>
   parse_request_route (Inr b) = Inr (s, owner, repo)"
  using githubUrlMatch_groups[of s owner repo]
  by (cases "s = []") (auto simp: parse_request_route_def githubUrlMatch_Nil)

lemma parse_request_part000_ok:
  "body_repoUrl b = Inr (Some (JStr s)) \<Longrightarrow> githubUrlMatch s = Some (owner, repo) \<Longrightarrow>
   parse_request_part000 (Inr b) = Inr (s, owner, repo)"
  using githubUrlMatch_groups[of s owner repo]
  by (auto simp: parse_request_part000_def)

lemma parse_request_route_fails:
  "\<not> recognizable_repoUrl req \<Longrightarrow> \<exists>e. parse_request_route req = Inl e"
  unfolding recognizable_repoUrl_def parse_request_route_def could_not_parse_def
  by (auto split: sum.splits option.splits json.splits)

lemma parse_request_part000_fails:
  "\<not> recognizable_repoUrl req \<Longrightarrow> \<exists>e. parse_request_part000 req = Inl e"
  unfolding recognizable_repoUrl_def parse_request_part000_def could_not_parse_def
  by (auto split: sum.splits option.splits json.splits)

lemma POST_route_bad_request:
  "\<not> missing_credentials w \<Longrightarrow> parse_request_route (request_json w) = Inl e \<Longrightarrow>
   POST_route w = (bad_request e, [])"
  by (simp add: POST_route_def)

lemma POST_part000_bad_request:
  "\<not> missing_credentials w \<Longrightarrow> parse_request_part000 (request_json w) = Inl e \<Longrightarrow>
   POST_part000 w = (bad_request e, [])"
  by (simp add: POST_part000_def)

lemma githubUrlMatch_trailing_slash: "githubUrlMatch (t @ ''/'') = None"
proof (rule ccontr)
  assume "githubUrlMatch (t @ ''/'') \<noteq> None"
  then obtain pre host owner repo where
    r: "t @ ''/'' = pre @ host @ CHR ''/'' # owner @ CHR ''/'' # repo" "repo \<noteq> []" "slash_free repo"
    unfolding githubUrlMatch_accepts_iff by blast
  have "last (t @ ''/'') = CHR ''/''" by simp
  moreover have "last (pre @ host @ CHR ''/'' # owner @ CHR ''/'' # repo) = last repo"
    using r(2) by simp
  ultimately have "last repo = CHR ''/''" using r(1) by simp
  then show False using r(2,3) last_in_set[of repo] by (auto simp: slash_free_def)
qed

lemma githubUrlMatch_two_segments:
  assumes "a \<noteq> []" "slash_free a" "b \<noteq> []" "slash_free b"
  shows "githubUrlMatch (t @ ''/'' @ a @ ''/'' @ b) \<noteq> None \<longleftrightarrow> (\<exists>p h. t = p @ h \<and> ci_eq h ''github.com'')"
proof
  assume "githubUrlMatch (t @ ''/'' @ a @ ''/'' @ b) \<noteq> None"
  then obtain pre host owner repo where
    r: "t @ ''/'' @ a @ ''/'' @ b = pre @ host @ CHR ''/'' # owner @ CHR ''/'' # repo"
       "ci_eq host ''github.com''" "slash_free owner" "slash_free repo"
    unfolding githubUrlMatch_accepts_iff by blast
  from r(1) have "(t @ CHR ''/'' # a) @ CHR ''/'' # b = (pre @ host @ CHR ''/'' # owner) @ CHR ''/'' # repo"
    by simp
  then have "t @ CHR ''/'' # a = (pre @ host) @ CHR ''/'' # owner"
    using last_slash_unique[OF _ assms(4) r(4)] by simp
  then have "t = pre @ host"
    using last_slash_unique[OF _ assms(2) r(3)] by blast
  with r(2) show "\<exists>p h. t = p @ h \<and> ci_eq h ''github.com''" by blast
next
  assume "\<exists>p h. t = p @ h \<and> ci_eq h ''github.com''"
  then obtain p h where "t = p @ h" "ci_eq h ''github.com''" by blast
  then have "\<exists>pre host owner repo. t @ ''/'' @ a @ ''/'' @ b = pre @ host @ CHR ''/'' # owner @ CHR ''/'' # repo \<and>
        ci_eq host ''github.com'' \<and> owner \<noteq> [] \<and> slash_free owner \<and> repo \<noteq> [] \<and> slash_free repo"
    using assms by (intro exI[of _ p] exI[of _ h] exI[of _ a] exI[of _ b]) simp
  then show "githubUrlMatch (t @ ''/'' @ a @ ''/'' @ b) \<noteq> None"
    unfolding githubUrlMatch_accepts_iff .
qed

subsection \<open>The steps of the handler\<close>

lemma Object_keys_truthy: "truthy d \<Longrightarrow> \<exists>names. Object_keys d = Inr names"
  by (cases d) auto

lemma recognizable_parse_route:
  "recognizable_repoUrl req \<longleftrightarrow> (\<exists>x. parse_request_route req = Inr x)"
proof
  assume "recognizable_repoUrl req"
  then obtain b s where b: "req = Inr b" "body_repoUrl b = Inr (Some (JStr s))" "githubUrlMatch s \<noteq> None"
    unfolding recognizable_repoUrl_def
    by (auto split: sum.splits option.splits json.splits)
  then obtain owner repo where "githubUrlMatch s = Some (owner, repo)" by auto
  from parse_request_route_ok[OF b(2) this] b(1) show "\<exists>x. parse_request_route req = Inr x" by simp
next
  assume a: "\<exists>x. parse_request_route req = Inr x"
  show "recognizable_repoUrl req"
  proof (rule ccontr)
    assume "\<not> recognizable_repoUrl req"
    then obtain e where "parse_request_route req = Inl e"
      using parse_request_route_fails by blast
    with a show False by simp
  qed
qed

lemma recognizable_parse_part000:
  "recognizable_repoUrl req \<longleftrightarrow> (\<exists>x. parse_request_part000 req = Inr x)"
proof
  assume "recognizable_repoUrl req"
  then obtain b s where b: "req = Inr b" "body_repoUrl b = Inr (Some (JStr s))" "githubUrlMatch s \<noteq> None"
    unfolding recognizable_repoUrl_def
    by (auto split: sum.splits option.splits json.splits)
  then obtain owner repo where "githubUrlMatch s = Some (owner, repo)" by auto
  from parse_request_part000_ok[OF b(2) this] b(1) show "\<exists>x. parse_request_part000 req = Inr x" by simp
next
  assume a: "\<exists>x. parse_request_part000 req = Inr x"
  show "recognizable_repoUrl req"
  proof (rule ccontr)
    assume "\<not> recognizable_repoUrl req"
    then obtain e where "parse_request_part000 req = Inl e"
      using parse_request_part000_fails by blast
    with a show False by simp
  qed
qed

lemma POST_route_parsed:
  "\<not> missing_credentials w \<Longrightarrow> parse_request_route (request_json w) = Inr (repoUrl, owner, repo) \<Longrightarrow>
   POST_route w = (fst (generate_route w repoUrl (fst (fetch_route w owner repo))),
                   snd (fetch_route w owner repo) @
                   snd (generate_route w repoUrl (fst (fetch_route w owner repo))))"
  by (simp add: POST_route_def split_beta)

lemma POST_part000_parsed:
  "\<not> missing_credentials w \<Longrightarrow> parse_request_part000 (request_json w) = Inr (repoUrl, owner, repo) \<Longrightarrow>
   POST_part000 w = (fst (generate_part000 w repoUrl (fst (fetch_part000 w owner repo))),
                   snd (fetch_part000 w owner repo) @
                   snd (generate_part000 w repoUrl (fst (fetch_part000 w owner repo))))"
  by (simp add: POST_part000_def split_beta)

lemma processing_error_route_shape:
  "\<exists>e. processing_error_route f error = \<lparr>status = 500, body = ErrorBody e\<rparr>"
  by (simp add: processing_error_route_def json_response_def Let_def)

lemma processing_error_part000_shape:
  "\<exists>e. processing_error_part000 f error = \<lparr>status = 500, body = ErrorBody e\<rparr>"
  by (simp add: processing_error_part000_def json_response_def Let_def)

lemma handle_result_route_shape:
  "(\<exists>e. handle_result_route result = \<lparr>status = 500, body = ErrorBody e\<rparr>) \<or>
   (\<exists>rsp t. handle_result_route result = \<lparr>status = 200, body = Readme t\<rparr> \<and>
      response result = Some rsp \<and> response_text rsp = Inr t)"
  by (cases "response result"; cases "response_text (the (response result))")
     (simp_all add: handle_result_route_def json_response_def)

lemma handle_result_part000_shape:
  "(\<exists>e. handle_result_part000 result = \<lparr>status = 500, body = ErrorBody e\<rparr>) \<or>
   (\<exists>rsp t. handle_result_part000 result = \<lparr>status = 200, body = Readme t\<rparr> \<and>
      response result = Some rsp \<and> response_text rsp = Inr t)"
  by (cases "response result"; cases "response_text (the (response result))")
     (simp_all add: handle_result_part000_def json_response_def)

lemma generate_route_shape:
  "(\<exists>e. fst (generate_route w repoUrl f) = \<lparr>status = 500, body = ErrorBody e\<rparr>) \<or>
   (\<exists>prompt result rsp t. fst (generate_route w repoUrl f) = \<lparr>status = 200, body = Readme t\<rparr> \<and>
      snd (generate_route w repoUrl f) = [GenerateContent prompt] \<and>
      generateContent w prompt = Inr result \<and> response result = Some rsp \<and>
      response_text rsp = Inr t)"
proof (cases "context_route repoUrl f")
  case (Inl e)
  then show ?thesis using processing_error_route_shape[of f e] by (simp add: generate_route_def)
next
  case (Inr ctx)
  show ?thesis
  proof (cases "generateContent w (prompt_head_route @ ctx @ prompt_tail_route)")
    case (Inl e)
    then show ?thesis using Inr processing_error_route_shape[of f e]
      by (simp add: generate_route_def)
  next
    case r: (Inr result)
    from handle_result_route_shape[of result] show ?thesis
    proof
      assume "\<exists>e. handle_result_route result = \<lparr>status = 500, body = ErrorBody e\<rparr>"
      then show ?thesis using Inr r by (simp add: generate_route_def)
    next
      assume "\<exists>rsp t. handle_result_route result = \<lparr>status = 200, body = Readme t\<rparr> \<and>
        response result = Some rsp \<and> response_text rsp = Inr t"
      then obtain rsp t where "handle_result_route result = \<lparr>status = 200, body = Readme t\<rparr>"
        "response result = Some rsp" "response_text rsp = Inr t" by blast
      then have "fst (generate_route w repoUrl f) = \<lparr>status = 200, body = Readme t\<rparr> \<and>
        snd (generate_route w repoUrl f) = [GenerateContent (prompt_head_route @ ctx @ prompt_tail_route)] \<and>
        generateContent w (prompt_head_route @ ctx @ prompt_tail_route) = Inr result \<and>
        response result = Some rsp \<and> response_text rsp = Inr t"
        using Inr r by (simp add: generate_route_def)
      then show ?thesis by blast
    qed
  qed
qed

lemma generate_part000_shape:
  "(\<exists>e. fst (generate_part000 w repoUrl f) = \<lparr>status = 500, body = ErrorBody e\<rparr>) \<or>
   (\<exists>prompt result rsp t. fst (generate_part000 w repoUrl f) = \<lparr>status = 200, body = Readme t\<rparr> \<and>
      snd (generate_part000 w repoUrl f) = [GenerateContent prompt] \<and>
      generateContent w prompt = Inr result \<and> response result = Some rsp \<and>
      response_text rsp = Inr t)"
proof (cases "context_part000 repoUrl f")
  case (Inl e)
  then show ?thesis using processing_error_part000_shape[of f e] by (simp add: generate_part000_def)
next
  case (Inr ctx)
  show ?thesis
  proof (cases "generateContent w (prompt_head_part000 @ ctx @ prompt_tail_part000)")
    case (Inl e)
    then show ?thesis using Inr processing_error_part000_shape[of f e]
      by (simp add: generate_part000_def)
  next
    case r: (Inr result)
    from handle_result_part000_shape[of result] show ?thesis
    proof
      assume "\<exists>e. handle_result_part000 result = \<lparr>status = 500, body = ErrorBody e\<rparr>"
      then show ?thesis using Inr r by (simp add: generate_part000_def)
    next
      assume "\<exists>rsp t. handle_result_part000 result = \<lparr>status = 200, body = Readme t\<rparr> \<and>
        response result = Some rsp \<and> response_text rsp = Inr t"
      then obtain rsp t where "handle_result_part000 result = \<lparr>status = 200, body = Readme t\<rparr>"
        "response result = Some rsp" "response_text rsp = Inr t" by blast
      then have "fst (generate_part000 w repoUrl f) = \<lparr>status = 200, body = Readme t\<rparr> \<and>
        snd (generate_part000 w repoUrl f) = [GenerateContent (prompt_head_part000 @ ctx @ prompt_tail_part000)] \<and>
        generateContent w (prompt_head_part000 @ ctx @ prompt_tail_part000) = Inr result \<and>
        response result = Some rsp \<and> response_text rsp = Inr t"
        using Inr r by (simp add: generate_part000_def)
      then show ?thesis by blast
    qed
  qed
qed

subsection \<open>The example requests, evaluated\<close>

lemma acme_url: "githubUrlMatch ''https://github.com/acme/widget'' = Some (''acme'', ''widget'')"
proof -
  have "ci_eq ''github.com'' ''github.com''" by (simp add: ci_eq_def)
  moreover have "slash_free ''acme''" "slash_free ''widget''" by (simp_all add: slash_free_def)
  moreover have "\<not> ends_with_git ''widget''" by code_simp
  ultimately show ?thesis
    using githubUrlMatch_extracts[of "''github.com''" "''acme''" "''widget''" "[]" "''https://''"]
    by simp
qed

lemma acme_parse:
  "parse_request_route (request_json acme_world) = Inr (''https://github.com/acme/widget'', ''acme'', ''widget'')"
  "parse_request_part000 (request_json acme_world) = Inr (''https://github.com/acme/widget'', ''acme'', ''widget'')"
  using acme_url
  by (simp_all add: parse_request_route_def parse_request_part000_def acme_world_def body_repoUrl_def)

lemma acme_fetch_route:
  "fetch_route acme_world ''acme'' ''widget'' =
     (\<lparr>repoInfo = Some \<lparr>repo_description = Some ''A widget'', repo_language = None\<rparr>,
       languages = Some [(''TypeScript'', 120), (''CSS'', 7)],
       rootContent = [\<lparr>entry_name = ''src'', entry_type = ''dir''\<rparr>,
                      \<lparr>entry_name = ''package.json'', entry_type = ''file''\<rparr>],
       packageJsonContent = JObj [], fetchError = None\<rparr>,
      [ReposGet ''acme'' ''widget'', ListLanguages ''acme'' ''widget'',
       GetContent ''acme'' ''widget'' [], GetContent ''acme'' ''widget'' ''package.json''])"
  by (simp add: fetch_route_def acme_world_def nothing_fetched_def root_entries_def
        decode_package_json_def safeDecodeBase64_def)

lemma acme_fetch_part000:
  "fetch_part000 acme_world ''acme'' ''widget'' =
     (\<lparr>repoInfo = Some \<lparr>repo_description = Some ''A widget'', repo_language = None\<rparr>,
       languages = Some [(''TypeScript'', 120), (''CSS'', 7)],
       rootContent = [\<lparr>entry_name = ''src'', entry_type = ''dir''\<rparr>,
                      \<lparr>entry_name = ''package.json'', entry_type = ''file''\<rparr>],
       packageJsonContent = JObj [], fetchError = None\<rparr>,
      [ReposGet ''acme'' ''widget'', ListLanguages ''acme'' ''widget'',
       GetContent ''acme'' ''widget'' [], GetContent ''acme'' ''widget'' ''package.json''])"
  by (simp add: fetch_part000_def acme_world_def nothing_fetched_def root_entries_def
        decode_package_json_def safeDecodeBase64_def packageJsonPromise_def rejection_def)

lemma acme_context_part000:
  "context_part000 ''https://github.com/acme/widget''
     \<lparr>repoInfo = Some \<lparr>repo_description = Some ''A widget'', repo_language = None\<rparr>,
       languages = Some [(''TypeScript'', 120), (''CSS'', 7)],
       rootContent = [\<lparr>entry_name = ''src'', entry_type = ''dir''\<rparr>,
                      \<lparr>entry_name = ''package.json'', entry_type = ''file''\<rparr>],
       packageJsonContent = JObj [], fetchError = None\<rparr>
   = Inr (''Repository URL: https://github.com/acme/widget'' @ nl @
          ''Description: A widget'' @ nl @
          ''Main Language: N/A'' @ nl @
          ''Language Breakdown: TypeScript, CSS'' @ nl @
          ''Root Directory Contents: src/, package.json'' @ nl @
          ''Package Name: N/A'')"
  by (simp add: context_part000_def fragments_def name_fragment_def dependencies_fragment_def
        scripts_fragment_def description_fragment_def language_fragment_def breakdown_fragment_def
        root_fragment_def note_fragment_def opt_prop_def or_else_def)

lemma acme_configured: "\<not> missing_credentials acme_world"
  by (simp add: missing_credentials_def acme_world_def truthy_str_def)

lemma acme_generateContent:
  "generateContent acme_world p =
     Inr \<lparr>response = Some \<lparr>response_text = Inr ''# widget'', blockReason = None,
                            finishReason = Some ''STOP''\<rparr>\<rparr>"
  by (simp add: acme_world_def)

lemma acme_context_route:
  "\<exists>ctx. context_route ''https://github.com/acme/widget''
     \<lparr>repoInfo = Some \<lparr>repo_description = Some ''A widget'', repo_language = None\<rparr>,
       languages = Some [(''TypeScript'', 120), (''CSS'', 7)],
       rootContent = [\<lparr>entry_name = ''src'', entry_type = ''dir''\<rparr>,
                      \<lparr>entry_name = ''package.json'', entry_type = ''file''\<rparr>],
       packageJsonContent = JObj [], fetchError = None\<rparr> = Inr ctx"
  by (simp add: context_route_def fragments_def name_fragment_def dependencies_fragment_def
        scripts_fragment_def opt_prop_def)

lemma acme_POST_part000:
  "fst (POST_part000 acme_world) = \<lparr>status = 200, body = Readme ''# widget''\<rparr>"
  unfolding POST_part000_parsed[OF acme_configured acme_parse(2)] acme_fetch_part000
  by (simp add: generate_part000_def acme_context_part000 acme_generateContent
        handle_result_part000_def json_response_def)

lemma acme_POST_route:
  "fst (POST_route acme_world) = \<lparr>status = 200, body = Readme ''# widget''\<rparr>"
proof -
  from acme_context_route obtain ctx where "context_route ''https://github.com/acme/widget''
     \<lparr>repoInfo = Some \<lparr>repo_description = Some ''A widget'', repo_language = None\<rparr>,
       languages = Some [(''TypeScript'', 120), (''CSS'', 7)],
       rootContent = [\<lparr>entry_name = ''src'', entry_type = ''dir''\<rparr>,
                      \<lparr>entry_name = ''package.json'', entry_type = ''file''\<rparr>],
       packageJsonContent = JObj [], fetchError = None\<rparr> = Inr ctx" ..
  then show ?thesis
    unfolding POST_route_parsed[OF acme_configured acme_parse(1)] acme_fetch_route
    by (simp add: generate_route_def acme_generateContent handle_result_route_def json_response_def)
qed

subsection \<open>The shapes of the answers\<close>

text \<open>
  Every answer has one of three shapes. The proofs about single requests below use this
  lemma.
\<close>

lemma response_shapes:
  "((\<exists>prompt result rsp t.
       fst (POST_route w) = \<lparr>status = 200, body = Readme t\<rparr> \<and>
       GenerateContent prompt \<in> set (snd (POST_route w)) \<and>
       generateContent w prompt = Inr result \<and> response result = Some rsp \<and>
       response_text rsp = Inr t \<and>
       \<not> missing_credentials w \<and> recognizable_repoUrl (request_json w)) \<or>
    (\<exists>e. fst (POST_route w) = \<lparr>status = 400, body = ErrorBody e\<rparr> \<and>
       \<not> missing_credentials w \<and> \<not> recognizable_repoUrl (request_json w)) \<or>
    (\<exists>e. fst (POST_route w) = \<lparr>status = 500, body = ErrorBody e\<rparr> \<and>
       (missing_credentials w \<or> recognizable_repoUrl (request_json w)))) \<and>
   ((\<exists>prompt result rsp t.
       fst (POST_part000 w) = \<lparr>status = 200, body = Readme t\<rparr> \<and>
       GenerateContent prompt \<in> set (snd (POST_part000 w)) \<and>
       generateContent w prompt = Inr result \<and> response result = Some rsp \<and>
       response_text rsp = Inr t \<and>
       \<not> missing_credentials w \<and> recognizable_repoUrl (request_json w)) \<or>
    (\<exists>e. fst (POST_part000 w) = \<lparr>status = 400, body = ErrorBody e\<rparr> \<and>
       \<not> missing_credentials w \<and> \<not> recognizable_repoUrl (request_json w)) \<or>
    (\<exists>e. fst (POST_part000 w) = \<lparr>status = 500, body = ErrorBody e\<rparr> \<and>
       (missing_credentials w \<or> recognizable_repoUrl (request_json w))))"
proof (cases "missing_credentials w")
  case True
  then show ?thesis
    by (simp add: POST_route_def POST_part000_def server_configuration_error_def json_response_def)
next
  case False
  show ?thesis
  proof (cases "recognizable_repoUrl (request_json w)")
    case no: False
    then obtain e1 e2 where "parse_request_route (request_json w) = Inl e1"
      "parse_request_part000 (request_json w) = Inl e2"
      using parse_request_route_fails parse_request_part000_fails by blast
    then show ?thesis
      using False no POST_route_bad_request[OF False] POST_part000_bad_request[OF False]
      by (simp add: bad_request_def json_response_def)
  next
    case yes: True
    obtain u1 o1 r1 where p1: "parse_request_route (request_json w) = Inr (u1, o1, r1)"
      using yes recognizable_parse_route by (metis prod_cases3)
    obtain u2 o2 r2 where p2: "parse_request_part000 (request_json w) = Inr (u2, o2, r2)"
      using yes recognizable_parse_part000 by (metis prod_cases3)
    note a = POST_route_parsed[OF False p1]
    note b = POST_part000_parsed[OF False p2]
    have A: "(\<exists>prompt result rsp t.
       fst (POST_route w) = \<lparr>status = 200, body = Readme t\<rparr> \<and>
       GenerateContent prompt \<in> set (snd (POST_route w)) \<and>
       generateContent w prompt = Inr result \<and> response result = Some rsp \<and>
       response_text rsp = Inr t) \<or>
       (\<exists>e. fst (POST_route w) = \<lparr>status = 500, body = ErrorBody e\<rparr>)"
    proof -
      from generate_route_shape[of w u1 "fst (fetch_route w o1 r1)"] show ?thesis
      proof
        assume "\<exists>e. fst (generate_route w u1 (fst (fetch_route w o1 r1)))
                  = \<lparr>status = 500, body = ErrorBody e\<rparr>"
        then show ?thesis unfolding a by simp
      next
        assume "\<exists>prompt result rsp t.
           fst (generate_route w u1 (fst (fetch_route w o1 r1))) = \<lparr>status = 200, body = Readme t\<rparr> \<and>
           snd (generate_route w u1 (fst (fetch_route w o1 r1))) = [GenerateContent prompt] \<and>
           generateContent w prompt = Inr result \<and> response result = Some rsp \<and>
           response_text rsp = Inr t"
        then obtain prompt result rsp t where g:
           "fst (generate_route w u1 (fst (fetch_route w o1 r1))) = \<lparr>status = 200, body = Readme t\<rparr>"
           "snd (generate_route w u1 (fst (fetch_route w o1 r1))) = [GenerateContent prompt]"
           "generateContent w prompt = Inr result" "response result = Some rsp"
           "response_text rsp = Inr t" by blast
        have "fst (POST_route w) = \<lparr>status = 200, body = Readme t\<rparr> \<and>
              GenerateContent prompt \<in> set (snd (POST_route w)) \<and>
              generateContent w prompt = Inr result \<and> response result = Some rsp \<and>
              response_text rsp = Inr t"
          unfolding a using g by simp
        then show ?thesis by blast
      qed
    qed
    have B: "(\<exists>prompt result rsp t.
       fst (POST_part000 w) = \<lparr>status = 200, body = Readme t\<rparr> \<and>
       GenerateContent prompt \<in> set (snd (POST_part000 w)) \<and>
       generateContent w prompt = Inr result \<and> response result = Some rsp \<and>
       response_text rsp = Inr t) \<or>
       (\<exists>e. fst (POST_part000 w) = \<lparr>status = 500, body = ErrorBody e\<rparr>)"
    proof -
      from generate_part000_shape[of w u2 "fst (fetch_part000 w o2 r2)"] show ?thesis
      proof
        assume "\<exists>e. fst (generate_part000 w u2 (fst (fetch_part000 w o2 r2)))
                  = \<lparr>status = 500, body = ErrorBody e\<rparr>"
        then show ?thesis unfolding b by simp
      next
        assume "\<exists>prompt result rsp t.
           fst (generate_part000 w u2 (fst (fetch_part000 w o2 r2))) = \<lparr>status = 200, body = Readme t\<rparr> \<and>
           snd (generate_part000 w u2 (fst (fetch_part000 w o2 r2))) = [GenerateContent prompt] \<and>
           generateContent w prompt = Inr result \<and> response result = Some rsp \<and>
           response_text rsp = Inr t"
        then obtain prompt result rsp t where g:
           "fst (generate_part000 w u2 (fst (fetch_part000 w o2 r2))) = \<lparr>status = 200, body = Readme t\<rparr>"
           "snd (generate_part000 w u2 (fst (fetch_part000 w o2 r2))) = [GenerateContent prompt]"
           "generateContent w prompt = Inr result" "response result = Some rsp"
           "response_text rsp = Inr t" by blast
        have "fst (POST_part000 w) = \<lparr>status = 200, body = Readme t\<rparr> \<and>
              GenerateContent prompt \<in> set (snd (POST_part000 w)) \<and>
              generateContent w prompt = Inr result \<and> response result = Some rsp \<and>
              response_text rsp = Inr t"
          unfolding b using g by simp
        then show ?thesis by blast
      qed
    qed
    from A B False yes show ?thesis by blast
  qed
qed

subsection \<open>When the answer is an error\<close>

text \<open>
  The generation answers 500 exactly when it fails, and 200 with the generated text
  otherwise; so does the handler on a configured server for a recognizable URL.
\<close>

lemma handle_result_route_500:
  "response result = None \<or> (\<exists>rsp e. response result = Some rsp \<and> response_text rsp = Inl e) \<Longrightarrow>
   \<exists>e. handle_result_route result = \<lparr>status = 500, body = ErrorBody e\<rparr>"
  by (auto simp: handle_result_route_def json_response_def)

lemma handle_result_part000_500:
  "response result = None \<or> (\<exists>rsp e. response result = Some rsp \<and> response_text rsp = Inl e) \<Longrightarrow>
   \<exists>e. handle_result_part000 result = \<lparr>status = 500, body = ErrorBody e\<rparr>"
  by (auto simp: handle_result_part000_def json_response_def)

lemma generate_route_cases:
  "(generation_fails_route w repoUrl f \<and>
      (\<exists>e. fst (generate_route w repoUrl f) = \<lparr>status = 500, body = ErrorBody e\<rparr>)) \<or>
   (\<not> generation_fails_route w repoUrl f \<and>
      (\<exists>ctx result rsp t.
         context_route repoUrl f = Inr ctx \<and>
         generateContent w (prompt_head_route @ ctx @ prompt_tail_route) = Inr result \<and>
         response result = Some rsp \<and> response_text rsp = Inr t \<and>
         generate_route w repoUrl f =
           (\<lparr>status = 200, body = Readme t\<rparr>,
            [GenerateContent (prompt_head_route @ ctx @ prompt_tail_route)])))"
proof (cases "context_route repoUrl f")
  case (Inl e)
  then show ?thesis using processing_error_route_shape[of f e]
    by (simp add: generate_route_def generation_fails_route_def)
next
  case c: (Inr ctx)
  show ?thesis
  proof (cases "generateContent w (prompt_head_route @ ctx @ prompt_tail_route)")
    case (Inl e)
    then show ?thesis using c processing_error_route_shape[of f e]
      by (simp add: generate_route_def generation_fails_route_def)
  next
    case g: (Inr result)
    show ?thesis
    proof (cases "response result")
      case None
      then show ?thesis using c g handle_result_route_500[of result]
        by (simp add: generate_route_def generation_fails_route_def)
    next
      case s: (Some rsp)
      show ?thesis
      proof (cases "response_text rsp")
        case (Inl e)
        then show ?thesis using c g s handle_result_route_500[of result]
          by (simp add: generate_route_def generation_fails_route_def)
      next
        case (Inr t)
        then show ?thesis using c g s
          by (simp add: generate_route_def generation_fails_route_def handle_result_route_def
                json_response_def)
      qed
    qed
  qed
qed

lemma generate_part000_cases:
  "(generation_fails_part000 w repoUrl f \<and>
      (\<exists>e. fst (generate_part000 w repoUrl f) = \<lparr>status = 500, body = ErrorBody e\<rparr>)) \<or>
   (\<not> generation_fails_part000 w repoUrl f \<and>
      (\<exists>ctx result rsp t.
         context_part000 repoUrl f = Inr ctx \<and>
         generateContent w (prompt_head_part000 @ ctx @ prompt_tail_part000) = Inr result \<and>
         response result = Some rsp \<and> response_text rsp = Inr t \<and>
         generate_part000 w repoUrl f =
           (\<lparr>status = 200, body = Readme t\<rparr>,
            [GenerateContent (prompt_head_part000 @ ctx @ prompt_tail_part000)])))"
proof (cases "context_part000 repoUrl f")
  case (Inl e)
  then show ?thesis using processing_error_part000_shape[of f e]
    by (simp add: generate_part000_def generation_fails_part000_def)
next
  case c: (Inr ctx)
  show ?thesis
  proof (cases "generateContent w (prompt_head_part000 @ ctx @ prompt_tail_part000)")
    case (Inl e)
    then show ?thesis using c processing_error_part000_shape[of f e]
      by (simp add: generate_part000_def generation_fails_part000_def)
  next
    case g: (Inr result)
    show ?thesis
    proof (cases "response result")
      case None
      then show ?thesis using c g handle_result_part000_500[of result]
        by (simp add: generate_part000_def generation_fails_part000_def)
    next
      case s: (Some rsp)
      show ?thesis
      proof (cases "response_text rsp")
        case (Inl e)
        then show ?thesis using c g s handle_result_part000_500[of result]
          by (simp add: generate_part000_def generation_fails_part000_def)
      next
        case (Inr t)
        then show ?thesis using c g s
          by (simp add: generate_part000_def generation_fails_part000_def handle_result_part000_def
                json_response_def)
      qed
    qed
  qed
qed


lemma response_exact_route:
  "(\<exists>repoUrl owner repo ctx result rsp t.
       fst (POST_route w) = \<lparr>status = 200, body = Readme t\<rparr> \<and>
       GenerateContent (prompt_head_route @ ctx @ prompt_tail_route) \<in> set (snd (POST_route w)) \<and>
       generateContent w (prompt_head_route @ ctx @ prompt_tail_route) = Inr result \<and>
       response result = Some rsp \<and> response_text rsp = Inr t \<and>
       \<not> missing_credentials w \<and> recognizable_repoUrl (request_json w) \<and>
       parse_request_route (request_json w) = Inr (repoUrl, owner, repo) \<and>
       context_route repoUrl (fst (fetch_route w owner repo)) = Inr ctx \<and>
       \<not> generation_fails_route w repoUrl (fst (fetch_route w owner repo))) \<or>
    (\<exists>e. fst (POST_route w) = \<lparr>status = 400, body = ErrorBody e\<rparr> \<and>
       \<not> missing_credentials w \<and> \<not> recognizable_repoUrl (request_json w)) \<or>
    (\<exists>e. fst (POST_route w) = \<lparr>status = 500, body = ErrorBody e\<rparr> \<and>
       (missing_credentials w \<or>
        recognizable_repoUrl (request_json w) \<and>
        (\<exists>repoUrl owner repo.
            parse_request_route (request_json w) = Inr (repoUrl, owner, repo) \<and>
            generation_fails_route w repoUrl (fst (fetch_route w owner repo)))))"
proof (cases "missing_credentials w")
  case True
  then have "fst (POST_route w) = \<lparr>status = 500, body = ErrorBody ''Server configuration error.''\<rparr>"
    by (simp add: POST_route_def server_configuration_error_def json_response_def)
  with True show ?thesis by blast
next
  case False
  show ?thesis
  proof (cases "recognizable_repoUrl (request_json w)")
    case no: False
    then obtain e1 where "parse_request_route (request_json w) = Inl e1"
      using parse_request_route_fails by blast
    then have "\<exists>e. fst (POST_route w) = \<lparr>status = 400, body = ErrorBody e\<rparr>"
      using POST_route_bad_request[OF False] by (simp add: bad_request_def json_response_def)
    with False no show ?thesis by blast
  next
    case yes: True
    obtain u o1 r1 where p: "parse_request_route (request_json w) = Inr (u, o1, r1)"
      using yes recognizable_parse_route by (metis prod_cases3)
    note a = POST_route_parsed[OF False p]
    let ?f = "fst (fetch_route w o1 r1)"
    from generate_route_cases[of w u ?f] show ?thesis
    proof (elim disjE conjE exE)
      fix e assume g: "generation_fails_route w u ?f"
        "fst (generate_route w u ?f) = \<lparr>status = 500, body = ErrorBody e\<rparr>"
      have "fst (POST_route w) = \<lparr>status = 500, body = ErrorBody e\<rparr>"
        unfolding a using g(2) by simp
      with yes p g(1) show ?thesis by blast
    next
      fix ctx result rsp t
      assume g: "\<not> generation_fails_route w u ?f" "context_route u ?f = Inr ctx"
        "generateContent w (prompt_head_route @ ctx @ prompt_tail_route) = Inr result"
        "response result = Some rsp" "response_text rsp = Inr t"
        "generate_route w u ?f =
           (\<lparr>status = 200, body = Readme t\<rparr>,
            [GenerateContent (prompt_head_route @ ctx @ prompt_tail_route)])"
      have "fst (POST_route w) = \<lparr>status = 200, body = Readme t\<rparr> \<and>
        GenerateContent (prompt_head_route @ ctx @ prompt_tail_route) \<in> set (snd (POST_route w))"
        unfolding a using g(6) by simp
      with False yes p g(1-5) show ?thesis by blast
    qed
  qed
qed

lemma response_exact_part000:
  "(\<exists>repoUrl owner repo ctx result rsp t.
       fst (POST_part000 w) = \<lparr>status = 200, body = Readme t\<rparr> \<and>
       GenerateContent (prompt_head_part000 @ ctx @ prompt_tail_part000) \<in> set (snd (POST_part000 w)) \<and>
       generateContent w (prompt_head_part000 @ ctx @ prompt_tail_part000) = Inr result \<and>
       response result = Some rsp \<and> response_text rsp = Inr t \<and>
       \<not> missing_credentials w \<and> recognizable_repoUrl (request_json w) \<and>
       parse_request_part000 (request_json w) = Inr (repoUrl, owner, repo) \<and>
       context_part000 repoUrl (fst (fetch_part000 w owner repo)) = Inr ctx \<and>
       \<not> generation_fails_part000 w repoUrl (fst (fetch_part000 w owner repo))) \<or>
    (\<exists>e. fst (POST_part000 w) = \<lparr>status = 400, body = ErrorBody e\<rparr> \<and>
       \<not> missing_credentials w \<and> \<not> recognizable_repoUrl (request_json w)) \<or>
    (\<exists>e. fst (POST_part000 w) = \<lparr>status = 500, body = ErrorBody e\<rparr> \<and>
       (missing_credentials w \<or>
        recognizable_repoUrl (request_json w) \<and>
        (\<exists>repoUrl owner repo.
            parse_request_part000 (request_json w) = Inr (repoUrl, owner, repo) \<and>
            generation_fails_part000 w repoUrl (fst (fetch_part000 w owner repo)))))"
proof (cases "missing_credentials w")
  case True
  then have "fst (POST_part000 w) = \<lparr>status = 500, body = ErrorBody ''Server configuration error.''\<rparr>"
    by (simp add: POST_part000_def server_configuration_error_def json_response_def)
  with True show ?thesis by blast
next
  case False
  show ?thesis
  proof (cases "recognizable_repoUrl (request_json w)")
    case no: False
    then obtain e1 where "parse_request_part000 (request_json w) = Inl e1"
      using parse_request_part000_fails by blast
    then have "\<exists>e. fst (POST_part000 w) = \<lparr>status = 400, body = ErrorBody e\<rparr>"
      using POST_part000_bad_request[OF False] by (simp add: bad_request_def json_response_def)
    with False no show ?thesis by blast
  next
    case yes: True
    obtain u o1 r1 where p: "parse_request_part000 (request_json w) = Inr (u, o1, r1)"
      using yes recognizable_parse_part000 by (metis prod_cases3)
    note a = POST_part000_parsed[OF False p]
    let ?f = "fst (fetch_part000 w o1 r1)"
    from generate_part000_cases[of w u ?f] show ?thesis
    proof (elim disjE conjE exE)
      fix e assume g: "generation_fails_part000 w u ?f"
        "fst (generate_part000 w u ?f) = \<lparr>status = 500, body = ErrorBody e\<rparr>"
      have "fst (POST_part000 w) = \<lparr>status = 500, body = ErrorBody e\<rparr>"
        unfolding a using g(2) by simp
      with yes p g(1) show ?thesis by blast
    next
      fix ctx result rsp t
      assume g: "\<not> generation_fails_part000 w u ?f" "context_part000 u ?f = Inr ctx"
        "generateContent w (prompt_head_part000 @ ctx @ prompt_tail_part000) = Inr result"
        "response result = Some rsp" "response_text rsp = Inr t"
        "generate_part000 w u ?f =
           (\<lparr>status = 200, body = Readme t\<rparr>,
            [GenerateContent (prompt_head_part000 @ ctx @ prompt_tail_part000)])"
      have "fst (POST_part000 w) = \<lparr>status = 200, body = Readme t\<rparr> \<and>
        GenerateContent (prompt_head_part000 @ ctx @ prompt_tail_part000) \<in> set (snd (POST_part000 w))"
        unfolding a using g(6) by simp
      with False yes p g(1-5) show ?thesis by blast
    qed
  qed
qed

subsection \<open>More example requests\<close>

lemma no_github_suffix:
  "\<not> (\<exists>p h. ''https://github.com/acme/widget'' = p @ h \<and> ci_eq h ''github.com'')"
proof
  assume "\<exists>p h. ''https://github.com/acme/widget'' = p @ h \<and> ci_eq h ''github.com''"
  then obtain p h where e: "''https://github.com/acme/widget'' = p @ h" and c: "ci_eq h ''github.com''"
    by blast
  from c have l: "length h = 10" by (drule_tac ci_eq_length) simp
  from e have "h = drop (length ''https://github.com/acme/widget'' - length h) ''https://github.com/acme/widget''"
    by (metis append_eq_conv_conj length_append add_diff_cancel_right')
  with l have "h = ''cme/widget''" by simp
  then have "\<not> slash_free h" by (simp add: slash_free_def)
  then show False using ci_eq_slash_free[OF c github_slash_free(1)] by simp
qed

lemma dec_404: "dec 404 = ''404''"
  by code_simp

lemma blocked_parse:
  "parse_request_route (request_json blocked_after_not_found_world) = Inr (''https://github.com/acme/widget'', ''acme'', ''widget'')"
  "parse_request_part000 (request_json blocked_after_not_found_world) = Inr (''https://github.com/acme/widget'', ''acme'', ''widget'')"
  using acme_parse by (simp_all add: blocked_after_not_found_world_def)

lemma blocked_configured: "\<not> missing_credentials blocked_after_not_found_world"
  using acme_configured by (simp add: missing_credentials_def blocked_after_not_found_world_def)

lemma blocked_fetch_route:
  "fetch_route blocked_after_not_found_world ''acme'' ''widget'' =
     (nothing_fetched\<lparr>fetchError := Some ''Failed to fetch data from GitHub (Status: 404). Not Found. Is the repository public and spelled correctly?''\<rparr>,
      [ReposGet ''acme'' ''widget''])"
  by (simp add: fetch_route_def blocked_after_not_found_world_def fetchError_route_def
        status_or_unknown_def template_str_def dec_404)

lemma blocked_fetch_part000:
  "fetch_part000 blocked_after_not_found_world ''acme'' ''widget'' =
     (nothing_fetched\<lparr>fetchError := Some ''Failed to fetch data from GitHub (Status: 404). Not Found''\<rparr>,
      [ReposGet ''acme'' ''widget'', ListLanguages ''acme'' ''widget'',
       GetContent ''acme'' ''widget'' [], GetContent ''acme'' ''widget'' ''package.json''])"
  by (simp add: fetch_part000_def blocked_after_not_found_world_def acme_world_def
        fetchError_part000_def packageJsonPromise_def rejection_def
        status_or_unknown_def template_str_def dec_404)

lemma blocked_context_route:
  "context_route ''https://github.com/acme/widget''
     (nothing_fetched\<lparr>fetchError := Some ''Failed to fetch data from GitHub (Status: 404). Not Found. Is the repository public and spelled correctly?''\<rparr>)
   = Inr (nl @ ''          Repository URL: https://github.com/acme/widget'' @
          nl @ ''          '' @ nl @ ''          '' @ nl @ ''          '' @ nl @ ''          '' @
          nl @ ''          '' @ nl @ ''          '' @ nl @ ''          '' @
          nl @ ''          '' @ nl @ ''Note: There was an error fetching full details from GitHub: Failed to fetch data from GitHub (Status: 404). Not Found. Is the repository public and spelled correctly?'' @
          nl @ ''        '')"
  by (simp add: context_route_def fragments_def name_fragment_def dependencies_fragment_def
        scripts_fragment_def description_fragment_def language_fragment_def breakdown_fragment_def
        root_fragment_def note_fragment_def opt_prop_def nothing_fetched_def note_route_def
        numeral_eq_Suc)

lemma blocked_context_part000:
  "context_part000 ''https://github.com/acme/widget''
     (nothing_fetched\<lparr>fetchError := Some ''Failed to fetch data from GitHub (Status: 404). Not Found''\<rparr>)
   = Inr (''Repository URL: https://github.com/acme/widget'' @ nl @ nl @
          ''Note: GitHub fetch error occurred: Failed to fetch data from GitHub (Status: 404). Not Found'')"
  by (simp add: context_part000_def fragments_def name_fragment_def dependencies_fragment_def
        scripts_fragment_def description_fragment_def language_fragment_def breakdown_fragment_def
        root_fragment_def note_fragment_def opt_prop_def nothing_fetched_def note_part000_def)

subsection \<open>After a failed fetch\<close>

text \<open>
  In both files, after a failed mandatory fetch the manifest is absent and a fetch error
  is recorded; the handler then builds the context, with the
  note, and calls the inference API; generated text is returned with status 200; an
  exception of the call is reported together with the fetch error.
\<close>

lemma fetch_route_failure:
  assumes "(\<exists>e. repos_get w owner repo = Inl e) \<or> (\<exists>e. repos_listLanguages w owner repo = Inl e) \<or>
           (\<exists>e. repos_getContent w owner repo [] = Inl e)"
  shows "\<exists>e. fetchError (fst (fetch_route w owner repo)) = Some (fetchError_route e) \<and>
             packageJsonContent (fst (fetch_route w owner repo)) = JNull"
  using assms
  by (cases "repos_get w owner repo"; cases "repos_listLanguages w owner repo";
      cases "repos_getContent w owner repo []")
     (auto simp: fetch_route_def nothing_fetched_def)

lemma first_rejection_Some: "rs \<noteq> [] \<Longrightarrow> \<exists>f e. first_rejection t rs = Some (f, e) \<and> (f, e) \<in> set rs"
proof (induction rs)
  case Nil then show ?case by simp
next
  case (Cons x rs)
  obtain f e where x: "x = (f, e)" by (cases x)
  show ?case
  proof (cases "rs = []")
    case True then show ?thesis by (simp add: x)
  next
    case False
    with Cons.IH obtain g e' where "first_rejection t rs = Some (g, e')" "(g, e') \<in> set rs" by blast
    then show ?thesis by (simp add: x)
  qed
qed

lemma fetch_part000_failure:
  assumes "(\<exists>e. repos_get w owner repo = Inl e) \<or> (\<exists>e. repos_listLanguages w owner repo = Inl e) \<or>
           (\<exists>e. repos_getContent w owner repo [] = Inl e) \<or>
           (\<exists>e. packageJsonPromise w owner repo = Inl e)"
  shows "\<exists>e. fetchError (fst (fetch_part000 w owner repo)) = Some (fetchError_part000 e) \<and>
             packageJsonContent (fst (fetch_part000 w owner repo)) = JNull"
proof -
  let ?rs = "rejection FRepo (repos_get w owner repo) @
             rejection FLanguages (repos_listLanguages w owner repo) @
             rejection FRoot (repos_getContent w owner repo []) @
             rejection FPackageJson (packageJsonPromise w owner repo)"
  from assms have "?rs \<noteq> []" by (auto simp: rejection_def)
  from first_rejection_Some[OF this, of "settle_time w"] obtain f e where
    "first_rejection (settle_time w) ?rs = Some (f, e)" by blast
  then show ?thesis by (auto simp: fetch_part000_def Let_def nothing_fetched_def)
qed

lemma fetchError_nonempty: "fetchError_route e \<noteq> []" "fetchError_part000 e \<noteq> []"
  by (simp_all add: fetchError_route_def fetchError_part000_def)

lemma fragments_without_manifest:
  "packageJsonContent f = JNull \<Longrightarrow>
   fragments note repoUrl f =
     Inr [''Repository URL: '' @ repoUrl, description_fragment f, language_fragment f,
          breakdown_fragment f, root_fragment f, [], [], [], note_fragment note f]"
  by (simp add: fragments_def name_fragment_def dependencies_fragment_def scripts_fragment_def
        opt_prop_def)

lemma generate_route_after_failure:
  assumes "fetchError f = Some fe" "fe \<noteq> []" "packageJsonContent f = JNull"
  shows "\<exists>ctx. context_route repoUrl f = Inr ctx \<and>
     snd (generate_route w repoUrl f) = [GenerateContent (prompt_head_route @ ctx @ prompt_tail_route)] \<and>
     (\<forall>result rsp t. generateContent w (prompt_head_route @ ctx @ prompt_tail_route) = Inr result \<and>
        response result = Some rsp \<and> response_text rsp = Inr t \<longrightarrow>
        fst (generate_route w repoUrl f) = \<lparr>status = 200, body = Readme t\<rparr>) \<and>
     (\<forall>e. generateContent w (prompt_head_route @ ctx @ prompt_tail_route) = Inl e \<longrightarrow>
        fst (generate_route w repoUrl f) =
          \<lparr>status = 500,
           body = ErrorBody (''Failed to process request: '' @ fe @ ''. '' @
                    or_else (error_message e) ''An unknown error occurred during README generation.'')\<rparr>)"
proof -
  obtain ctx where c: "context_route repoUrl f = Inr ctx"
    by (simp add: context_route_def fragments_without_manifest[OF assms(3)])
  show ?thesis
    using assms(1,2)
    by (intro exI[of _ ctx])
       (simp add: c generate_route_def handle_result_route_def processing_error_route_def
          json_response_def Let_def)
qed

lemma generate_part000_after_failure:
  assumes "fetchError f = Some fe" "fe \<noteq> []" "packageJsonContent f = JNull"
  shows "\<exists>ctx. context_part000 repoUrl f = Inr ctx \<and>
     snd (generate_part000 w repoUrl f) = [GenerateContent (prompt_head_part000 @ ctx @ prompt_tail_part000)] \<and>
     (\<forall>result rsp t. generateContent w (prompt_head_part000 @ ctx @ prompt_tail_part000) = Inr result \<and>
        response result = Some rsp \<and> response_text rsp = Inr t \<longrightarrow>
        fst (generate_part000 w repoUrl f) = \<lparr>status = 200, body = Readme t\<rparr>) \<and>
     (\<forall>e. generateContent w (prompt_head_part000 @ ctx @ prompt_tail_part000) = Inl e \<longrightarrow>
        fst (generate_part000 w repoUrl f) =
          \<lparr>status = 500,
           body = ErrorBody (''Failed to process request: '' @ fe @ ''. '' @
                    template_str (error_message e))\<rparr>)"
proof -
  obtain ctx where c: "context_part000 repoUrl f = Inr ctx"
    by (simp add: context_part000_def fragments_without_manifest[OF assms(3)])
  show ?thesis
    using assms(1,2)
    by (intro exI[of _ ctx])
       (simp add: c generate_part000_def handle_result_part000_def processing_error_part000_def
          json_response_def or_else_def Let_def)
qed

lemma POST_route_after_fetch_failure:
  assumes "\<not> missing_credentials w"
    and "parse_request_route (request_json w) = Inr (repoUrl, owner, repo)"
    and "(\<exists>e. repos_get w owner repo = Inl e) \<or> (\<exists>e. repos_listLanguages w owner repo = Inl e) \<or>
         (\<exists>e. repos_getContent w owner repo [] = Inl e)"
  shows "\<exists>fe ctx. fe \<noteq> [] \<and>
     fetchError (fst (fetch_route w owner repo)) = Some fe \<and>
     context_route repoUrl (fst (fetch_route w owner repo)) = Inr ctx \<and>
     snd (POST_route w) = snd (fetch_route w owner repo) @
        [GenerateContent (prompt_head_route @ ctx @ prompt_tail_route)] \<and>
     (\<forall>result rsp t. generateContent w (prompt_head_route @ ctx @ prompt_tail_route) = Inr result \<and>
        response result = Some rsp \<and> response_text rsp = Inr t \<longrightarrow>
        fst (POST_route w) = \<lparr>status = 200, body = Readme t\<rparr>) \<and>
     (\<forall>e. generateContent w (prompt_head_route @ ctx @ prompt_tail_route) = Inl e \<longrightarrow>
        fst (POST_route w) =
          \<lparr>status = 500,
           body = ErrorBody (''Failed to process request: '' @ fe @ ''. '' @
                    or_else (error_message e) ''An unknown error occurred during README generation.'')\<rparr>)"
proof -
  from fetch_route_failure[OF assms(3)] obtain e0 where
    f: "fetchError (fst (fetch_route w owner repo)) = Some (fetchError_route e0)"
       "packageJsonContent (fst (fetch_route w owner repo)) = JNull" by blast
  from generate_route_after_failure[OF f(1) fetchError_nonempty(1) f(2), of repoUrl w]
  obtain ctx where g: "context_route repoUrl (fst (fetch_route w owner repo)) = Inr ctx"
     "snd (generate_route w repoUrl (fst (fetch_route w owner repo))) =
        [GenerateContent (prompt_head_route @ ctx @ prompt_tail_route)]"
     "\<forall>result rsp t. generateContent w (prompt_head_route @ ctx @ prompt_tail_route) = Inr result \<and>
        response result = Some rsp \<and> response_text rsp = Inr t \<longrightarrow>
        fst (generate_route w repoUrl (fst (fetch_route w owner repo))) = \<lparr>status = 200, body = Readme t\<rparr>"
     "\<forall>e. generateContent w (prompt_head_route @ ctx @ prompt_tail_route) = Inl e \<longrightarrow>
        fst (generate_route w repoUrl (fst (fetch_route w owner repo))) =
          \<lparr>status = 500,
           body = ErrorBody (''Failed to process request: '' @ fetchError_route e0 @ ''. '' @
                    or_else (error_message e) ''An unknown error occurred during README generation.'')\<rparr>"
    by blast
  show ?thesis
    unfolding POST_route_parsed[OF assms(1,2)]
    using f(1) g fetchError_nonempty(1)[of e0]
    by (intro exI[of _ "fetchError_route e0"] exI[of _ ctx]) simp
qed

lemma POST_part000_after_fetch_failure:
  assumes "\<not> missing_credentials w"
    and "parse_request_part000 (request_json w) = Inr (repoUrl, owner, repo)"
    and "(\<exists>e. repos_get w owner repo = Inl e) \<or> (\<exists>e. repos_listLanguages w owner repo = Inl e) \<or>
         (\<exists>e. repos_getContent w owner repo [] = Inl e) \<or>
           (\<exists>e. packageJsonPromise w owner repo = Inl e)"
  shows "\<exists>fe ctx. fe \<noteq> [] \<and>
     fetchError (fst (fetch_part000 w owner repo)) = Some fe \<and>
     context_part000 repoUrl (fst (fetch_part000 w owner repo)) = Inr ctx \<and>
     snd (POST_part000 w) = snd (fetch_part000 w owner repo) @
        [GenerateContent (prompt_head_part000 @ ctx @ prompt_tail_part000)] \<and>
     (\<forall>result rsp t. generateContent w (prompt_head_part000 @ ctx @ prompt_tail_part000) = Inr result \<and>
        response result = Some rsp \<and> response_text rsp = Inr t \<longrightarrow>
        fst (POST_part000 w) = \<lparr>status = 200, body = Readme t\<rparr>) \<and>
     (\<forall>e. generateContent w (prompt_head_part000 @ ctx @ prompt_tail_part000) = Inl e \<longrightarrow>
        fst (POST_part000 w) =
          \<lparr>status = 500,
           body = ErrorBody (''Failed to process request: '' @ fe @ ''. '' @
                    template_str (error_message e))\<rparr>)"
proof -
  from fetch_part000_failure[OF assms(3)] obtain e0 where
    f: "fetchError (fst (fetch_part000 w owner repo)) = Some (fetchError_part000 e0)"
       "packageJsonContent (fst (fetch_part000 w owner repo)) = JNull" by blast
  from generate_part000_after_failure[OF f(1) fetchError_nonempty(2) f(2), of repoUrl w]
  obtain ctx where g: "context_part000 repoUrl (fst (fetch_part000 w owner repo)) = Inr ctx"
     "snd (generate_part000 w repoUrl (fst (fetch_part000 w owner repo))) =
        [GenerateContent (prompt_head_part000 @ ctx @ prompt_tail_part000)]"
     "\<forall>result rsp t. generateContent w (prompt_head_part000 @ ctx @ prompt_tail_part000) = Inr result \<and>
        response result = Some rsp \<and> response_text rsp = Inr t \<longrightarrow>
        fst (generate_part000 w repoUrl (fst (fetch_part000 w owner repo))) = \<lparr>status = 200, body = Readme t\<rparr>"
     "\<forall>e. generateContent w (prompt_head_part000 @ ctx @ prompt_tail_part000) = Inl e \<longrightarrow>
        fst (generate_part000 w repoUrl (fst (fetch_part000 w owner repo))) =
          \<lparr>status = 500,
           body = ErrorBody (''Failed to process request: '' @ fetchError_part000 e0 @ ''. '' @
                    template_str (error_message e))\<rparr>"
    by blast
  show ?thesis
    unfolding POST_part000_parsed[OF assms(1,2)]
    using f(1) g fetchError_nonempty(2)[of e0]
    by (intro exI[of _ "fetchError_part000 e0"] exI[of _ ctx]) simp
qed

subsection \<open>The lookup of the manifest\<close>

lemma first_rejection_single: "first_rejection t [(f, e)] = Some (f, e)"
  by simp

lemma fetch_part000_manifest_failure:
  assumes "repos_get w owner repo = Inr info" "repos_listLanguages w owner repo = Inr langs"
    "repos_getContent w owner repo [] = Inr root"
    "repos_getContent w owner repo ''package.json'' = Inl e"
  shows "error_status e = Some 404 \<Longrightarrow>
           fst (fetch_part000 w owner repo) =
             \<lparr>repoInfo = Some info, languages = Some langs, rootContent = root_entries root,
              packageJsonContent = JNull, fetchError = None\<rparr>"
    and "error_status e \<noteq> Some 404 \<Longrightarrow>
           fst (fetch_part000 w owner repo) =
             \<lparr>repoInfo = None, languages = None, rootContent = [],
              packageJsonContent = JNull, fetchError = Some (fetchError_part000 e)\<rparr>"
  using assms
  by (simp_all add: fetch_part000_def packageJsonPromise_def rejection_def nothing_fetched_def)

lemma fetch_route_manifest_failure:
  assumes "repos_get w owner repo = Inr info" "repos_listLanguages w owner repo = Inr langs"
    "repos_getContent w owner repo [] = Inr root"
    "repos_getContent w owner repo ''package.json'' = Inl e"
  shows "fst (fetch_route w owner repo) =
             \<lparr>repoInfo = Some info, languages = Some langs, rootContent = root_entries root,
              packageJsonContent = JNull, fetchError = None\<rparr>"
  using assms by (simp add: fetch_route_def nothing_fetched_def)

lemma fragments_without_manifest_and_error:
  "packageJsonContent f = JNull \<Longrightarrow> fetchError f = None \<Longrightarrow>
   fragments note repoUrl f =
     Inr [''Repository URL: '' @ repoUrl, description_fragment f, language_fragment f,
          breakdown_fragment f, root_fragment f, [], [], [], []]"
  by (simp add: fragments_without_manifest note_fragment_def)

lemma dec_500: "dec 500 = ''500''"
  by code_simp

lemma manifest_worlds_mandatory:
  "repos_get manifest_not_found_world ''acme'' ''widget''
     = Inr \<lparr>repo_description = Some ''A widget'', repo_language = None\<rparr>"
  "repos_listLanguages manifest_not_found_world ''acme'' ''widget''
     = Inr [(''TypeScript'', 120), (''CSS'', 7)]"
  "repos_getContent manifest_not_found_world ''acme'' ''widget'' []
     = Inr (Listing [\<lparr>entry_name = ''src'', entry_type = ''dir''\<rparr>])"
  "repos_getContent manifest_not_found_world ''acme'' ''widget'' ''package.json''
     = Inl \<lparr>error_status = Some 404, error_message = Some ''Not Found''\<rparr>"
  "repos_get manifest_server_error_world ''acme'' ''widget''
     = Inr \<lparr>repo_description = Some ''A widget'', repo_language = None\<rparr>"
  "repos_listLanguages manifest_server_error_world ''acme'' ''widget''
     = Inr [(''TypeScript'', 120), (''CSS'', 7)]"
  "repos_getContent manifest_server_error_world ''acme'' ''widget'' []
     = Inr (Listing [\<lparr>entry_name = ''src'', entry_type = ''dir''\<rparr>])"
  "repos_getContent manifest_server_error_world ''acme'' ''widget'' ''package.json''
     = Inl \<lparr>error_status = Some 500, error_message = Some ''Server Error''\<rparr>"
  by (simp_all add: manifest_not_found_world_def manifest_server_error_world_def acme_world_def)

subsection \<open>The fragments of the context\<close>

lemma join_Cons: "join sep (x # xs) = x @ concat (map (\<lambda>y. sep @ y) xs)"
  by (induction xs arbitrary: x) simp_all

lemma fragments_Inr:
  "fragments note repoUrl f = Inr frs \<Longrightarrow>
   \<exists>pn dp sc. frs = [''Repository URL: '' @ repoUrl, description_fragment f, language_fragment f,
                      breakdown_fragment f, root_fragment f, pn, dp, sc, note_fragment note f] \<and>
      name_fragment (packageJsonContent f) = Inr pn \<and>
      dependencies_fragment (packageJsonContent f) = Inr dp \<and>
      scripts_fragment (packageJsonContent f) = Inr sc"
  by (auto simp: fragments_def split: sum.splits)

lemma context_part000_Inr:
  "context_part000 repoUrl f = Inr ctx \<Longrightarrow>
   \<exists>frs. fragments note_part000 repoUrl f = Inr frs \<and>
      ctx = ''Repository URL: '' @ repoUrl @
            concat (map (\<lambda>fr. nl @ fr) (filter (\<lambda>fr. fr \<noteq> []) (tl frs)))"
proof -
  assume a: "context_part000 repoUrl f = Inr ctx"
  then obtain frs where f: "fragments note_part000 repoUrl f = Inr frs"
    "ctx = join nl (filter (\<lambda>fr. fr \<noteq> []) frs)"
    by (auto simp: context_part000_def split: sum.splits)
  from fragments_Inr[OF f(1)] obtain rest where "frs = (''Repository URL: '' @ repoUrl) # rest"
    by blast
  then have "ctx = ''Repository URL: '' @ repoUrl @
            concat (map (\<lambda>fr. nl @ fr) (filter (\<lambda>fr. fr \<noteq> []) (tl frs)))"
    using f(2) by (simp add: join_Cons)
  with f(1) show ?thesis by blast
qed

lemma context_route_Inr:
  "context_route repoUrl f = Inr ctx \<Longrightarrow>
   \<exists>frs. fragments note_route repoUrl f = Inr frs \<and>
      ctx = concat (map (\<lambda>fr. nl @ replicate 10 CHR '' '' @ fr) frs) @ nl @ replicate 8 CHR '' ''"
  by (auto simp: context_route_def split: sum.splits)

lemma fragment_present:
  "description_fragment f = [] \<longleftrightarrow> repoInfo f = None"
  "language_fragment f = [] \<longleftrightarrow> repoInfo f = None"
  "breakdown_fragment f = [] \<longleftrightarrow> languages f = None"
  "root_fragment f = [] \<longleftrightarrow> rootContent f = []"
  "note_fragment note f = [] \<longleftrightarrow> \<not> truthy_str (fetchError f)"
  by (auto simp: description_fragment_def language_fragment_def breakdown_fragment_def
        root_fragment_def note_fragment_def truthy_str_def nl_def split: option.splits)

lemma manifest_fragment_present:
  "name_fragment pkg = Inr pn \<Longrightarrow> pn = [] \<longleftrightarrow> \<not> truthy pkg"
  "dependencies_fragment pkg = Inr dp \<Longrightarrow>
     dp = [] \<longleftrightarrow> \<not> (\<exists>d. opt_prop pkg ''dependencies'' = Some d \<and> truthy d)"
  "scripts_fragment pkg = Inr sc \<Longrightarrow>
     sc = [] \<longleftrightarrow> \<not> (\<exists>d. opt_prop pkg ''scripts'' = Some d \<and> truthy d)"
  by (auto simp: name_fragment_def dependencies_fragment_def scripts_fragment_def
        split: option.splits sum.splits if_splits)

lemma fragment_placeholder:
  "repoInfo f = Some info \<Longrightarrow> \<not> truthy_str (repo_description info) \<Longrightarrow>
     description_fragment f = ''Description: N/A''"
  "repoInfo f = Some info \<Longrightarrow> \<not> truthy_str (repo_language info) \<Longrightarrow>
     language_fragment f = ''Main Language: N/A''"
  "truthy pkg \<Longrightarrow> \<not> (\<exists>v. get_prop pkg ''name'' = Some v \<and> truthy v) \<Longrightarrow>
     name_fragment pkg = Inr ''Package Name: N/A''"
  "fetchError f = Some fe \<Longrightarrow> fe \<noteq> [] \<Longrightarrow> note_fragment note f = nl @ note @ fe"
  by (auto simp: description_fragment_def language_fragment_def name_fragment_def
        note_fragment_def truthy_str_def or_else_def split: option.splits)

lemma bare_metadata_context_part000:
  "context_part000 ''https://github.com/acme/widget'' bare_metadata
     = Inr (''Repository URL: https://github.com/acme/widget'' @ nl @
            ''Description: N/A'' @ nl @ ''Main Language: N/A'')"
  by (simp add: context_part000_def fragments_def name_fragment_def dependencies_fragment_def
        scripts_fragment_def description_fragment_def language_fragment_def breakdown_fragment_def
        root_fragment_def note_fragment_def opt_prop_def or_else_def bare_metadata_def
        nothing_fetched_def)

lemma nothing_fetched_context_route:
  "context_route ''https://github.com/acme/widget'' nothing_fetched
     = Inr (nl @ ''          Repository URL: https://github.com/acme/widget'' @
            nl @ ''          '' @ nl @ ''          '' @ nl @ ''          '' @ nl @ ''          '' @
            nl @ ''          '' @ nl @ ''          '' @ nl @ ''          '' @ nl @ ''          '' @
            nl @ ''        '')"
  by (simp add: context_route_def fragments_def name_fragment_def dependencies_fragment_def
        scripts_fragment_def description_fragment_def language_fragment_def breakdown_fragment_def
        root_fragment_def note_fragment_def opt_prop_def nothing_fetched_def numeral_eq_Suc)

section \<open>The claims\<close>

subsection \<open>The URL parser\<close>

text \<open>
  Claim C1. An input that ends in \<^verbatim>\<open>github.com/<owner>/<repo>\<close>, the domain in any
  letter case, owner and repo non-empty and without a slash, the repo either followed by
  \<^verbatim>\<open>.git\<close> or not itself of the form \<^verbatim>\<open><name>.git\<close>: the pattern extracts exactly that
  owner and that repo, and so does the parsing step of the handler in both files.
\<close>

theorem url_parser_extracts_owner_and_repo:
  assumes "ci_eq host ''github.com''" "owner \<noteq> []" "slash_free owner" "repo \<noteq> []" "slash_free repo"
    and "sfx = [] \<and> \<not> ends_with_git repo \<or> ci_eq sfx ''.git''"
    and "repoUrl = pre @ host @ ''/'' @ owner @ ''/'' @ repo @ sfx"
    and "body_repoUrl b = Inr (Some (JStr repoUrl))"
  shows "githubUrlMatch repoUrl = Some (owner, repo) \<and>
         parse_request_route (Inr b) = Inr (repoUrl, owner, repo) \<and>
         parse_request_part000 (Inr b) = Inr (repoUrl, owner, repo)"
proof -
  have "githubUrlMatch repoUrl = Some (owner, repo)"
    using githubUrlMatch_extracts[OF assms(1-6), of pre] assms(7) by simp
  then show ?thesis
    using parse_request_route_ok[OF assms(8)] parse_request_part000_ok[OF assms(8)] by simp
qed

theorem url_parser_extracts_owner_and_repo_witness:
  "ci_eq ''GitHub.COM'' ''github.com'' \<and> slash_free ''acme'' \<and> slash_free ''widget'' \<and>
   ci_eq ''.GIT'' ''.git'' \<and>
   githubUrlMatch ''https://GitHub.COM/acme/widget.GIT'' = Some (''acme'', ''widget'') \<and>
   parse_request_route (Inr (JObj [(''repoUrl'', JStr ''https://GitHub.COM/acme/widget.GIT'')]))
     = Inr (''https://GitHub.COM/acme/widget.GIT'', ''acme'', ''widget'') \<and>
   parse_request_part000 (Inr (JObj [(''repoUrl'', JStr ''https://GitHub.COM/acme/widget.GIT'')]))
     = Inr (''https://GitHub.COM/acme/widget.GIT'', ''acme'', ''widget'')"
proof -
  have h1: "ci_eq ''GitHub.COM'' ''github.com''" by code_simp
  have h2: "''acme'' \<noteq> []" "''widget'' \<noteq> []" by simp_all
  have h3: "slash_free ''acme''" "slash_free ''widget''" by code_simp+
  have h4: "ci_eq ''.GIT'' ''.git''" by code_simp
  then have h5: "''.GIT'' = [] \<and> \<not> ends_with_git ''widget'' \<or> ci_eq ''.GIT'' ''.git''" by simp
  have h6: "''https://GitHub.COM/acme/widget.GIT''
              = ''https://'' @ ''GitHub.COM'' @ ''/'' @ ''acme'' @ ''/'' @ ''widget'' @ ''.GIT''"
    by simp
  have h7: "body_repoUrl (JObj [(''repoUrl'', JStr ''https://GitHub.COM/acme/widget.GIT'')])
              = Inr (Some (JStr ''https://GitHub.COM/acme/widget.GIT''))"
    by (simp add: body_repoUrl_def)
  show ?thesis
    using url_parser_extracts_owner_and_repo [OF h1 h2(1) h3(1) h2(2) h3(2) h5 h6 h7] h1 h3 h4 by blast
qed

subsection \<open>Requests without a recognizable URL\<close>

text \<open>
  Claim C2, amended. On a server with both credentials, a request whose body does not
  parse, or whose \<^verbatim>\<open>repoUrl\<close> is missing, is no string or is not matched by the pattern,
  is answered with status 400 and an error message, and no outbound call is issued, in
  both files.
\<close>

theorem unrecognized_url_is_bad_request:
  assumes "\<not> missing_credentials w" "\<not> recognizable_repoUrl (request_json w)"
  shows "(\<exists>e. POST_route w = (\<lparr>status = 400, body = ErrorBody e\<rparr>, [])) \<and>
         (\<exists>e. POST_part000 w = (\<lparr>status = 400, body = ErrorBody e\<rparr>, []))"
proof -
  from assms(2) obtain e1 e2 where "parse_request_route (request_json w) = Inl e1"
    "parse_request_part000 (request_json w) = Inl e2"
    using parse_request_route_fails parse_request_part000_fails by blast
  then show ?thesis
    using POST_route_bad_request[OF assms(1)] POST_part000_bad_request[OF assms(1)]
    by (simp add: bad_request_def json_response_def)
qed

text \<open>
  Stated for every request, the property fails on a server that lacks a
  credential: the answer to the request with the trailing slash is then 500.
\<close>

theorem unrecognized_url_not_always_400:
  "\<not> recognizable_repoUrl (request_json unconfigured_world) \<and>
   POST_route unconfigured_world
     = (\<lparr>status = 500, body = ErrorBody ''Server configuration error.''\<rparr>, []) \<and>
   POST_part000 unconfigured_world
     = (\<lparr>status = 500, body = ErrorBody ''Server configuration error.''\<rparr>, [])"
proof -
  have "githubUrlMatch ''https://github.com/acme/widget/'' = None"
    using githubUrlMatch_trailing_slash[of "''https://github.com/acme/widget''"] by simp
  then have "\<not> recognizable_repoUrl (request_json unconfigured_world)"
    by (simp add: recognizable_repoUrl_def unconfigured_world_def trailing_slash_world_def body_repoUrl_def)
  moreover have "missing_credentials unconfigured_world"
    by (simp add: missing_credentials_def unconfigured_world_def truthy_str_def)
  ultimately show ?thesis
    by (simp add: POST_route_def POST_part000_def server_configuration_error_def json_response_def)
qed

theorem unrecognized_url_is_bad_request_witness:
  "\<not> missing_credentials trailing_slash_world \<and>
   \<not> recognizable_repoUrl (request_json trailing_slash_world) \<and>
   POST_route trailing_slash_world
     = (\<lparr>status = 400, body = ErrorBody ''Could not parse GitHub owner/repo from URL.''\<rparr>, []) \<and>
   POST_part000 trailing_slash_world
     = (\<lparr>status = 400, body = ErrorBody ''Could not parse GitHub owner/repo from URL.''\<rparr>, []) \<and>
   POST_route missing_url_world
     = (\<lparr>status = 400, body = ErrorBody ''Invalid or missing repository URL.''\<rparr>, []) \<and>
   POST_part000 missing_url_world
     = (\<lparr>status = 400, body = ErrorBody ''Could not parse GitHub owner/repo from URL.''\<rparr>, []) \<and>
   POST_route numeric_url_world
     = (\<lparr>status = 400, body = ErrorBody ''Invalid or missing repository URL.''\<rparr>, []) \<and>
   POST_part000 numeric_url_world
     = (\<lparr>status = 400, body = ErrorBody ''repoUrl?.match is not a function''\<rparr>, [])"
proof -
  have n: "githubUrlMatch ''https://github.com/acme/widget/'' = None"
    using githubUrlMatch_trailing_slash[of "''https://github.com/acme/widget''"] by simp
  then have h2: "\<not> recognizable_repoUrl (request_json trailing_slash_world)"
    by (simp add: recognizable_repoUrl_def trailing_slash_world_def body_repoUrl_def)
  have h1: "\<not> missing_credentials trailing_slash_world"
    by (simp add: missing_credentials_def trailing_slash_world_def acme_world_def truthy_str_def)
  have c: "\<not> missing_credentials missing_url_world" "\<not> missing_credentials numeric_url_world"
    by (simp_all add: missing_credentials_def missing_url_world_def numeric_url_world_def
          acme_world_def truthy_str_def)
  have p: "parse_request_route (request_json trailing_slash_world) = Inl could_not_parse"
    "parse_request_part000 (request_json trailing_slash_world) = Inl could_not_parse"
    "parse_request_route (request_json missing_url_world)
       = Inl (Error ''Invalid or missing repository URL.'')"
    "parse_request_part000 (request_json missing_url_world) = Inl could_not_parse"
    "parse_request_route (request_json numeric_url_world)
       = Inl (Error ''Invalid or missing repository URL.'')"
    "parse_request_part000 (request_json numeric_url_world)
       = Inl (TypeError ''repoUrl?.match is not a function'')"
    by (simp_all add: parse_request_route_def parse_request_part000_def trailing_slash_world_def
          missing_url_world_def numeric_url_world_def body_repoUrl_def n)
  have e: "bad_request could_not_parse
             = \<lparr>status = 400, body = ErrorBody ''Could not parse GitHub owner/repo from URL.''\<rparr>"
    "bad_request (Error ''Invalid or missing repository URL.'')
             = \<lparr>status = 400, body = ErrorBody ''Invalid or missing repository URL.''\<rparr>"
    "bad_request (TypeError ''repoUrl?.match is not a function'')
             = \<lparr>status = 400, body = ErrorBody ''repoUrl?.match is not a function''\<rparr>"
    by (simp_all add: bad_request_def could_not_parse_def Error_def TypeError_def or_else_def
          json_response_def)
  show ?thesis
    using unrecognized_url_is_bad_request [OF h1 h2] h1 h2
      POST_route_bad_request [OF h1 p(1)] POST_part000_bad_request [OF h1 p(2)]
      POST_route_bad_request [OF c(1) p(3)] POST_part000_bad_request [OF c(1) p(4)]
      POST_route_bad_request [OF c(2) p(5)] POST_part000_bad_request [OF c(2) p(6)]
    by (simp add: e)
qed

subsection \<open>Generation after a failed fetch\<close>

text \<open>
  Claim C3 at a failing input. The metadata request fails with status 404; the handler
  still sends the prompt, with the note about the failure in its context; the inference
  API withholds the text. The answer is status 500 with the error of the text
  extraction alone: neither file mentions the failed fetch in it.
\<close>

theorem fetch_failure_missing_from_extraction_error:
  "POST_route blocked_after_not_found_world =
     (\<lparr>status = 500,
       body = ErrorBody ''AI response error: Failed to generate content. Reason: Text not available. Response was blocked due to SAFETY. Blocking Reason: SAFETY.''\<rparr>,
      [ReposGet ''acme'' ''widget'',
       GenerateContent
         (prompt_head_route @
          (nl @ ''          Repository URL: https://github.com/acme/widget'' @
           nl @ ''          '' @ nl @ ''          '' @ nl @ ''          '' @ nl @ ''          '' @
           nl @ ''          '' @ nl @ ''          '' @ nl @ ''          '' @
           nl @ ''          '' @ nl @ ''Note: There was an error fetching full details from GitHub: Failed to fetch data from GitHub (Status: 404). Not Found. Is the repository public and spelled correctly?'' @
           nl @ ''        '') @
          prompt_tail_route)]) \<and>
   POST_part000 blocked_after_not_found_world =
     (\<lparr>status = 500,
       body = ErrorBody ''AI response error: Text not available. Response was blocked due to SAFETY''\<rparr>,
      [ReposGet ''acme'' ''widget'', ListLanguages ''acme'' ''widget'',
       GetContent ''acme'' ''widget'' [], GetContent ''acme'' ''widget'' ''package.json'',
       GenerateContent
         (prompt_head_part000 @
          (''Repository URL: https://github.com/acme/widget'' @ nl @ nl @
           ''Note: GitHub fetch error occurred: Failed to fetch data from GitHub (Status: 404). Not Found'') @
          prompt_tail_part000)])"
proof -
  have g: "generateContent blocked_after_not_found_world p =
     Inr \<lparr>response = Some \<lparr>response_text = Inl (Error ''Text not available. Response was blocked due to SAFETY''),
                                 blockReason = Some ''SAFETY'', finishReason = None\<rparr>\<rparr>" for p
    by (simp add: blocked_after_not_found_world_def)
  have 1: "POST_route blocked_after_not_found_world =
     (\<lparr>status = 500,
       body = ErrorBody ''AI response error: Failed to generate content. Reason: Text not available. Response was blocked due to SAFETY. Blocking Reason: SAFETY.''\<rparr>,
      [ReposGet ''acme'' ''widget'',
       GenerateContent
         (prompt_head_route @
          (nl @ ''          Repository URL: https://github.com/acme/widget'' @
           nl @ ''          '' @ nl @ ''          '' @ nl @ ''          '' @ nl @ ''          '' @
           nl @ ''          '' @ nl @ ''          '' @ nl @ ''          '' @
           nl @ ''          '' @ nl @ ''Note: There was an error fetching full details from GitHub: Failed to fetch data from GitHub (Status: 404). Not Found. Is the repository public and spelled correctly?'' @
           nl @ ''        '') @
          prompt_tail_route)])"
    unfolding POST_route_parsed[OF blocked_configured blocked_parse(1)] blocked_fetch_route
    by (simp add: generate_route_def blocked_context_route g handle_result_route_def
          json_response_def Error_def or_else_def truthy_str_def template_str_def)
  have 2: "POST_part000 blocked_after_not_found_world =
     (\<lparr>status = 500,
       body = ErrorBody ''AI response error: Text not available. Response was blocked due to SAFETY''\<rparr>,
      [ReposGet ''acme'' ''widget'', ListLanguages ''acme'' ''widget'',
       GetContent ''acme'' ''widget'' [], GetContent ''acme'' ''widget'' ''package.json'',
       GenerateContent
         (prompt_head_part000 @
          (''Repository URL: https://github.com/acme/widget'' @ nl @ nl @
           ''Note: GitHub fetch error occurred: Failed to fetch data from GitHub (Status: 404). Not Found'') @
          prompt_tail_part000)])"
    unfolding POST_part000_parsed[OF blocked_configured blocked_parse(2)] blocked_fetch_part000
    by (simp add: generate_part000_def blocked_context_part000 g handle_result_part000_def
          json_response_def Error_def or_else_def)
  from 1 2 show ?thesis by (rule conjI)
qed

subsection \<open>The optional manifest\<close>

text \<open>
  Claim C4, amended. The three mandatory requests succeed and the lookup of
  \<^verbatim>\<open>package.json\<close> fails with the error \<open>e\<close>. With status 404, both files keep what
  was fetched, take the manifest as absent and record no fetch error; the fragments for
  the package name, the dependencies and the scripts and the note are then empty, that
  is omitted. With another status, \<^verbatim>\<open>part_000\<close> records the fetch error of \<open>e\<close> (and
  drops what the other requests fetched), while \<^verbatim>\<open>route.ts\<close> does as for status 404.
\<close>

theorem manifest_lookup_failure:
  assumes "repos_get w owner repo = Inr info" "repos_listLanguages w owner repo = Inr langs"
    "repos_getContent w owner repo [] = Inr root"
    "repos_getContent w owner repo ''package.json'' = Inl e"
  shows "(error_status e = Some 404 \<longrightarrow>
            fst (fetch_part000 w owner repo) =
              \<lparr>repoInfo = Some info, languages = Some langs, rootContent = root_entries root,
               packageJsonContent = JNull, fetchError = None\<rparr>) \<and>
         (error_status e \<noteq> Some 404 \<longrightarrow>
            fst (fetch_part000 w owner repo) =
              \<lparr>repoInfo = None, languages = None, rootContent = [],
               packageJsonContent = JNull, fetchError = Some (fetchError_part000 e)\<rparr>) \<and>
         fst (fetch_route w owner repo) =
           \<lparr>repoInfo = Some info, languages = Some langs, rootContent = root_entries root,
            packageJsonContent = JNull, fetchError = None\<rparr> \<and>
         (\<forall>f note repoUrl. packageJsonContent f = JNull \<and> fetchError f = None \<longrightarrow>
            fragments note repoUrl f =
              Inr [''Repository URL: '' @ repoUrl, description_fragment f, language_fragment f,
                   breakdown_fragment f, root_fragment f, [], [], [], []])"
  using fetch_part000_manifest_failure[OF assms] fetch_route_manifest_failure[OF assms]
    fragments_without_manifest_and_error
  by blast

theorem manifest_lookup_failure_witness:
  "repos_getContent manifest_not_found_world ''acme'' ''widget'' ''package.json''
     = Inl \<lparr>error_status = Some 404, error_message = Some ''Not Found''\<rparr> \<and>
   fst (fetch_part000 manifest_not_found_world ''acme'' ''widget'') =
     \<lparr>repoInfo = Some \<lparr>repo_description = Some ''A widget'', repo_language = None\<rparr>,
      languages = Some [(''TypeScript'', 120), (''CSS'', 7)],
      rootContent = [\<lparr>entry_name = ''src'', entry_type = ''dir''\<rparr>],
      packageJsonContent = JNull, fetchError = None\<rparr> \<and>
   fst (fetch_route manifest_not_found_world ''acme'' ''widget'') =
     \<lparr>repoInfo = Some \<lparr>repo_description = Some ''A widget'', repo_language = None\<rparr>,
      languages = Some [(''TypeScript'', 120), (''CSS'', 7)],
      rootContent = [\<lparr>entry_name = ''src'', entry_type = ''dir''\<rparr>],
      packageJsonContent = JNull, fetchError = None\<rparr> \<and>
   repos_getContent manifest_server_error_world ''acme'' ''widget'' ''package.json''
     = Inl \<lparr>error_status = Some 500, error_message = Some ''Server Error''\<rparr> \<and>
   fst (fetch_part000 manifest_server_error_world ''acme'' ''widget'') =
     \<lparr>repoInfo = None, languages = None, rootContent = [], packageJsonContent = JNull,
      fetchError = Some ''Failed to fetch data from GitHub (Status: 500). Server Error''\<rparr>"
proof -
  note A = manifest_lookup_failure [OF manifest_worlds_mandatory(1-4)]
  note B = manifest_lookup_failure [OF manifest_worlds_mandatory(5-8)]
  have m: "fetchError_part000 \<lparr>error_status = Some 500, error_message = Some ''Server Error''\<rparr>
             = ''Failed to fetch data from GitHub (Status: 500). Server Error''"
    by (simp add: fetchError_part000_def status_or_unknown_def template_str_def dec_500)
  show ?thesis
    using A B manifest_worlds_mandatory(4,8) by (simp add: root_entries_def m)
qed

text \<open>
  Stated for both files, the propagation of a failure other than not-found fails:
  \<^verbatim>\<open>route.ts\<close> only logs a failure with status 500, records
  no fetch error and answers with the generated text, the context carrying no note.
\<close>

theorem manifest_failure_not_propagated_by_route:
  "repos_getContent manifest_server_error_world ''acme'' ''widget'' ''package.json''
     = Inl \<lparr>error_status = Some 500, error_message = Some ''Server Error''\<rparr> \<and>
   fetchError (fst (fetch_route manifest_server_error_world ''acme'' ''widget'')) = None \<and>
   POST_route manifest_server_error_world =
     (\<lparr>status = 200, body = Readme ''# widget''\<rparr>,
      [ReposGet ''acme'' ''widget'', ListLanguages ''acme'' ''widget'',
       GetContent ''acme'' ''widget'' [], GetContent ''acme'' ''widget'' ''package.json'',
       GenerateContent
         (prompt_head_route @
          (nl @ ''          Repository URL: https://github.com/acme/widget'' @
           nl @ ''          Description: A widget'' @
           nl @ ''          Main Language: N/A'' @
           nl @ ''          Language Breakdown: TypeScript, CSS'' @
           nl @ ''          Root Directory Contents: src/'' @
           nl @ ''          '' @ nl @ ''          '' @ nl @ ''          '' @
           nl @ ''          '' @
           nl @ ''        '') @
          prompt_tail_route)])"
proof -
  have c: "\<not> missing_credentials manifest_server_error_world"
    using acme_configured by (simp add: missing_credentials_def manifest_server_error_world_def)
  have p: "parse_request_route (request_json manifest_server_error_world)
             = Inr (''https://github.com/acme/widget'', ''acme'', ''widget'')"
    using acme_parse(1) by (simp add: manifest_server_error_world_def)
  have f: "fetch_route manifest_server_error_world ''acme'' ''widget'' =
     (\<lparr>repoInfo = Some \<lparr>repo_description = Some ''A widget'', repo_language = None\<rparr>,
       languages = Some [(''TypeScript'', 120), (''CSS'', 7)],
       rootContent = [\<lparr>entry_name = ''src'', entry_type = ''dir''\<rparr>],
       packageJsonContent = JNull, fetchError = None\<rparr>,
      [ReposGet ''acme'' ''widget'', ListLanguages ''acme'' ''widget'',
       GetContent ''acme'' ''widget'' [], GetContent ''acme'' ''widget'' ''package.json''])"
    by (simp add: fetch_route_def manifest_worlds_mandatory nothing_fetched_def root_entries_def)
  have x: "context_route ''https://github.com/acme/widget''
     \<lparr>repoInfo = Some \<lparr>repo_description = Some ''A widget'', repo_language = None\<rparr>,
       languages = Some [(''TypeScript'', 120), (''CSS'', 7)],
       rootContent = [\<lparr>entry_name = ''src'', entry_type = ''dir''\<rparr>],
       packageJsonContent = JNull, fetchError = None\<rparr>
     = Inr (nl @ ''          Repository URL: https://github.com/acme/widget'' @
           nl @ ''          Description: A widget'' @
           nl @ ''          Main Language: N/A'' @
           nl @ ''          Language Breakdown: TypeScript, CSS'' @
           nl @ ''          Root Directory Contents: src/'' @
           nl @ ''          '' @ nl @ ''          '' @ nl @ ''          '' @
           nl @ ''          '' @
           nl @ ''        '')"
    by (simp add: context_route_def fragments_def name_fragment_def dependencies_fragment_def
        scripts_fragment_def description_fragment_def language_fragment_def breakdown_fragment_def
        root_fragment_def note_fragment_def opt_prop_def or_else_def numeral_eq_Suc)
  have g: "generateContent manifest_server_error_world q = generateContent acme_world q" for q
    by (simp add: manifest_server_error_world_def)
  have "POST_route manifest_server_error_world =
     (\<lparr>status = 200, body = Readme ''# widget''\<rparr>,
      [ReposGet ''acme'' ''widget'', ListLanguages ''acme'' ''widget'',
       GetContent ''acme'' ''widget'' [], GetContent ''acme'' ''widget'' ''package.json'',
       GenerateContent
         (prompt_head_route @
          (nl @ ''          Repository URL: https://github.com/acme/widget'' @
           nl @ ''          Description: A widget'' @
           nl @ ''          Main Language: N/A'' @
           nl @ ''          Language Breakdown: TypeScript, CSS'' @
           nl @ ''          Root Directory Contents: src/'' @
           nl @ ''          '' @ nl @ ''          '' @ nl @ ''          '' @
           nl @ ''          '' @
           nl @ ''        '') @
          prompt_tail_route)])"
    unfolding POST_route_parsed[OF c p] f
    by (simp add: generate_route_def x g acme_generateContent handle_result_route_def json_response_def)
  then show ?thesis using manifest_worlds_mandatory(8) f by simp
qed

subsection \<open>The assembled context\<close>

text \<open>
  Claim C5, amended. The nine fragments are taken in the fixed order: URL, description,
  main language, language breakdown, root listing, package name, dependencies, scripts,
  note. In \<^verbatim>\<open>part_000\<close> the context is the URL fragment followed by a line break and the
  fragment for every further fragment that is not empty; in \<^verbatim>\<open>route.ts\<close> it has a line
  break, ten spaces and the fragment for each of the nine, empty or not, then a last line
  of eight spaces. A fragment is empty exactly when its source is missing: the metadata
  for the description and the main language, the language map, a non-empty root listing,
  the manifest, its dependencies, its scripts, the fetch error. A description, language
  or package name that is missing from a present source is printed as \<^verbatim>\<open>N/A\<close>, and the
  note fragment starts with a line break.
\<close>

theorem context_fragments_in_fixed_order:
  "(fragments note repoUrl f = Inr frs \<longrightarrow>
      (\<exists>pn dp sc.
          frs = [''Repository URL: '' @ repoUrl, description_fragment f, language_fragment f,
                 breakdown_fragment f, root_fragment f, pn, dp, sc, note_fragment note f] \<and>
          name_fragment (packageJsonContent f) = Inr pn \<and>
          dependencies_fragment (packageJsonContent f) = Inr dp \<and>
          scripts_fragment (packageJsonContent f) = Inr sc \<and>
          (pn = [] \<longleftrightarrow> \<not> truthy (packageJsonContent f)) \<and>
          (dp = [] \<longleftrightarrow>
             \<not> (\<exists>d. opt_prop (packageJsonContent f) ''dependencies'' = Some d \<and> truthy d)) \<and>
          (sc = [] \<longleftrightarrow>
             \<not> (\<exists>d. opt_prop (packageJsonContent f) ''scripts'' = Some d \<and> truthy d)))) \<and>
   (context_part000 repoUrl f = Inr ctx \<longrightarrow>
      (\<exists>frs. fragments note_part000 repoUrl f = Inr frs \<and>
         ctx = ''Repository URL: '' @ repoUrl @
               concat (map (\<lambda>fr. nl @ fr) (filter (\<lambda>fr. fr \<noteq> []) (tl frs))))) \<and>
   (context_route repoUrl f = Inr ctx' \<longrightarrow>
      (\<exists>frs. fragments note_route repoUrl f = Inr frs \<and>
         ctx' = concat (map (\<lambda>fr. nl @ replicate 10 CHR '' '' @ fr) frs) @
                nl @ replicate 8 CHR '' '')) \<and>
   (description_fragment f = [] \<longleftrightarrow> repoInfo f = None) \<and>
   (language_fragment f = [] \<longleftrightarrow> repoInfo f = None) \<and>
   (breakdown_fragment f = [] \<longleftrightarrow> languages f = None) \<and>
   (root_fragment f = [] \<longleftrightarrow> rootContent f = []) \<and>
   (note_fragment note f = [] \<longleftrightarrow> \<not> truthy_str (fetchError f)) \<and>
   (repoInfo f = Some info \<and> \<not> truthy_str (repo_description info) \<longrightarrow>
      description_fragment f = ''Description: N/A'') \<and>
   (repoInfo f = Some info \<and> \<not> truthy_str (repo_language info) \<longrightarrow>
      language_fragment f = ''Main Language: N/A'') \<and>
   (truthy pkg \<and> \<not> (\<exists>v. get_prop pkg ''name'' = Some v \<and> truthy v) \<longrightarrow>
      name_fragment pkg = Inr ''Package Name: N/A'') \<and>
   (fetchError f = Some fe \<and> fe \<noteq> [] \<longrightarrow> note_fragment note f = nl @ note @ fe)"
proof -
  have 1: "fragments note repoUrl f = Inr frs \<longrightarrow>
      (\<exists>pn dp sc.
          frs = [''Repository URL: '' @ repoUrl, description_fragment f, language_fragment f,
                 breakdown_fragment f, root_fragment f, pn, dp, sc, note_fragment note f] \<and>
          name_fragment (packageJsonContent f) = Inr pn \<and>
          dependencies_fragment (packageJsonContent f) = Inr dp \<and>
          scripts_fragment (packageJsonContent f) = Inr sc \<and>
          (pn = [] \<longleftrightarrow> \<not> truthy (packageJsonContent f)) \<and>
          (dp = [] \<longleftrightarrow>
             \<not> (\<exists>d. opt_prop (packageJsonContent f) ''dependencies'' = Some d \<and> truthy d)) \<and>
          (sc = [] \<longleftrightarrow>
             \<not> (\<exists>d. opt_prop (packageJsonContent f) ''scripts'' = Some d \<and> truthy d)))"
  proof
    assume "fragments note repoUrl f = Inr frs"
    from fragments_Inr[OF this] obtain pn dp sc where
      a: "frs = [''Repository URL: '' @ repoUrl, description_fragment f, language_fragment f,
                 breakdown_fragment f, root_fragment f, pn, dp, sc, note_fragment note f]"
         "name_fragment (packageJsonContent f) = Inr pn"
         "dependencies_fragment (packageJsonContent f) = Inr dp"
         "scripts_fragment (packageJsonContent f) = Inr sc" by blast
    with manifest_fragment_present(1)[OF a(2)] manifest_fragment_present(2)[OF a(3)]
      manifest_fragment_present(3)[OF a(4)]
    show "\<exists>pn dp sc.
          frs = [''Repository URL: '' @ repoUrl, description_fragment f, language_fragment f,
                 breakdown_fragment f, root_fragment f, pn, dp, sc, note_fragment note f] \<and>
          name_fragment (packageJsonContent f) = Inr pn \<and>
          dependencies_fragment (packageJsonContent f) = Inr dp \<and>
          scripts_fragment (packageJsonContent f) = Inr sc \<and>
          (pn = [] \<longleftrightarrow> \<not> truthy (packageJsonContent f)) \<and>
          (dp = [] \<longleftrightarrow>
             \<not> (\<exists>d. opt_prop (packageJsonContent f) ''dependencies'' = Some d \<and> truthy d)) \<and>
          (sc = [] \<longleftrightarrow>
             \<not> (\<exists>d. opt_prop (packageJsonContent f) ''scripts'' = Some d \<and> truthy d))"
      by blast
  qed
  show ?thesis
  proof -
    have 2: "context_part000 repoUrl f = Inr ctx \<longrightarrow>
      (\<exists>frs. fragments note_part000 repoUrl f = Inr frs \<and>
         ctx = ''Repository URL: '' @ repoUrl @
               concat (map (\<lambda>fr. nl @ fr) (filter (\<lambda>fr. fr \<noteq> []) (tl frs))))"
      using context_part000_Inr [of repoUrl f ctx] by (rule impI)
    have 3: "context_route repoUrl f = Inr ctx' \<longrightarrow>
      (\<exists>frs. fragments note_route repoUrl f = Inr frs \<and>
         ctx' = concat (map (\<lambda>fr. nl @ replicate 10 CHR '' '' @ fr) frs) @
                nl @ replicate 8 CHR '' '')"
      using context_route_Inr [of repoUrl f "ctx'"] by (rule impI)
    note c = fragment_present(1-4) [of f]
    note d = fragment_present(5) [of "note" f]
    have 9: "repoInfo f = Some info \<and> \<not> truthy_str (repo_description info) \<longrightarrow>
      description_fragment f = ''Description: N/A''"
      using fragment_placeholder(1) [of f info] by simp
    have 10: "repoInfo f = Some info \<and> \<not> truthy_str (repo_language info) \<longrightarrow>
      language_fragment f = ''Main Language: N/A''"
      using fragment_placeholder(2) [of f info] by simp
    have 11: "truthy pkg \<and> \<not> (\<exists>v. get_prop pkg ''name'' = Some v \<and> truthy v) \<longrightarrow>
      name_fragment pkg = Inr ''Package Name: N/A''"
      using fragment_placeholder(3) [of pkg] by simp
    have 12: "fetchError f = Some fe \<and> fe \<noteq> [] \<longrightarrow> note_fragment note f = nl @ note @ fe"
      using fragment_placeholder(4) [of f fe "note"] by simp
    from 1 2 3 c d 9 10 11 12 show ?thesis by (intro conjI)
  qed
qed

theorem context_fragments_in_fixed_order_witness:
  "fragments note_part000 ''https://github.com/acme/widget'' (fst (fetch_part000 acme_world ''acme'' ''widget''))
     = Inr [''Repository URL: https://github.com/acme/widget'', ''Description: A widget'',
            ''Main Language: N/A'', ''Language Breakdown: TypeScript, CSS'',
            ''Root Directory Contents: src/, package.json'', ''Package Name: N/A'', [], [], []] \<and>
   context_part000 ''https://github.com/acme/widget'' (fst (fetch_part000 acme_world ''acme'' ''widget''))
     = Inr (''Repository URL: https://github.com/acme/widget'' @ nl @
            ''Description: A widget'' @ nl @
            ''Main Language: N/A'' @ nl @
            ''Language Breakdown: TypeScript, CSS'' @ nl @
            ''Root Directory Contents: src/, package.json'' @ nl @
            ''Package Name: N/A'')"
proof -
  let ?f = "fst (fetch_part000 acme_world ''acme'' ''widget'')"
  let ?ctx = "''Repository URL: https://github.com/acme/widget'' @ nl @
            ''Description: A widget'' @ nl @
            ''Main Language: N/A'' @ nl @
            ''Language Breakdown: TypeScript, CSS'' @ nl @
            ''Root Directory Contents: src/, package.json'' @ nl @
            ''Package Name: N/A''"
  have c: "context_part000 ''https://github.com/acme/widget'' ?f = Inr ?ctx"
    using acme_context_part000 by (simp add: acme_fetch_part000)
  have d: "description_fragment ?f = ''Description: A widget''"
    "language_fragment ?f = ''Main Language: N/A''"
    "breakdown_fragment ?f = ''Language Breakdown: TypeScript, CSS''"
    "root_fragment ?f = ''Root Directory Contents: src/, package.json''"
    "note_fragment note_part000 ?f = []"
    "packageJsonContent ?f = JObj []"
    by (simp_all add: acme_fetch_part000 description_fragment_def language_fragment_def
          breakdown_fragment_def root_fragment_def note_fragment_def or_else_def)
  have n: "name_fragment (JObj []) = Inr ''Package Name: N/A''"
    "dependencies_fragment (JObj []) = Inr []" "scripts_fragment (JObj []) = Inr []"
    by (simp_all add: name_fragment_def dependencies_fragment_def scripts_fragment_def opt_prop_def)
  from context_fragments_in_fixed_order
         [where f = ?f and repoUrl = "''https://github.com/acme/widget''" and ctx = ?ctx]
  obtain frs where
    f: "fragments note_part000 ''https://github.com/acme/widget'' ?f = Inr frs"
    using c by blast
  from context_fragments_in_fixed_order
         [where f = ?f and repoUrl = "''https://github.com/acme/widget''" and frs = frs
            and ?note = note_part000] f
  have "frs = [''Repository URL: https://github.com/acme/widget'', ''Description: A widget'',
            ''Main Language: N/A'', ''Language Breakdown: TypeScript, CSS'',
            ''Root Directory Contents: src/, package.json'', ''Package Name: N/A'', [], [], []]"
    by (simp add: d n)
  with f c show ?thesis by simp
qed

text \<open>
  Stated without exception, the omission of every fragment with missing data fails. In
  \<^verbatim>\<open>part_000\<close>, metadata without description and language gives the lines
  \<^verbatim>\<open>Description: N/A\<close> and \<^verbatim>\<open>Main Language: N/A\<close>, and a fetch error gives an empty line
  before the note; in \<^verbatim>\<open>route.ts\<close>, when nothing was fetched, eight lines of the context
  hold only spaces.
\<close>

theorem context_has_placeholders_and_blank_lines:
  "repoInfo bare_metadata = Some \<lparr>repo_description = None, repo_language = None\<rparr> \<and>
   context_part000 ''https://github.com/acme/widget'' bare_metadata
     = Inr (''Repository URL: https://github.com/acme/widget'' @ nl @
            ''Description: N/A'' @ nl @ ''Main Language: N/A'') \<and>
   context_part000 ''https://github.com/acme/widget''
     (nothing_fetched\<lparr>fetchError := Some ''Failed to fetch data from GitHub (Status: 404). Not Found''\<rparr>)
     = Inr (''Repository URL: https://github.com/acme/widget'' @ nl @ nl @
            ''Note: GitHub fetch error occurred: Failed to fetch data from GitHub (Status: 404). Not Found'') \<and>
   context_route ''https://github.com/acme/widget'' nothing_fetched
     = Inr (nl @ ''          Repository URL: https://github.com/acme/widget'' @
            nl @ ''          '' @ nl @ ''          '' @ nl @ ''          '' @ nl @ ''          '' @
            nl @ ''          '' @ nl @ ''          '' @ nl @ ''          '' @ nl @ ''          '' @
            nl @ ''        '')"
  using bare_metadata_context_part000 blocked_context_part000 nothing_fetched_context_route
  by (simp add: bare_metadata_def)

subsection \<open>The dependencies fragment\<close>

text \<open>
  Claim C6. For a manifest whose \<^verbatim>\<open>dependencies\<close> are present, \<^verbatim>\<open>Object.keys\<close> gives
  their names; with more than 10 names the fragment lists the first 10, separated by
  commas, followed by a space and \<^verbatim>\<open>...\<close>; with 10 names or fewer it lists all of them,
  followed by a space and no \<^verbatim>\<open>...\<close>.
\<close>

theorem dependencies_fragment_lists_at_most_ten:
  assumes "opt_prop pkg ''dependencies'' = Some d" "truthy d"
  shows "\<exists>names. Object_keys d = Inr names \<and>
     (10 < length names \<longrightarrow>
        dependencies_fragment pkg
          = Inr (''Dependencies: '' @ join '', '' (take 10 names) @ '' ...'')) \<and>
     (length names \<le> 10 \<longrightarrow>
        dependencies_fragment pkg = Inr (''Dependencies: '' @ join '', '' names @ '' ''))"
proof -
  from Object_keys_truthy[OF assms(2)] obtain names where "Object_keys d = Inr names" ..
  then show ?thesis using assms by (auto simp: dependencies_fragment_def)
qed

theorem dependencies_fragment_lists_at_most_ten_witness:
  "opt_prop eleven_dependencies ''dependencies''
     = Some (JObj [(''a'', JStr ''1''), (''b'', JStr ''1''), (''c'', JStr ''1''), (''d'', JStr ''1''),
                  (''e'', JStr ''1''), (''f'', JStr ''1''), (''g'', JStr ''1''), (''h'', JStr ''1''),
                  (''i'', JStr ''1''), (''j'', JStr ''1''), (''k'', JStr ''1'')]) \<and>
   dependencies_fragment eleven_dependencies
     = Inr ''Dependencies: a, b, c, d, e, f, g, h, i, j ...''"
proof -
  have h: "opt_prop eleven_dependencies ''dependencies''
     = Some (JObj [(''a'', JStr ''1''), (''b'', JStr ''1''), (''c'', JStr ''1''), (''d'', JStr ''1''),
                  (''e'', JStr ''1''), (''f'', JStr ''1''), (''g'', JStr ''1''), (''h'', JStr ''1''),
                  (''i'', JStr ''1''), (''j'', JStr ''1''), (''k'', JStr ''1'')])"
    by (simp add: eleven_dependencies_def opt_prop_def)
  show ?thesis
    using dependencies_fragment_lists_at_most_ten [OF h] h by auto
qed

subsection \<open>Missing credentials\<close>

text \<open>
  Claim C7. When either credential is unset or empty, both handlers answer with status
  500 and the error \<^verbatim>\<open>Server configuration error.\<close>, issue no outbound call, and give
  the same answer whichever credential is missing and whatever the request is.
\<close>

theorem missing_credential_gives_generic_error:
  assumes "missing_credentials w" "missing_credentials w'"
  shows "POST_route w = (\<lparr>status = 500, body = ErrorBody ''Server configuration error.''\<rparr>, []) \<and>
         POST_part000 w = (\<lparr>status = 500, body = ErrorBody ''Server configuration error.''\<rparr>, []) \<and>
         POST_route w = POST_route w' \<and> POST_part000 w = POST_part000 w'"
  using assms
  by (simp add: POST_route_def POST_part000_def server_configuration_error_def json_response_def)

theorem missing_credential_gives_generic_error_witness:
  "missing_credentials unconfigured_world \<and> missing_credentials no_google_key_world \<and>
   GITHUB_PAT unconfigured_world = None \<and> GOOGLE_API_KEY unconfigured_world = Some ''key'' \<and>
   GITHUB_PAT no_google_key_world = Some ''pat'' \<and> GOOGLE_API_KEY no_google_key_world = Some [] \<and>
   POST_route unconfigured_world
     = (\<lparr>status = 500, body = ErrorBody ''Server configuration error.''\<rparr>, []) \<and>
   POST_part000 unconfigured_world
     = (\<lparr>status = 500, body = ErrorBody ''Server configuration error.''\<rparr>, []) \<and>
   POST_route unconfigured_world = POST_route no_google_key_world \<and>
   POST_part000 unconfigured_world = POST_part000 no_google_key_world"
proof -
  have h1: "missing_credentials unconfigured_world"
    by (simp add: missing_credentials_def unconfigured_world_def truthy_str_def)
  have h2: "missing_credentials no_google_key_world"
    by (simp add: missing_credentials_def no_google_key_world_def truthy_str_def)
  have h3: "GITHUB_PAT unconfigured_world = None \<and> GOOGLE_API_KEY unconfigured_world = Some ''key'' \<and>
    GITHUB_PAT no_google_key_world = Some ''pat'' \<and> GOOGLE_API_KEY no_google_key_world = Some []"
    by (simp add: unconfigured_world_def trailing_slash_world_def no_google_key_world_def acme_world_def)
  show ?thesis
    using missing_credential_gives_generic_error [OF h1 h2] h1 h2 h3 by blast
qed

subsection \<open>The shapes of the answer\<close>

text \<open>
  Claim C8. Every answer of the handler, in both files, is one of three, and the request
  decides which. Status 200 with the text that \<^verbatim>\<open>response.text()\<close> returned for the
  prompt sent to the inference API, unchanged: on a configured server, for a recognizable
  URL, when the generation does not fail. Status 400 with an error message: on a
  configured server, for a request without a recognizable URL. Status 500 with an error
  message: when a credential is missing, or when for a recognizable URL the generation
  fails, that is, assembling the context throws, the call of the inference API throws,
  its result has no response, or \<^verbatim>\<open>response.text()\<close> throws.
\<close>

theorem every_response_has_one_of_three_shapes:
  "((\<exists>repoUrl owner repo ctx result rsp t.
       fst (POST_route w) = \<lparr>status = 200, body = Readme t\<rparr> \<and>
       GenerateContent (prompt_head_route @ ctx @ prompt_tail_route) \<in> set (snd (POST_route w)) \<and>
       generateContent w (prompt_head_route @ ctx @ prompt_tail_route) = Inr result \<and>
       response result = Some rsp \<and> response_text rsp = Inr t \<and>
       \<not> missing_credentials w \<and> recognizable_repoUrl (request_json w) \<and>
       parse_request_route (request_json w) = Inr (repoUrl, owner, repo) \<and>
       context_route repoUrl (fst (fetch_route w owner repo)) = Inr ctx \<and>
       \<not> generation_fails_route w repoUrl (fst (fetch_route w owner repo))) \<or>
    (\<exists>e. fst (POST_route w) = \<lparr>status = 400, body = ErrorBody e\<rparr> \<and>
       \<not> missing_credentials w \<and> \<not> recognizable_repoUrl (request_json w)) \<or>
    (\<exists>e. fst (POST_route w) = \<lparr>status = 500, body = ErrorBody e\<rparr> \<and>
       (missing_credentials w \<or>
        recognizable_repoUrl (request_json w) \<and>
        (\<exists>repoUrl owner repo.
            parse_request_route (request_json w) = Inr (repoUrl, owner, repo) \<and>
            generation_fails_route w repoUrl (fst (fetch_route w owner repo)))))) \<and>
   ((\<exists>repoUrl owner repo ctx result rsp t.
       fst (POST_part000 w) = \<lparr>status = 200, body = Readme t\<rparr> \<and>
       GenerateContent (prompt_head_part000 @ ctx @ prompt_tail_part000) \<in> set (snd (POST_part000 w)) \<and>
       generateContent w (prompt_head_part000 @ ctx @ prompt_tail_part000) = Inr result \<and>
       response result = Some rsp \<and> response_text rsp = Inr t \<and>
       \<not> missing_credentials w \<and> recognizable_repoUrl (request_json w) \<and>
       parse_request_part000 (request_json w) = Inr (repoUrl, owner, repo) \<and>
       context_part000 repoUrl (fst (fetch_part000 w owner repo)) = Inr ctx \<and>
       \<not> generation_fails_part000 w repoUrl (fst (fetch_part000 w owner repo))) \<or>
    (\<exists>e. fst (POST_part000 w) = \<lparr>status = 400, body = ErrorBody e\<rparr> \<and>
       \<not> missing_credentials w \<and> \<not> recognizable_repoUrl (request_json w)) \<or>
    (\<exists>e. fst (POST_part000 w) = \<lparr>status = 500, body = ErrorBody e\<rparr> \<and>
       (missing_credentials w \<or>
        recognizable_repoUrl (request_json w) \<and>
        (\<exists>repoUrl owner repo.
            parse_request_part000 (request_json w) = Inr (repoUrl, owner, repo) \<and>
            generation_fails_part000 w repoUrl (fst (fetch_part000 w owner repo))))))"
  using response_exact_route [of w] response_exact_part000 [of w] by (rule conjI)

theorem every_response_has_one_of_three_shapes_witness:
  "\<not> missing_credentials acme_world \<and> recognizable_repoUrl (request_json acme_world) \<and>
   fst (POST_route acme_world) = \<lparr>status = 200, body = Readme ''# widget''\<rparr> \<and>
   fst (POST_part000 acme_world) = \<lparr>status = 200, body = Readme ''# widget''\<rparr> \<and>
   (\<exists>prompt result rsp.
       GenerateContent prompt \<in> set (snd (POST_part000 acme_world)) \<and>
       generateContent acme_world prompt = Inr result \<and> response result = Some rsp \<and>
       response_text rsp = Inr ''# widget'') \<and>
   \<not> missing_credentials blocked_world \<and> recognizable_repoUrl (request_json blocked_world) \<and>
   (\<exists>e. fst (POST_route blocked_world) = \<lparr>status = 500, body = ErrorBody e\<rparr>) \<and>
   (\<exists>e. fst (POST_part000 blocked_world) = \<lparr>status = 500, body = ErrorBody e\<rparr>)"
proof -
  have r: "recognizable_repoUrl (request_json acme_world)"
    using acme_parse(1) recognizable_parse_route by blast
  have c': "\<not> missing_credentials blocked_world"
    using acme_configured by (simp add: missing_credentials_def blocked_world_def)
  have r': "recognizable_repoUrl (request_json blocked_world)"
    using r by (simp add: blocked_world_def)
  have g: "generateContent blocked_world p = Inr result \<Longrightarrow> response result = Some rsp \<Longrightarrow>
           response_text rsp \<noteq> Inr t" for p result rsp t
    by (auto simp: blocked_world_def)
  have b1: "\<exists>e. fst (POST_route blocked_world) = \<lparr>status = 500, body = ErrorBody e\<rparr>"
    using every_response_has_one_of_three_shapes [of blocked_world] c' r' g by blast
  have b2: "\<exists>e. fst (POST_part000 blocked_world) = \<lparr>status = 500, body = ErrorBody e\<rparr>"
    using every_response_has_one_of_three_shapes [of blocked_world] c' r' g by blast
  have a: "\<exists>prompt result rsp.
       GenerateContent prompt \<in> set (snd (POST_part000 acme_world)) \<and>
       generateContent acme_world prompt = Inr result \<and> response result = Some rsp \<and>
       response_text rsp = Inr ''# widget''"
    using every_response_has_one_of_three_shapes [of acme_world] acme_configured r acme_POST_part000
    by auto
  from acme_configured r acme_POST_route acme_POST_part000 a c' r' b1 b2 show ?thesis
    by (intro conjI)
qed

subsection \<open>What the URL check accepts\<close>

text \<open>
  Claim C9, amended. The pattern matches a string exactly when the string ends in
  \<^verbatim>\<open>github.com/<owner>/<repo>\<close>, the domain in any letter case, owner and repo
  non-empty and without a slash (a repo ending in \<^verbatim>\<open>.git\<close> included). So it accepts
  \<^verbatim>\<open>github.com/o/r\<close> without a scheme and \<^verbatim>\<open>evilgithub.com/o/r\<close>; it rejects every string
  with a trailing slash; and it rejects a string with further segments,
  \<^verbatim>\<open>t/a/b\<close>, exactly when \<^verbatim>\<open>t\<close> does not end in \<^verbatim>\<open>github.com\<close>. On a configured
  server a rejected URL is answered with status 400 and no outbound call, in both files.
\<close>

theorem url_check_accepts_iff_suffix:
  "(githubUrlMatch s \<noteq> None \<longleftrightarrow>
      (\<exists>pre host owner repo.
          s = pre @ host @ ''/'' @ owner @ ''/'' @ repo \<and> ci_eq host ''github.com'' \<and>
          owner \<noteq> [] \<and> slash_free owner \<and> repo \<noteq> [] \<and> slash_free repo)) \<and>
   githubUrlMatch ''github.com/o/r'' = Some (''o'', ''r'') \<and>
   githubUrlMatch ''evilgithub.com/o/r'' = Some (''o'', ''r'') \<and>
   githubUrlMatch (t @ ''/'') = None \<and>
   (a \<noteq> [] \<and> slash_free a \<and> b \<noteq> [] \<and> slash_free b \<longrightarrow>
      (githubUrlMatch (t @ ''/'' @ a @ ''/'' @ b) = None \<longleftrightarrow>
         \<not> (\<exists>p h. t = p @ h \<and> ci_eq h ''github.com''))) \<and>
   (\<not> missing_credentials w \<and> request_json w = Inr bd \<and>
    body_repoUrl bd = Inr (Some (JStr s)) \<and> githubUrlMatch s = None \<longrightarrow>
      (\<exists>e. POST_route w = (\<lparr>status = 400, body = ErrorBody e\<rparr>, [])) \<and>
      (\<exists>e. POST_part000 w = (\<lparr>status = 400, body = ErrorBody e\<rparr>, [])))"
proof -
  have 1: "githubUrlMatch s \<noteq> None \<longleftrightarrow>
      (\<exists>pre host owner repo.
          s = pre @ host @ ''/'' @ owner @ ''/'' @ repo \<and> ci_eq host ''github.com'' \<and>
          owner \<noteq> [] \<and> slash_free owner \<and> repo \<noteq> [] \<and> slash_free repo)"
    using githubUrlMatch_accepts_iff[of s] by simp
  have g: "ci_eq ''github.com'' ''github.com''" by (simp add: ci_eq_def)
  have sf: "slash_free ''o''" "slash_free ''r''" by (simp_all add: slash_free_def)
  have ng: "\<not> ends_with_git ''r''" by (simp add: ends_with_git_def)
  have 2: "githubUrlMatch ''github.com/o/r'' = Some (''o'', ''r'')"
    using githubUrlMatch_extracts[of "''github.com''" "''o''" "''r''" "[]" "[]"] g sf ng by simp
  have 3: "githubUrlMatch ''evilgithub.com/o/r'' = Some (''o'', ''r'')"
    using githubUrlMatch_extracts[of "''github.com''" "''o''" "''r''" "[]" "''evil''"] g sf ng by simp
  have 4: "githubUrlMatch (t @ ''/'') = None" by (rule githubUrlMatch_trailing_slash)
  have 5: "a \<noteq> [] \<and> slash_free a \<and> b \<noteq> [] \<and> slash_free b \<longrightarrow>
      (githubUrlMatch (t @ ''/'' @ a @ ''/'' @ b) = None \<longleftrightarrow>
         \<not> (\<exists>p h. t = p @ h \<and> ci_eq h ''github.com''))"
    using githubUrlMatch_two_segments[of a b t] by blast
  have 6: "\<not> missing_credentials w \<and> request_json w = Inr bd \<and>
    body_repoUrl bd = Inr (Some (JStr s)) \<and> githubUrlMatch s = None \<longrightarrow>
      (\<exists>e. POST_route w = (\<lparr>status = 400, body = ErrorBody e\<rparr>, [])) \<and>
      (\<exists>e. POST_part000 w = (\<lparr>status = 400, body = ErrorBody e\<rparr>, []))"
  proof (intro impI, elim conjE)
    assume c: "\<not> missing_credentials w" and r: "request_json w = Inr bd"
      and u: "body_repoUrl bd = Inr (Some (JStr s))" and n: "githubUrlMatch s = None"
    have "\<not> recognizable_repoUrl (request_json w)"
      using r u n by (simp add: recognizable_repoUrl_def)
    then obtain e1 e2 where "parse_request_route (request_json w) = Inl e1"
      "parse_request_part000 (request_json w) = Inl e2"
      using parse_request_route_fails parse_request_part000_fails by blast
    then show "(\<exists>e. POST_route w = (\<lparr>status = 400, body = ErrorBody e\<rparr>, [])) \<and>
      (\<exists>e. POST_part000 w = (\<lparr>status = 400, body = ErrorBody e\<rparr>, []))"
      using POST_route_bad_request[OF c] POST_part000_bad_request[OF c]
      by (simp add: bad_request_def json_response_def)
  qed
  from 1 2 3 4 5 6 show ?thesis by blast
qed

theorem url_check_accepts_iff_suffix_witness:
  "slash_free ''tree'' \<and> slash_free ''main'' \<and> \<not> missing_credentials tree_main_world \<and>
   githubUrlMatch ''https://github.com/acme/widget/'' = None \<and>
   githubUrlMatch ''https://github.com/acme/widget/tree/main'' = None \<and>
   (\<exists>e. POST_route tree_main_world = (\<lparr>status = 400, body = ErrorBody e\<rparr>, [])) \<and>
   (\<exists>e. POST_part000 tree_main_world = (\<lparr>status = 400, body = ErrorBody e\<rparr>, []))"
proof -
  note T = url_check_accepts_iff_suffix
    [where s = "''https://github.com/acme/widget/tree/main''"
       and t = "''https://github.com/acme/widget''" and a = "''tree''" and b = "''main''"
       and w = tree_main_world
       and bd = "JObj [(''repoUrl'', JStr ''https://github.com/acme/widget/tree/main'')]"]
  have sf: "slash_free ''tree''" "slash_free ''main''" by (simp_all add: slash_free_def)
  have c: "\<not> missing_credentials tree_main_world"
    by (simp add: missing_credentials_def tree_main_world_def acme_world_def truthy_str_def)
  have r: "request_json tree_main_world
             = Inr (JObj [(''repoUrl'', JStr ''https://github.com/acme/widget/tree/main'')])"
    by (simp add: tree_main_world_def)
  have u: "body_repoUrl (JObj [(''repoUrl'', JStr ''https://github.com/acme/widget/tree/main'')])
             = Inr (Some (JStr ''https://github.com/acme/widget/tree/main''))"
    by (simp add: body_repoUrl_def)
  have n1: "githubUrlMatch ''https://github.com/acme/widget/'' = None"
    using T by simp
  have n2: "githubUrlMatch ''https://github.com/acme/widget/tree/main'' = None"
    using T sf no_github_suffix by simp
  show ?thesis using T sf c r u n1 n2 by blast
qed

text \<open>
  Stated for every URL with further path segments, the rejection fails: the URL
  of the tree of a repository named \<^verbatim>\<open>github.com\<close> is accepted, as owner \<^verbatim>\<open>tree\<close> and
  repo \<^verbatim>\<open>main\<close>, and the request is not answered with status 400.
\<close>

theorem url_with_extra_segments_accepted:
  "githubUrlMatch ''https://github.com/acme/github.com/tree/main'' = Some (''tree'', ''main'') \<and>
   parse_request_route (request_json repo_named_github_com_world)
     = Inr (''https://github.com/acme/github.com/tree/main'', ''tree'', ''main'') \<and>
   parse_request_part000 (request_json repo_named_github_com_world)
     = Inr (''https://github.com/acme/github.com/tree/main'', ''tree'', ''main'') \<and>
   hd (snd (POST_route repo_named_github_com_world)) = ReposGet ''tree'' ''main'' \<and>
   hd (snd (POST_part000 repo_named_github_com_world)) = ReposGet ''tree'' ''main'' \<and>
   status (fst (POST_route repo_named_github_com_world)) \<noteq> 400 \<and>
   status (fst (POST_part000 repo_named_github_com_world)) \<noteq> 400"
proof -
  have g: "ci_eq ''github.com'' ''github.com''" by (simp add: ci_eq_def)
  have sf: "slash_free ''tree''" "slash_free ''main''" by (simp_all add: slash_free_def)
  have ng: "\<not> ends_with_git ''main''" by (simp add: ends_with_git_def)
  have m: "githubUrlMatch ''https://github.com/acme/github.com/tree/main'' = Some (''tree'', ''main'')"
    using githubUrlMatch_extracts[of "''github.com''" "''tree''" "''main''" "[]" "''https://github.com/acme/''"]
      g sf ng by simp
  have b: "body_repoUrl (JObj [(''repoUrl'', JStr ''https://github.com/acme/github.com/tree/main'')])
             = Inr (Some (JStr ''https://github.com/acme/github.com/tree/main''))"
    by (simp add: body_repoUrl_def)
  have p: "parse_request_route (request_json repo_named_github_com_world)
     = Inr (''https://github.com/acme/github.com/tree/main'', ''tree'', ''main'')"
    "parse_request_part000 (request_json repo_named_github_com_world)
     = Inr (''https://github.com/acme/github.com/tree/main'', ''tree'', ''main'')"
    using parse_request_route_ok[OF b m] parse_request_part000_ok[OF b m]
    by (simp_all add: repo_named_github_com_world_def)
  have c: "\<not> missing_credentials repo_named_github_com_world"
    by (simp add: missing_credentials_def repo_named_github_com_world_def acme_world_def truthy_str_def)
  have r: "recognizable_repoUrl (request_json repo_named_github_com_world)"
    using p(1) recognizable_parse_route by blast
  have s: "status (fst (POST_route repo_named_github_com_world)) \<noteq> 400"
    "status (fst (POST_part000 repo_named_github_com_world)) \<noteq> 400"
    using response_shapes[of repo_named_github_com_world] c r by auto
  have h1: "hd (snd (POST_route repo_named_github_com_world)) = ReposGet ''tree'' ''main''"
    unfolding POST_route_parsed[OF c p(1)]
    by (simp add: fetch_route_def split: sum.splits)
  have h2: "hd (snd (POST_part000 repo_named_github_com_world)) = ReposGet ''tree'' ''main''"
    unfolding POST_part000_parsed[OF c p(2)]
    by (simp add: fetch_part000_def Let_def split: option.splits prod.splits sum.splits)
  from m p s h1 h2 show ?thesis by blast
qed

subsection \<open>\<^verbatim>\<open>safeDecodeBase64\<close> never throws\<close>

text \<open>
  Claim C10. Whatever the decoding and the parsing do, \<^verbatim>\<open>safeDecodeBase64\<close> returns a
  value: \<^verbatim>\<open>null\<close>, or what \<^verbatim>\<open>JSON.parse\<close> returned for the decoded content. An
  undefined or empty input gives \<^verbatim>\<open>null\<close>, and so does an exception of the decoding
  or of the parsing.
\<close>

theorem safeDecodeBase64_never_throws:
  "safeDecodeBase64 w None = JNull \<and> safeDecodeBase64 w (Some []) = JNull \<and>
   (safeDecodeBase64 w encoded = JNull \<or>
    (\<exists>s decoded. encoded = Some s \<and> s \<noteq> [] \<and> Buffer_from_base64 w s = Inr decoded \<and>
       JSON_parse w decoded = Inr (safeDecodeBase64 w encoded))) \<and>
   (Buffer_from_base64 w s = Inl e \<longrightarrow> safeDecodeBase64 w (Some s) = JNull) \<and>
   (Buffer_from_base64 w s = Inr d \<and> JSON_parse w d = Inl e \<longrightarrow> safeDecodeBase64 w (Some s) = JNull)"
  by (auto simp: safeDecodeBase64_def split: option.splits sum.splits)

theorem safeDecodeBase64_never_throws_witness:
  "Buffer_from_base64 unparsable_manifest_world ''e30='' = Inr ''{}'' \<and>
   JSON_parse unparsable_manifest_world ''{}'' = Inl (Error ''Unexpected end of JSON input'') \<and>
   safeDecodeBase64 unparsable_manifest_world (Some ''e30='') = JNull \<and>
   safeDecodeBase64 acme_world (Some ''e30='') = JObj []"
proof -
  have h: "Buffer_from_base64 unparsable_manifest_world ''e30='' = Inr ''{}'' \<and>
   JSON_parse unparsable_manifest_world ''{}'' = Inl (Error ''Unexpected end of JSON input'')"
    by (simp add: unparsable_manifest_world_def acme_world_def)
  have "safeDecodeBase64 acme_world (Some ''e30='') = JObj []"
    using safeDecodeBase64_never_throws [of acme_world "Some ''e30=''"]
    by (simp add: acme_world_def safeDecodeBase64_def)
  then show ?thesis
    using safeDecodeBase64_never_throws
      [where w = unparsable_manifest_world and s = "''e30=''" and d = "''{}''"
         and e = "Error ''Unexpected end of JSON input''"] h
    by blast
qed


end
